theory Spec2Isabelle
  imports Main
begin

unbundle bit_operations_syntax

section \<open>Errors, configuration and the ethers helpers\<close>

text \<open>
  Every \<^verbatim>\<open>throw\<close> and every rejected promise of the TypeScript is a value
  \<open>Inl e\<close> of the result type \<open>error + 'a\<close>.
\<close>

datatype error =
    InvalidHexlifyValue
  | HexZeroPadOutOfRange
  | TypeError
  | Rejected string

text \<open>
  The argument of \<^verbatim>\<open>ERC725.encodePermissions\<close> is a JavaScript object from
  permission names to booleans: \<^verbatim>\<open>{ CHANGEOWNER: true, CHANGEPERMISSIONS: true }\<close>
  is \<open>[(''CHANGEOWNER'', True), (''CHANGEPERMISSIONS'', True)]\<close> and \<^verbatim>\<open>{}\<close> is
  \<open>[]\<close>.
\<close>

type_synonym permissions = "(string \<times> bool) list"

text \<open>
  The constants of \<^verbatim>\<open>../helpers/config.helper\<close> are imported by
  \<^verbatim>\<open>universal-profile.service.ts\<close> but their values are not part of the sources, and
  neither are the permission table of \<^verbatim>\<open>ERC725.encodePermissions\<close> (erc725.js) and the
  proxy template of \<^verbatim>\<open>getProxyByteCode\<close>. They are parameters of the model: every
  function takes the configuration it runs with. \<^verbatim>\<open>LSP3_UP_KEYS\<close> is an object with
  the two fields used here.
\<close>

record config =
  ADDRESS_PERMISSIONS_ARRAY_KEY :: string
  DEFAULT_PERMISSIONS :: permissions
  ERC725_ACCOUNT_INTERFACE :: string
  GAS_BUFFER :: int
  GAS_PRICE :: int
  LSP3_UP_KEYS_UNIVERSAL_RECEIVER_DELEGATE_KEY :: string
  LSP3_UP_KEYS_LSP3_PROFILE :: string
  PREFIX_PERMISSIONS :: string
  encodePermissions :: "permissions \<Rightarrow> string"
  getProxyByteCode :: "string \<Rightarrow> string"

definition hex_char :: "nat \<Rightarrow> char" where
  "hex_char n = ''0123456789abcdef'' ! (n mod 16)"

text \<open>
  \<^verbatim>\<open>ethers.utils.hexlify\<close> on an array: every element has to be an integer byte
  (\<open>0 \<le> v < 256\<close>), otherwise it throws "invalid hexlify value"; the result is
  \<^verbatim>\<open>0x\<close> followed by two lower-case digits per byte.
\<close>

definition hexlify :: "nat list \<Rightarrow> error + string" where
  "hexlify bs =
     (if list_all (\<lambda>v. v < 256) bs
      then Inr (''0x'' @ concat (map (\<lambda>v. [hex_char (v div 16), hex_char (v mod 16)]) bs))
      else Inl InvalidHexlifyValue)"

text \<open>
  \<^verbatim>\<open>ethers.utils.hexZeroPad(value, length)\<close> on a hex string: throws when the value
  is longer than \<open>length\<close> bytes, otherwise inserts zero digits after \<^verbatim>\<open>0x\<close> until the
  string has \<open>2 * length + 2\<close> characters.
\<close>

definition hexZeroPad :: "string \<Rightarrow> nat \<Rightarrow> error + string" where
  "hexZeroPad v n =
     (if length v > 2 * n + 2 then Inl HexZeroPadOutOfRange
      else Inr (''0x'' @ replicate (2 * n + 2 - length v) CHR ''0'' @ drop 2 v))"

text \<open>
  \<^verbatim>\<open>ethers.utils.defaultAbiCoder.encode(['uint256'], [n])\<close>: the 32-byte big-endian
  word, as 64 hex digits.
\<close>

fun hex_digits :: "nat \<Rightarrow> nat \<Rightarrow> string" where
  "hex_digits 0 n = []"
| "hex_digits (Suc w) n = hex_digits w (n div 16) @ [hex_char n]"

definition abi_encode_uint256 :: "nat \<Rightarrow> string" where
  "abi_encode_uint256 n = ''0x'' @ hex_digits 64 n"

text \<open>
  \<^verbatim>\<open>Array.prototype.indexOf\<close> returns \<open>-1\<close> when the element is absent, and an
  assignment \<^verbatim>\<open>xs[i] = v\<close> writes a property that is no element when \<open>i\<close> is negative,
  replaces the element when \<open>i\<close> is in range and extends the array with holes otherwise.
  An array slot holding \<^verbatim>\<open>undefined\<close> (or a hole) is \<open>None\<close>.
\<close>

fun indexOf :: "'a list \<Rightarrow> 'a \<Rightarrow> int" where
  "indexOf [] x = - 1"
| "indexOf (y # ys) x =
     (if y = x then 0 else (let i = indexOf ys x in if i < 0 then - 1 else i + 1))"

definition js_assign :: "'a option list \<Rightarrow> int \<Rightarrow> 'a option \<Rightarrow> 'a option list" where
  "js_assign xs i v =
     (if i < 0 then xs
      else if nat i < length xs then xs[nat i := v]
      else xs @ replicate (nat i - length xs) None @ [v])"

fun map_result :: "('a \<Rightarrow> error + 'b) \<Rightarrow> 'a list \<Rightarrow> error + 'b list" where
  "map_result f [] = Inr []"
| "map_result f (x # xs) =
     (case f x of
        Inl e \<Rightarrow> Inl e
      | Inr y \<Rightarrow> (case map_result f xs of Inl e \<Rightarrow> Inl e | Inr ys \<Rightarrow> Inr (y # ys)))"

section \<open>The chain as seen through a signer\<close>

text \<open>
  A call of a contract method, as the service issues it: the batched
  \<^verbatim>\<open>setData(bytes32[],bytes[])\<close> and \<^verbatim>\<open>transferOwnership\<close> on the account,
  \<^verbatim>\<open>execute(payload)\<close> on the key manager, and the initialisation of a proxy. The two
  payloads are \<^verbatim>\<open>getSighash('claimOwnership')\<close> and
  \<^verbatim>\<open>encodeFunctionData('setData(bytes32,bytes)', [key, value])\<close>.
\<close>

datatype payload =
    ClaimOwnershipSighash
  | SetDataCalldata string string

datatype contract_call =
    SetDataArrays string "string list" "string option list"
  | TransferOwnership string string
  | Execute string payload
  | InitializeCall string string "string list"

datatype creation_code =
    UniversalProfileBytecode
  | CustomBytecode string

text \<open>
  What reaches the provider, in the order in which the calls are made: a gas estimate
  (call and \<^verbatim>\<open>from\<close> override), a submitted transaction (call, \<^verbatim>\<open>from\<close>,
  \<^verbatim>\<open>gasLimit\<close>, \<^verbatim>\<open>gasPrice\<close>), a contract creation (creation code and
  constructor arguments) and a confirmed receipt of the transaction submitted at the
  given position of the log.
\<close>

datatype event =
    GasEstimated contract_call "string option"
  | TransactionSent contract_call string int int
  | DeploymentSent creation_code "string list"
  | ReceiptConfirmed nat

record log_entry =
  address :: string
  topics :: "string list"

record transaction_receipt =
  contractAddress :: "string option"
  receipt_to :: "string option"
  logs :: "log_entry list"

text \<open>
  A \<^verbatim>\<open>Signer\<close> with its provider. The answers of the chain are not determined by the
  program, so they are fields of the signer: each may depend on everything sent so far.
  \<open>estimateGasResult\<close> answers an estimate, \<open>sendResult\<close> says whether a submission is
  rejected (its argument is the log including the submission), \<open>waitResult\<close> answers
  \<^verbatim>\<open>transaction.wait()\<close> for the transaction submitted at the given position,
  \<open>contractAddressResult\<close> is the address of a contract being created and
  \<open>supportsInterfaceResult\<close> answers the ERC165 read of an address.
\<close>

record signer =
  getAddress :: "error + string"
  estimateGasResult :: "event list \<Rightarrow> contract_call \<Rightarrow> error + int"
  sendResult :: "event list \<Rightarrow> error option"
  waitResult :: "event list \<Rightarrow> nat \<Rightarrow> error + transaction_receipt"
  contractAddressResult :: "event list \<Rightarrow> string"
  supportsInterfaceResult :: "string \<Rightarrow> string \<Rightarrow> error + bool"

section \<open>Key/permission encoder\<close>

text \<open>
  A controller is \<^verbatim>\<open>string | ControllerOptions\<close>; the options object has an
  \<^verbatim>\<open>address\<close> and \<^verbatim>\<open>permissions\<close>, which \<^verbatim>\<open>revokeSignerPermissions\<close> treats as
  possibly missing (\<^verbatim>\<open>controller.permissions ?? ...\<close>).
\<close>

datatype controller =
    Address string
  | Options string "string option"

fun controller_address :: "controller \<Rightarrow> string" where
  "controller_address (Address a) = a"
| "controller_address (Options a p) = a"

fun controller_permissions :: "config \<Rightarrow> controller \<Rightarrow> string option" where
  "controller_permissions cfg (Address a) =
     Some (encodePermissions cfg (DEFAULT_PERMISSIONS cfg))"
| "controller_permissions cfg (Options a p) = p"

record set_data_parameters =
  keysToSet :: "string list"
  valuesToSet :: "string option list"
  erc725AccountAddress :: string

text \<open>
  \<^verbatim>\<open>ADDRESS_PERMISSIONS_ARRAY_KEY.slice(0, 34) +
  ethers.utils.hexZeroPad(ethers.utils.hexlify([index]), 16).substring(2)\<close>
\<close>

definition array_element_key :: "config \<Rightarrow> nat \<Rightarrow> error + string" where
  "array_element_key cfg index =
     (case hexlify [index] of
        Inl e \<Rightarrow> Inl e
      | Inr hexIndex \<Rightarrow>
          (case hexZeroPad hexIndex 16 of
             Inl e \<Rightarrow> Inl e
           | Inr padded \<Rightarrow> Inr (take 34 (ADDRESS_PERMISSIONS_ARRAY_KEY cfg) @ drop 2 padded)))"

text \<open>
  The two array literals \<^verbatim>\<open>keysToSet\<close> and \<^verbatim>\<open>valuesToSet\<close> as they are first
  built, before the signer's entry and the profile are added.
\<close>

definition initial_keysToSet ::
  "config \<Rightarrow> string \<Rightarrow> string list \<Rightarrow> string list \<Rightarrow> string \<Rightarrow> string list" where
  "initial_keysToSet cfg universalReceiverDelegateAddress addressPermissionsArrayElements
       addressPermissionsKeys universalReceiverPermissionIndex =
     [LSP3_UP_KEYS_UNIVERSAL_RECEIVER_DELEGATE_KEY cfg,
      PREFIX_PERMISSIONS cfg @ drop 2 universalReceiverDelegateAddress,
      ADDRESS_PERMISSIONS_ARRAY_KEY cfg]
     @ addressPermissionsArrayElements
     @ addressPermissionsKeys
     @ [universalReceiverPermissionIndex]"

definition initial_valuesToSet ::
  "config \<Rightarrow> string \<Rightarrow> string list \<Rightarrow> string option list \<Rightarrow> string option list" where
  "initial_valuesToSet cfg universalReceiverDelegateAddress controllerAddresses
       controllerPermissions =
     [Some universalReceiverDelegateAddress,
      Some (encodePermissions cfg [(''SUPER_SETDATA'', True)]),
      Some (abi_encode_uint256 (length controllerPermissions + 1))]
     @ map Some controllerAddresses
     @ controllerPermissions
     @ [Some universalReceiverDelegateAddress]"

text \<open>
  JavaScript truthiness of an optional string: \<^verbatim>\<open>undefined\<close>, \<^verbatim>\<open>null\<close> and the
  empty string are falsy.
\<close>

fun truthy :: "string option \<Rightarrow> bool" where
  "truthy None = False"
| "truthy (Some p) = (p \<noteq> [])"

text \<open>
  The end of \<^verbatim>\<open>prepareSetDataParameters\<close>, from the test
  \<^verbatim>\<open>controllerAddresses.includes(signerAddress)\<close> to the returned object: the signer's
  entry is pushed, or written over the value at the first position of the signer's key, and
  a truthy \<^verbatim>\<open>encodedLSP3Profile\<close> is pushed under the profile key.
\<close>

definition signer_and_profile_entries ::
  "config \<Rightarrow> string list \<Rightarrow> string \<Rightarrow> string option \<Rightarrow> string
     \<Rightarrow> string list \<Rightarrow> string option list \<Rightarrow> set_data_parameters" where
  "signer_and_profile_entries cfg controllerAddresses signerAddress encodedLSP3Profile
       accountAddress keys0 values0 =
     (let handoff =
            encodePermissions cfg [(''CHANGEOWNER'', True), (''CHANGEPERMISSIONS'', True)];
          signerKey = PREFIX_PERMISSIONS cfg @ drop 2 signerAddress;
          keys1 =
            (if signerAddress \<notin> set controllerAddresses
             then keys0 @ [signerKey] else keys0);
          values1 =
            (if signerAddress \<notin> set controllerAddresses
             then values0 @ [Some handoff]
             else js_assign values0 (indexOf keys0 signerKey) (Some handoff));
          withProfile = truthy encodedLSP3Profile
      in \<lparr> keysToSet =
             (if withProfile then keys1 @ [LSP3_UP_KEYS_LSP3_PROFILE cfg] else keys1),
           valuesToSet =
             (if withProfile then values1 @ [encodedLSP3Profile] else values1),
           erc725AccountAddress = accountAddress \<rparr>)"

definition prepareSetDataParameters ::
  "config \<Rightarrow> signer \<Rightarrow> string \<Rightarrow> string \<Rightarrow> controller list \<Rightarrow> string option
     \<Rightarrow> error + set_data_parameters" where
  "prepareSetDataParameters cfg signer accountAddress universalReceiverDelegateAddress
       controllers encodedLSP3Profile =
     (let controllerAddresses = map controller_address controllers;
          controllerPermissions = map (controller_permissions cfg) controllers;
          addressPermissionsKeys =
            map (\<lambda>address. PREFIX_PERMISSIONS cfg @ drop 2 address) controllerAddresses
      in case map_result (array_element_key cfg) [0..<length controllerAddresses] of
           Inl e \<Rightarrow> Inl e
         | Inr addressPermissionsArrayElements \<Rightarrow>
       (case array_element_key cfg (length controllerAddresses) of
           Inl e \<Rightarrow> Inl e
         | Inr universalReceiverPermissionIndex \<Rightarrow>
       (case getAddress signer of
           Inl e \<Rightarrow> Inl e
         | Inr signerAddress \<Rightarrow>
             Inr (signer_and_profile_entries cfg controllerAddresses signerAddress
                    encodedLSP3Profile accountAddress
                    (initial_keysToSet cfg universalReceiverDelegateAddress
                       addressPermissionsArrayElements addressPermissionsKeys
                       universalReceiverPermissionIndex)
                    (initial_valuesToSet cfg universalReceiverDelegateAddress
                       controllerAddresses controllerPermissions)))))"

section \<open>Transactions of the ownership handoff\<close>

text \<open>
  The state that the asynchronous functions change is the log of what was sent to the
  provider. An \<^verbatim>\<open>async\<close> function is a function from the log to its settled result and
  the new log; \<open>then_do\<close> is \<^verbatim>\<open>await\<close>: a rejection ends the function.
\<close>

type_synonym 'a action = "event list \<Rightarrow> (error + 'a) \<times> event list"

definition return_value :: "'a \<Rightarrow> 'a action" where
  "return_value x = (\<lambda>log. (Inr x, log))"

definition reject :: "error \<Rightarrow> 'a action" where
  "reject e = (\<lambda>log. (Inl e, log))"

definition then_do :: "'a action \<Rightarrow> ('a \<Rightarrow> 'b action) \<Rightarrow> 'b action" where
  "then_do m f =
     (\<lambda>log. case m log of (Inl e, log') \<Rightarrow> (Inl e, log') | (Inr x, log') \<Rightarrow> f x log')"

definition signer_getAddress :: "signer \<Rightarrow> string action" where
  "signer_getAddress signer = (\<lambda>log. (getAddress signer, log))"

text \<open>\<^verbatim>\<open>contract.estimateGas.f(args, { from })\<close>: the request is logged, the chain answers.\<close>

definition estimateGas :: "signer \<Rightarrow> contract_call \<Rightarrow> string option \<Rightarrow> int action" where
  "estimateGas signer call from =
     (\<lambda>log. (estimateGasResult signer log call, log @ [GasEstimated call from]))"

text \<open>
  \<^verbatim>\<open>contract.f(args, { from, gasLimit, gasPrice })\<close>: the transaction is logged at
  position \<open>length log\<close>, which names it from then on; the returned promise settles to
  that name or to the chain's rejection. The promise is returned as a value, since the
  batched calls keep it without awaiting it.
\<close>

definition sendTransaction ::
  "signer \<Rightarrow> contract_call \<Rightarrow> string \<Rightarrow> int \<Rightarrow> int \<Rightarrow> event list \<Rightarrow> (error + nat) \<times> event list" where
  "sendTransaction signer call from gasLimit gasPrice =
     (\<lambda>log. let log' = log @ [TransactionSent call from gasLimit gasPrice]
            in (case sendResult signer log' of
                  None \<Rightarrow> Inr (length log)
                | Some e \<Rightarrow> Inl e, log'))"

text \<open>
  \<^verbatim>\<open>transaction.wait()\<close>: resolves with the receipt once the transaction is confirmed,
  which the log records, or rejects.
\<close>

definition wait_for_transaction :: "signer \<Rightarrow> nat \<Rightarrow> transaction_receipt action" where
  "wait_for_transaction signer tx =
     (\<lambda>log. case waitResult signer log tx of
              Inl e \<Rightarrow> (Inl e, log)
            | Inr r \<Rightarrow> (Inr r, log @ [ReceiptConfirmed tx]))"

datatype deployment_type = CONTRACT | PROXY | TRANSACTION

datatype deployment_status = PENDING | COMPLETE

datatype contract_names = ERC725_Account

text \<open>
  The deployment events of \<^verbatim>\<open>../interfaces\<close>, with the fields this file writes. A
  \<^verbatim>\<open>pendingTransaction\<close> is a promise that was not awaited: its settled value.
\<close>

record deployment_event =
  deployment_type :: deployment_type
  contractName :: contract_names
  status :: deployment_status
  functionName :: "string option"
  transaction :: "nat option"
  pendingTransaction :: "(error + nat) option"
  receipt :: "transaction_receipt option"

definition sendSetDataAndTransferOwnershipTransactions ::
  "config \<Rightarrow> signer \<Rightarrow> string \<Rightarrow> string list \<Rightarrow> string option list \<Rightarrow> string
     \<Rightarrow> deployment_event list action" where
  "sendSetDataAndTransferOwnershipTransactions cfg signer accountAddress keys vals
       keyManagerAddress =
     then_do (signer_getAddress signer) (\<lambda>signerAddress.
     then_do (estimateGas signer (SetDataArrays accountAddress keys vals) None)
       (\<lambda>setDataEstimate.
     then_do (estimateGas signer (TransferOwnership accountAddress keyManagerAddress)
                (Some signerAddress))
       (\<lambda>transferOwnershipEstimate log.
          let (setDataTransaction, log1) =
                sendTransaction signer (SetDataArrays accountAddress keys vals) signerAddress
                  (setDataEstimate + GAS_BUFFER cfg) (GAS_PRICE cfg) log;
              (transferOwnershipTransaction, log2) =
                sendTransaction signer (TransferOwnership accountAddress keyManagerAddress)
                  signerAddress (transferOwnershipEstimate + GAS_BUFFER cfg) (GAS_PRICE cfg)
                  log1
          in (Inr [\<lparr> deployment_type = TRANSACTION, contractName = ERC725_Account,
                      status = PENDING,
                      functionName = Some ''setData(bytes32[],bytes[])'',
                      transaction = None,
                      pendingTransaction = Some setDataTransaction, receipt = None \<rparr>,
                    \<lparr> deployment_type = TRANSACTION, contractName = ERC725_Account,
                      status = PENDING,
                      functionName = Some ''transferOwnership(address)'',
                      transaction = None,
                      pendingTransaction = Some transferOwnershipTransaction,
                      receipt = None \<rparr>], log2))))"

definition claimOwnership ::
  "config \<Rightarrow> signer \<Rightarrow> string \<Rightarrow> string \<Rightarrow> deployment_event action" where
  "claimOwnership cfg signer accountAddress keyManagerAddress =
     then_do (signer_getAddress signer) (\<lambda>signerAddress.
     then_do (estimateGas signer (Execute keyManagerAddress ClaimOwnershipSighash)
                (Some signerAddress))
       (\<lambda>claimOwnershipEstimate.
     then_do (sendTransaction signer (Execute keyManagerAddress ClaimOwnershipSighash)
                signerAddress (claimOwnershipEstimate + GAS_BUFFER cfg) (GAS_PRICE cfg))
       (\<lambda>claimOwnershipTransaction.
     return_value
       \<lparr> deployment_type = TRANSACTION, contractName = ERC725_Account, status = PENDING,
         functionName = Some ''claimOwnership()'',
         transaction = Some claimOwnershipTransaction,
         pendingTransaction = None, receipt = None \<rparr>)))"

text \<open>
  The permission that \<^verbatim>\<open>revokeSignerPermissions\<close> writes back for the signer:
  \<^verbatim>\<open>controllers[controllerAddress.indexOf(signerAddress)]\<close> is the first entry with the
  signer's address, and \<^verbatim>\<open>??\<close> replaces missing permissions by the default.
\<close>

definition signerPermission ::
  "config \<Rightarrow> string \<Rightarrow> controller list \<Rightarrow> string" where
  "signerPermission cfg signerAddress controllers =
     (let controllerAddress = map controller_address controllers
      in if signerAddress \<in> set controllerAddress
         then (case controllers ! nat (indexOf controllerAddress signerAddress) of
                 Address a \<Rightarrow> encodePermissions cfg (DEFAULT_PERMISSIONS cfg)
               | Options a None \<Rightarrow> encodePermissions cfg (DEFAULT_PERMISSIONS cfg)
               | Options a (Some p) \<Rightarrow> p)
         else encodePermissions cfg [])"

definition revokeSignerPermissions ::
  "config \<Rightarrow> signer \<Rightarrow> string \<Rightarrow> string \<Rightarrow> controller list \<Rightarrow> deployment_event action" where
  "revokeSignerPermissions cfg signer keyManagerAddress accountAddress controllers =
     then_do (signer_getAddress signer) (\<lambda>signerAddress.
     let revokeSignerPermissionsPayload =
           SetDataCalldata (PREFIX_PERMISSIONS cfg @ drop 2 signerAddress)
             (signerPermission cfg signerAddress controllers)
     in
     then_do (estimateGas signer (Execute keyManagerAddress revokeSignerPermissionsPayload)
                (Some signerAddress))
       (\<lambda>revokeSignerPermissionsEstimate.
     then_do (sendTransaction signer (Execute keyManagerAddress revokeSignerPermissionsPayload)
                signerAddress (revokeSignerPermissionsEstimate + GAS_BUFFER cfg)
                (GAS_PRICE cfg))
       (\<lambda>revokeSignerPermissionsTransaction.
     return_value
       \<lparr> deployment_type = TRANSACTION, contractName = ERC725_Account, status = PENDING,
         functionName = Some ''setData(bytes32,bytes)'',
         transaction = Some revokeSignerPermissionsTransaction,
         pendingTransaction = None, receipt = None \<rparr>)))"

text \<open>
  \<^verbatim>\<open>addressIsUniversalProfile\<close>: the body of the \<^verbatim>\<open>try\<close> block may throw at either
  read; the \<^verbatim>\<open>catch\<close> turns every error into \<^verbatim>\<open>false\<close>. The result is the settled
  value of the returned promise.
\<close>

definition supportsInterface_probe :: "config \<Rightarrow> signer \<Rightarrow> string \<Rightarrow> error + bool" where
  "supportsInterface_probe cfg signer addr =
     (case supportsInterfaceResult signer addr (ERC725_ACCOUNT_INTERFACE cfg) of
        Inl e \<Rightarrow> Inl e
      | Inr isUniversalProfile \<Rightarrow>
          if \<not> isUniversalProfile
          then supportsInterfaceResult signer addr ''0x63cb749b''
          else Inr isUniversalProfile)"

definition addressIsUniversalProfile :: "config \<Rightarrow> string \<Rightarrow> signer \<Rightarrow> error + bool" where
  "addressIsUniversalProfile cfg addr signer =
     (case supportsInterface_probe cfg signer addr of
        Inl e \<Rightarrow> Inr False
      | Inr isUniversalProfile \<Rightarrow> Inr isUniversalProfile)"

text \<open>
  Gas discipline of a step: \<open>estimated_by\<close> relates an estimate made at a given log to a
  submission of the same call whose gas limit is the answer to that estimate plus
  \<open>GAS_BUFFER\<close> and whose gas price is \<open>GAS_PRICE\<close>. A submission at position \<open>i\<close> of
  the events \<open>delta\<close> that a step appended to the log \<open>before\<close> has its own estimate when
  such an estimate is among the earlier events of \<open>delta\<close>, and has it immediately before
  when it is the event at \<open>i - 1\<close>.
\<close>

fun estimated_by :: "config \<Rightarrow> signer \<Rightarrow> event list \<Rightarrow> event \<Rightarrow> event \<Rightarrow> bool" where
  "estimated_by cfg signer history (GasEstimated c f) (TransactionSent c' f' gasLimit gasPrice) =
     (c = c'
      \<and> (case estimateGasResult signer history c of
            Inl e \<Rightarrow> False
          | Inr estimate \<Rightarrow> gasLimit = estimate + GAS_BUFFER cfg)
      \<and> gasPrice = GAS_PRICE cfg)"
| "estimated_by cfg signer history e e' = False"

fun is_submission :: "event \<Rightarrow> bool" where
  "is_submission (TransactionSent c f gasLimit gasPrice) = True"
| "is_submission e = False"

definition own_estimate_before ::
  "config \<Rightarrow> signer \<Rightarrow> event list \<Rightarrow> event list \<Rightarrow> nat \<Rightarrow> bool" where
  "own_estimate_before cfg signer before delta i =
     list_ex (\<lambda>j. estimated_by cfg signer (before @ take j delta) (delta ! j) (delta ! i))
       [0..<i]"

definition own_estimate_immediately_before ::
  "config \<Rightarrow> signer \<Rightarrow> event list \<Rightarrow> event list \<Rightarrow> nat \<Rightarrow> bool" where
  "own_estimate_immediately_before cfg signer before delta i =
     (0 < i \<and>
      estimated_by cfg signer (before @ take (i - 1) delta) (delta ! (i - 1)) (delta ! i))"

definition every_submission :: "(nat \<Rightarrow> bool) \<Rightarrow> event list \<Rightarrow> bool" where
  "every_submission P delta =
     list_all (\<lambda>i. is_submission (delta ! i) \<longrightarrow> P i) [0..<length delta]"

section \<open>Observables\<close>

text \<open>
  The pipelines are built from RxJS observables. Subscribing to an observable runs it to
  its end: the result is the list of values it emitted, the error that ended it (if any),
  and the world afterwards. Subscriptions run one after the other, in the order in which
  the source subscribes. The world is the log of what was sent to the provider, together
  with one slot per \<^verbatim>\<open>shareReplay()\<close> of the source, holding what the shared
  observable replays to later subscribers.
\<close>

type_synonym 'a emissions = "'a list \<times> error option"

record transfer_ownership_parameters =
  transfer_erc725AccountAddress :: string
  transfer_keyManagerAddress :: string

record world =
  events :: "event list"
  accountDeployment_shared :: "deployment_event emissions option"
  accountDeploymentReceipt_shared :: "deployment_event emissions option"
  accountDeploymentInitialize_shared :: "deployment_event emissions option"
  accountDeploymentInitializeReceipt_shared :: "deployment_event emissions option"
  universalReceiverAddress_shared :: "transaction_receipt option emissions option"
  setDataParameters_shared :: "set_data_parameters emissions option"
  transferOwnershipParameters_shared :: "transfer_ownership_parameters emissions option"
  pendingSetDataAndTransferOwnershipArray_shared :: "deployment_event list emissions option"
  claimOwnership_shared :: "deployment_event emissions option"
  revokeSignerPermissions_shared :: "deployment_event emissions option"

type_synonym 'a observable = "world \<Rightarrow> 'a emissions \<times> world"

definition fresh_world :: "event list \<Rightarrow> world" where
  "fresh_world log =
     \<lparr> events = log,
       accountDeployment_shared = None,
       accountDeploymentReceipt_shared = None,
       accountDeploymentInitialize_shared = None,
       accountDeploymentInitializeReceipt_shared = None,
       universalReceiverAddress_shared = None,
       setDataParameters_shared = None,
       transferOwnershipParameters_shared = None,
       pendingSetDataAndTransferOwnershipArray_shared = None,
       claimOwnership_shared = None,
       revokeSignerPermissions_shared = None \<rparr>"

text \<open>
  An observable handed to a pipeline by its caller that has already run: it replays its
  emissions and touches nothing.
\<close>

definition replay :: "'a emissions \<Rightarrow> 'a observable" where
  "replay r = (\<lambda>w. (r, w))"

text \<open>\<^verbatim>\<open>of(x)\<close> and \<^verbatim>\<open>EMPTY\<close>.\<close>

definition of_value :: "'a \<Rightarrow> 'a observable" where
  "of_value x = (\<lambda>w. (([x], None), w))"

definition EMPTY :: "'a observable" where
  "EMPTY = (\<lambda>w. (([], None), w))"

text \<open>
  A promise used as an observable (\<^verbatim>\<open>defer(() => f())\<close>, or the promise that the
  function given to \<^verbatim>\<open>switchMap\<close> returns): it emits the value it resolves to, or ends
  with the error it rejects with.
\<close>

definition from_action :: "'a action \<Rightarrow> 'a observable" where
  "from_action m =
     (\<lambda>w. case m (events w) of
            (Inl e, log) \<Rightarrow> (([], Some e), w\<lparr>events := log\<rparr>)
          | (Inr x, log) \<Rightarrow> (([x], None), w\<lparr>events := log\<rparr>))"

text \<open>
  \<^verbatim>\<open>source.pipe(switchMap(f))\<close>. The inner observables are run in the order of the
  outer values and an error of an inner observable ends the result. Every
  \<^verbatim>\<open>switchMap\<close> of this file has a source that emits at most one value (a
  \<^verbatim>\<open>forkJoin\<close>, a \<^verbatim>\<open>takeLast(1)\<close>, or a single promise followed by one-to-one steps),
  for which there is no earlier inner observable to switch away from.
\<close>

fun run_each :: "('a \<Rightarrow> 'b observable) \<Rightarrow> 'a list \<Rightarrow> 'b observable" where
  "run_each f [] w = (([], None), w)"
| "run_each f (x # xs) w =
     (case f x w of
        ((ys, Some e), w') \<Rightarrow> ((ys, Some e), w')
      | ((ys, None), w') \<Rightarrow>
          (case run_each f xs w' of ((zs, e), w'') \<Rightarrow> ((ys @ zs, e), w'')))"

definition switchMap :: "('a \<Rightarrow> 'b observable) \<Rightarrow> 'a observable \<Rightarrow> 'b observable" where
  "switchMap f source =
     (\<lambda>w. case source w of
            ((xs, err), w') \<Rightarrow>
              (case run_each f xs w' of
                 ((ys, Some e), w'') \<Rightarrow> ((ys, Some e), w'')
               | ((ys, None), w'') \<Rightarrow> ((ys, err), w'')))"

text \<open>\<^verbatim>\<open>takeLast(1)\<close>: the last value once the source has completed.\<close>

definition takeLast1 :: "'a observable \<Rightarrow> 'a observable" where
  "takeLast1 source =
     (\<lambda>w. case source w of
            ((xs, Some e), w') \<Rightarrow> (([], Some e), w')
          | ((xs, None), w') \<Rightarrow> ((if xs = [] then [] else [last xs], None), w'))"

text \<open>\<^verbatim>\<open>defaultIfEmpty(d)\<close>.\<close>

definition defaultIfEmpty :: "'a \<Rightarrow> 'a observable \<Rightarrow> 'a observable" where
  "defaultIfEmpty d source =
     (\<lambda>w. case source w of
            ((xs, None), w') \<Rightarrow> ((if xs = [] then [d] else xs, None), w')
          | ((xs, Some e), w') \<Rightarrow> ((xs, Some e), w'))"

text \<open>
  \<^verbatim>\<open>forkJoin([a, b])\<close> subscribes to every source, fails when one of them fails,
  completes without a value when one of them completes without a value, and otherwise
  emits the last values together. \<^verbatim>\<open>forkJoin\<close> of three or four sources is written with
  nested pairs.
\<close>

definition forkJoin :: "'a observable \<Rightarrow> 'b observable \<Rightarrow> ('a \<times> 'b) observable" where
  "forkJoin a b =
     (\<lambda>w. case a w of
            ((xs, ea), w1) \<Rightarrow>
              (case b w1 of
                 ((ys, eb), w2) \<Rightarrow>
                   ((case ea of
                       Some e \<Rightarrow> ([], Some e)
                     | None \<Rightarrow>
                         (case eb of
                            Some e \<Rightarrow> ([], Some e)
                          | None \<Rightarrow>
                              if xs = [] \<or> ys = [] then ([], None)
                              else ([(last xs, last ys)], None))), w2)))"

text \<open>\<^verbatim>\<open>concat(a, b, ...)\<close>: each source is subscribed when the one before it completed.\<close>

fun concat_all :: "'a observable list \<Rightarrow> 'a observable" where
  "concat_all [] w = (([], None), w)"
| "concat_all (source # sources) w =
     (case source w of
        ((xs, Some e), w') \<Rightarrow> ((xs, Some e), w')
      | ((xs, None), w') \<Rightarrow>
          (case concat_all sources w' of ((ys, e), w'') \<Rightarrow> ((xs @ ys, e), w'')))"

text \<open>
  \<^verbatim>\<open>source.pipe(shareReplay())\<close>: the first subscription runs the source and keeps what
  it emitted in the slot; every later subscription gets the content of the slot and runs
  nothing. The slot is given by its selector and its update function.
\<close>

definition shareReplay ::
  "(world \<Rightarrow> 'a emissions option)
     \<Rightarrow> (('a emissions option \<Rightarrow> 'a emissions option) \<Rightarrow> world \<Rightarrow> world)
     \<Rightarrow> 'a observable \<Rightarrow> 'a observable" where
  "shareReplay slot slot_update source =
     (\<lambda>w. case slot w of
            Some r \<Rightarrow> (r, w)
          | None \<Rightarrow> (case source w of (r, w') \<Rightarrow> (r, slot_update (\<lambda>_. Some r) w')))"

text \<open>
  Modelled from the spec: \<^verbatim>\<open>waitForReceipt\<close> of \<^verbatim>\<open>../helpers/deployment.helper\<close> is
  imported by the service but is not among the sources. The spec (Deployment Step Runner)
  says that a step yields its \<open>PENDING\<close> event after submission and a second event with
  status \<open>COMPLETE\<close>, carrying the receipt, once the transaction is confirmed, or the
  underlying failure. For every event of its source, \<open>waitForReceipt\<close> waits for the event's
  transaction and emits the event completed with the receipt.
\<close>

definition waitForReceipt :: "signer \<Rightarrow> deployment_event observable \<Rightarrow> deployment_event observable" where
  "waitForReceipt signer source =
     switchMap (\<lambda>result. from_action
        (case transaction result of
           None \<Rightarrow> reject TypeError
         | Some tx \<Rightarrow>
             then_do (wait_for_transaction signer tx) (\<lambda>r.
             return_value (result\<lparr>status := COMPLETE, receipt := Some r\<rparr>)))) source"

text \<open>
  Modelled from the spec: \<^verbatim>\<open>waitForBatchedPendingTransactions\<close> of
  \<^verbatim>\<open>../helpers/deployment.helper\<close> is not among the sources either. Following the same
  contract for a batch, it awaits the pending transaction of every event of the array and
  emits the events with their transactions, then waits for every receipt and emits the
  completed events.
\<close>

definition batch_submitted :: "deployment_event \<Rightarrow> deployment_event observable" where
  "batch_submitted pending =
     from_action
       (case pendingTransaction pending of
          None \<Rightarrow> reject TypeError
        | Some (Inl e) \<Rightarrow> reject e
        | Some (Inr tx) \<Rightarrow> return_value (pending\<lparr>transaction := Some tx\<rparr>))"

definition batch_confirmed :: "signer \<Rightarrow> deployment_event \<Rightarrow> deployment_event observable" where
  "batch_confirmed signer pending =
     from_action
       (case pendingTransaction pending of
          None \<Rightarrow> reject TypeError
        | Some (Inl e) \<Rightarrow> reject e
        | Some (Inr tx) \<Rightarrow>
            then_do (wait_for_transaction signer tx) (\<lambda>r.
            return_value
              (pending\<lparr>transaction := Some tx, status := COMPLETE, receipt := Some r\<rparr>)))"

definition waitForBatchedPendingTransactions ::
  "signer \<Rightarrow> deployment_event list observable \<Rightarrow> deployment_event observable" where
  "waitForBatchedPendingTransactions signer source =
     switchMap (\<lambda>pendingTransactions.
        concat_all (map batch_submitted pendingTransactions
                    @ map (batch_confirmed signer) pendingTransactions)) source"

section \<open>Account deployment\<close>

text \<open>
  A \<^verbatim>\<open>Contract\<close> object: its address and, when it comes from a deployment, the
  transaction that creates it.
\<close>

record contract =
  contract_address :: string
  deployTransaction :: "nat option"

text \<open>
  \<^verbatim>\<open>factory.deploy(...args)\<close>: the creation transaction, with the factory's bytecode
  and the constructor arguments, is logged and named by its position.
\<close>

definition factory_deploy :: "signer \<Rightarrow> creation_code \<Rightarrow> string list \<Rightarrow> contract action" where
  "factory_deploy signer code args =
     (\<lambda>log. let log' = log @ [DeploymentSent code args]
            in (case sendResult signer log' of
                  None \<Rightarrow> Inr \<lparr> contract_address = contractAddressResult signer log,
                                deployTransaction = Some (length log) \<rparr>
                | Some e \<Rightarrow> Inl e, log'))"

text \<open>
  The \<^verbatim>\<open>deploymentFunction\<close> closure of \<^verbatim>\<open>deployLSP3Account\<close>. A base contract
  address is supplied when it is a non-empty string.
\<close>

definition deploymentFunction ::
  "signer \<Rightarrow> string option \<Rightarrow> string option \<Rightarrow> contract action" where
  "deploymentFunction signer baseContractAddress byteCode =
     (case baseContractAddress of
        Some (c # cs) \<Rightarrow>
          return_value \<lparr> contract_address = c # cs, deployTransaction = None \<rparr>
      | _ \<Rightarrow>
          (case byteCode of
             Some (b # bs) \<Rightarrow>
               then_do (signer_getAddress signer) (\<lambda>signerAddress.
               factory_deploy signer (CustomBytecode (b # bs)) [signerAddress])
           | _ \<Rightarrow>
               then_do (signer_getAddress signer) (\<lambda>signerAddress.
               factory_deploy signer UniversalProfileBytecode [signerAddress])))"

definition deployProxyContract ::
  "config \<Rightarrow> contract action \<Rightarrow> signer \<Rightarrow> deployment_event action" where
  "deployProxyContract cfg deployContractFunction signer =
     then_do deployContractFunction (\<lambda>contract.
     then_do (signer_getAddress signer) (\<lambda>signerAddress.
     then_do (factory_deploy signer
                (CustomBytecode (getProxyByteCode cfg (contract_address contract)))
                [signerAddress])
       (\<lambda>deployedProxy.
     return_value
       \<lparr> deployment_type = PROXY, contractName = ERC725_Account, status = PENDING,
         functionName = None, transaction = deployTransaction deployedProxy,
         pendingTransaction = None, receipt = None \<rparr>)))"

text \<open>
  Modelled from the spec: \<^verbatim>\<open>deployContract\<close> of \<^verbatim>\<open>../helpers/deployment.helper\<close> is
  not among the sources. By the spec's Deployment Step Runner it submits the creation and
  returns the \<open>PENDING\<close> event of the full deployment; the creation itself is the
  \<^verbatim>\<open>deploymentFunction\<close> it is given.
\<close>

definition deployContract ::
  "contract action \<Rightarrow> contract_names \<Rightarrow> deployment_event action" where
  "deployContract deployContractFunction name =
     then_do deployContractFunction (\<lambda>contract.
     return_value
       \<lparr> deployment_type = CONTRACT, contractName = name, status = PENDING,
         functionName = None, transaction = deployTransaction contract,
         pendingTransaction = None, receipt = None \<rparr>)"

definition deployLSP3Account ::
  "config \<Rightarrow> signer \<Rightarrow> string option \<Rightarrow> string option \<Rightarrow> deployment_event action" where
  "deployLSP3Account cfg signer baseContractAddress byteCode =
     (case baseContractAddress of
        Some (c # cs) \<Rightarrow>
          deployProxyContract cfg (deploymentFunction signer baseContractAddress byteCode)
            signer
      | _ \<Rightarrow>
          deployContract (deploymentFunction signer baseContractAddress byteCode)
            ERC725_Account)"

text \<open>
  Modelled from the spec: \<^verbatim>\<open>initialize\<close> of \<^verbatim>\<open>../helpers/deployment.helper\<close> is not
  among the sources. By the spec a proxy is initialised by a dedicated initialisation call,
  after its creation step has confirmed: the call goes to the contract address of the
  confirmed receipt, with the given arguments and function signature, estimated and
  submitted like the other transactions.
\<close>

definition initialize ::
  "config \<Rightarrow> signer \<Rightarrow> deployment_event observable \<Rightarrow> string list action \<Rightarrow> string
     \<Rightarrow> deployment_event observable" where
  "initialize cfg signer deploymentEvent_obs initArguments functionSignature =
     switchMap (\<lambda>result. from_action
        (case receipt result of
           None \<Rightarrow> reject TypeError
         | Some r \<Rightarrow>
             (case contractAddress r of
                None \<Rightarrow> reject TypeError
              | Some proxyAddress \<Rightarrow>
                  then_do initArguments (\<lambda>args.
                  then_do (signer_getAddress signer) (\<lambda>signerAddress.
                  then_do (estimateGas signer
                             (InitializeCall proxyAddress functionSignature args) None)
                    (\<lambda>gasEstimate.
                  then_do (sendTransaction signer
                             (InitializeCall proxyAddress functionSignature args)
                             signerAddress (gasEstimate + GAS_BUFFER cfg) (GAS_PRICE cfg))
                    (\<lambda>tx.
                  return_value
                    \<lparr> deployment_type = deployment_type result,
                      contractName = contractName result, status = PENDING,
                      functionName = Some functionSignature, transaction = Some tx,
                      pendingTransaction = None, receipt = None \<rparr>)))))))
       (takeLast1 deploymentEvent_obs)"

definition initializeProxy ::
  "config \<Rightarrow> signer \<Rightarrow> deployment_event observable \<Rightarrow> deployment_event observable" where
  "initializeProxy cfg signer accountDeploymentReceipt_obs =
     shareReplay accountDeploymentInitialize_shared accountDeploymentInitialize_shared_update
       (initialize cfg signer accountDeploymentReceipt_obs
          (then_do (signer_getAddress signer) (\<lambda>signerAddress. return_value [signerAddress]))
          ''initialize(address)'')"

text \<open>
  \<^verbatim>\<open>accountDeploymentWithBaseContractAddress$\<close>; an observable constant \<^verbatim>\<open>x$\<close> of the
  source is written \<open>x_obs\<close>.
\<close>

definition accountDeploymentWithBaseContractAddress_obs ::
  "config \<Rightarrow> signer \<Rightarrow> string option \<Rightarrow> string option \<Rightarrow> deployment_event observable" where
  "accountDeploymentWithBaseContractAddress_obs cfg signer baseContractAddress bytecode =
     (let accountDeployment_obs =
            shareReplay accountDeployment_shared accountDeployment_shared_update
              (from_action (deployLSP3Account cfg signer baseContractAddress bytecode));
          accountDeploymentReceipt_obs =
            shareReplay accountDeploymentReceipt_shared accountDeploymentReceipt_shared_update
              (waitForReceipt signer accountDeployment_obs);
          accountDeploymentInitialize_obs =
            (case baseContractAddress of
               Some (c # cs) \<Rightarrow> initializeProxy cfg signer accountDeploymentReceipt_obs
             | _ \<Rightarrow> EMPTY);
          accountDeploymentInitializeReceipt_obs =
            shareReplay accountDeploymentInitializeReceipt_shared
              accountDeploymentInitializeReceipt_shared_update
              (waitForReceipt signer accountDeploymentInitialize_obs)
      in concat_all
           [accountDeployment_obs,
            accountDeploymentReceipt_obs,
            accountDeploymentInitialize_obs,
            accountDeploymentInitializeReceipt_obs])"

fun is_initialize_call :: "event \<Rightarrow> bool" where
  "is_initialize_call (GasEstimated (InitializeCall a f args) from) = True"
| "is_initialize_call (TransactionSent (InitializeCall a f args) from gasLimit gasPrice) = True"
| "is_initialize_call e = False"

fun is_deployment :: "event \<Rightarrow> bool" where
  "is_deployment (DeploymentSent code args) = True"
| "is_deployment e = False"

section \<open>The ownership handoff pipeline\<close>

text \<open>\<^verbatim>\<open>a || b\<close> on optional strings.\<close>

definition js_or :: "string option \<Rightarrow> string option \<Rightarrow> string option" where
  "js_or a b = (if truthy a then a else b)"

text \<open>
  The address of a deployed contract as both \<^verbatim>\<open>prepare...Transaction$\<close> functions read
  it from a receipt:
  \<^verbatim>\<open>isSignerUniversalProfile ? r.contractAddress || r.logs[0].address
     : r.contractAddress || r.to\<close>.
  Reading a field of a missing receipt or of a missing first log throws.
\<close>

definition deployed_address :: "bool \<Rightarrow> transaction_receipt option \<Rightarrow> error + string option" where
  "deployed_address isSignerUniversalProfile r =
     (case r of
        None \<Rightarrow> Inl TypeError
      | Some rc \<Rightarrow>
          if isSignerUniversalProfile
          then (if truthy (contractAddress rc) then Inr (contractAddress rc)
                else (case logs rc of
                        [] \<Rightarrow> Inl TypeError
                      | l # ls \<Rightarrow> Inr (Some (address l))))
          else Inr (js_or (contractAddress rc) (receipt_to rc)))"

text \<open>
  The delegate's address, read with optional chaining:
  \<^verbatim>\<open>r?.contractAddress || r?.logs[0]?.topics[2]?.slice(26) || default\<close> for a signer
  that is a universal profile, \<^verbatim>\<open>r?.contractAddress || r?.to || default\<close> otherwise.
\<close>

definition delegate_address ::
  "bool \<Rightarrow> transaction_receipt option \<Rightarrow> string option \<Rightarrow> string option" where
  "delegate_address isSignerUniversalProfile r defaultAddress =
     (case r of
        None \<Rightarrow> defaultAddress
      | Some rc \<Rightarrow>
          if isSignerUniversalProfile
          then js_or
                 (js_or (contractAddress rc)
                    (case logs rc of
                       [] \<Rightarrow> None
                     | l # ls \<Rightarrow>
                         if 2 < length (topics l) then Some (drop 26 (topics l ! 2))
                         else None))
                 defaultAddress
          else js_or (js_or (contractAddress rc) (receipt_to rc)) defaultAddress)"

definition from_result :: "error + 'a \<Rightarrow> 'a observable" where
  "from_result r = from_action (\<lambda>log. (r, log))"

text \<open>
  \<^verbatim>\<open>prepareSetDataTransaction$\<close>. Of the delegate's deployment events only the
  \<^verbatim>\<open>receipt\<close> field is read, so the observable \<open>universalReceiver_obs\<close> carries the
  receipts (\<open>None\<close> for \<^verbatim>\<open>{ receipt: null }\<close>). An address that resolves to
  \<^verbatim>\<open>undefined\<close> ends the pipeline: the source throws at its first use
  (\<^verbatim>\<open>substring\<close> of the delegate address in the encoder, \<^verbatim>\<open>attach\<close> of the account
  address), before a transaction is sent; the model raises \<open>TypeError\<close> where the address
  is resolved.
\<close>

definition prepareSetDataTransaction_obs ::
  "config \<Rightarrow> signer \<Rightarrow> deployment_event observable \<Rightarrow> transaction_receipt option observable
     \<Rightarrow> controller list \<Rightarrow> string option observable \<Rightarrow> bool observable \<Rightarrow> string option
     \<Rightarrow> set_data_parameters observable" where
  "prepareSetDataTransaction_obs cfg signer account_obs universalReceiver_obs
       controllerAddresses lsp3ProfileData_obs isSignerUniversalProfile_obs
       defaultUniversalReceiverDelegateAddress =
     (let universalReceiverAddress_obs =
            shareReplay universalReceiverAddress_shared universalReceiverAddress_shared_update
              (defaultIfEmpty None universalReceiver_obs)
      in shareReplay setDataParameters_shared setDataParameters_shared_update
           (switchMap
              (\<lambda>(accountEvent, universalReceiverDelegateReceipt, lsp3ProfileData,
                  isSignerUniversalProfile).
                 from_result
                   (case deployed_address isSignerUniversalProfile (receipt accountEvent) of
                      Inl e \<Rightarrow> Inl e
                    | Inr None \<Rightarrow> Inl TypeError
                    | Inr (Some lsp3AccountAddress) \<Rightarrow>
                        (case delegate_address isSignerUniversalProfile
                                universalReceiverDelegateReceipt
                                defaultUniversalReceiverDelegateAddress of
                           None \<Rightarrow> Inl TypeError
                         | Some universalReceiverDelegateAddress \<Rightarrow>
                             prepareSetDataParameters cfg signer lsp3AccountAddress
                               universalReceiverDelegateAddress controllerAddresses
                               lsp3ProfileData)))
              (forkJoin account_obs
                 (forkJoin universalReceiverAddress_obs
                    (forkJoin lsp3ProfileData_obs isSignerUniversalProfile_obs)))))"

text \<open>
  \<^verbatim>\<open>prepareTransferOwnershipTransaction$\<close>, with the same treatment of an address that
  resolves to \<^verbatim>\<open>undefined\<close>.
\<close>

definition prepareTransferOwnershipTransaction_obs ::
  "deployment_event observable \<Rightarrow> deployment_event observable \<Rightarrow> bool observable
     \<Rightarrow> transfer_ownership_parameters observable" where
  "prepareTransferOwnershipTransaction_obs accountDeployment_obs keyManagerDeployment_obs
       isSignerUniversalProfile_obs =
     shareReplay transferOwnershipParameters_shared transferOwnershipParameters_shared_update
       (switchMap
          (\<lambda>(accountEvent, keyManagerEvent, isSignerUniversalProfile).
             from_result
               (case deployed_address isSignerUniversalProfile (receipt accountEvent) of
                  Inl e \<Rightarrow> Inl e
                | Inr accountAddress \<Rightarrow>
                    (case deployed_address isSignerUniversalProfile
                            (receipt keyManagerEvent) of
                       Inl e \<Rightarrow> Inl e
                     | Inr keyManagerAddress \<Rightarrow>
                         (case (accountAddress, keyManagerAddress) of
                            (Some a, Some k) \<Rightarrow>
                              Inr \<lparr> transfer_erc725AccountAddress = a,
                                    transfer_keyManagerAddress = k \<rparr>
                          | _ \<Rightarrow> Inl TypeError))))
          (forkJoin accountDeployment_obs
             (forkJoin keyManagerDeployment_obs isSignerUniversalProfile_obs)))"

text \<open>
  The observable constants of \<^verbatim>\<open>setDataAndTransferOwnershipTransactions$\<close>, each with
  the constants it is built from as parameters.
\<close>

definition pendingSetDataAndTransferOwnershipArray_obs ::
  "config \<Rightarrow> signer \<Rightarrow> set_data_parameters observable
     \<Rightarrow> transfer_ownership_parameters observable \<Rightarrow> deployment_event list observable" where
  "pendingSetDataAndTransferOwnershipArray_obs cfg signer setDataParameters_obs
       transferOwnershipParameters_obs =
     shareReplay pendingSetDataAndTransferOwnershipArray_shared
       pendingSetDataAndTransferOwnershipArray_shared_update
       (switchMap
          (\<lambda>(setDataParameters, transferOwnershipParameters).
             from_action
               (sendSetDataAndTransferOwnershipTransactions cfg signer
                  (erc725AccountAddress setDataParameters)
                  (keysToSet setDataParameters)
                  (valuesToSet setDataParameters)
                  (transfer_keyManagerAddress transferOwnershipParameters)))
          (forkJoin setDataParameters_obs transferOwnershipParameters_obs))"

definition claimOwnership_obs ::
  "config \<Rightarrow> signer \<Rightarrow> transfer_ownership_parameters observable
     \<Rightarrow> deployment_event observable \<Rightarrow> deployment_event observable" where
  "claimOwnership_obs cfg signer transferOwnershipParameters_obs
       setDataAndTransferOwnership_obs =
     shareReplay claimOwnership_shared claimOwnership_shared_update
       (switchMap
          (\<lambda>transferOwnershipParameters.
             switchMap
               (\<lambda>lastEvent.
                  from_action
                    (claimOwnership cfg signer
                       (transfer_erc725AccountAddress transferOwnershipParameters)
                       (transfer_keyManagerAddress transferOwnershipParameters)))
               (takeLast1 setDataAndTransferOwnership_obs))
          transferOwnershipParameters_obs)"

definition revokeSignerPermissions_obs ::
  "config \<Rightarrow> signer \<Rightarrow> controller list \<Rightarrow> set_data_parameters observable
     \<Rightarrow> transfer_ownership_parameters observable \<Rightarrow> deployment_event observable
     \<Rightarrow> deployment_event observable" where
  "revokeSignerPermissions_obs cfg signer controllerAddresses setDataParameters_obs
       transferOwnershipParameters_obs claimOwnershipReceipt_obs =
     shareReplay revokeSignerPermissions_shared revokeSignerPermissions_shared_update
       (switchMap
          (\<lambda>(setDataParameters, transferOwnershipParameters).
             switchMap
               (\<lambda>claimReceipt.
                  from_action
                    (revokeSignerPermissions cfg signer
                       (transfer_keyManagerAddress transferOwnershipParameters)
                       (erc725AccountAddress setDataParameters)
                       controllerAddresses))
               claimOwnershipReceipt_obs)
          (forkJoin setDataParameters_obs transferOwnershipParameters_obs))"

definition setDataAndTransferOwnershipTransactions_obs ::
  "config \<Rightarrow> signer \<Rightarrow> deployment_event observable \<Rightarrow> transaction_receipt option observable
     \<Rightarrow> controller list \<Rightarrow> string option observable \<Rightarrow> bool observable
     \<Rightarrow> deployment_event observable \<Rightarrow> string option \<Rightarrow> deployment_event observable" where
  "setDataAndTransferOwnershipTransactions_obs cfg signer account_obs universalReceiver_obs
       controllerAddresses lsp3ProfileData_obs isSignerUniversalProfile_obs
       keyManagerDeployment_obs defaultUniversalReceiverDelegateAddress =
     (let setDataParameters_obs =
            prepareSetDataTransaction_obs cfg signer account_obs universalReceiver_obs
              controllerAddresses lsp3ProfileData_obs isSignerUniversalProfile_obs
              defaultUniversalReceiverDelegateAddress;
          transferOwnershipParameters_obs =
            prepareTransferOwnershipTransaction_obs account_obs keyManagerDeployment_obs
              isSignerUniversalProfile_obs;
          pendingArray_obs =
            pendingSetDataAndTransferOwnershipArray_obs cfg signer setDataParameters_obs
              transferOwnershipParameters_obs;
          setDataAndTransferOwnership_obs =
            waitForBatchedPendingTransactions signer pendingArray_obs;
          claimOwnership_o =
            claimOwnership_obs cfg signer transferOwnershipParameters_obs
              setDataAndTransferOwnership_obs;
          claimOwnershipReceipt_obs = waitForReceipt signer claimOwnership_o;
          revokeSignerPermissions_o =
            revokeSignerPermissions_obs cfg signer controllerAddresses setDataParameters_obs
              transferOwnershipParameters_obs claimOwnershipReceipt_obs;
          revokeSignerPermissionsReceipt_obs = waitForReceipt signer revokeSignerPermissions_o
      in concat_all
           [setDataAndTransferOwnership_obs,
            claimOwnership_o,
            claimOwnershipReceipt_obs,
            revokeSignerPermissions_o,
            revokeSignerPermissionsReceipt_obs])"

text \<open>
  The ordering property of a log. A claim submission is a submitted
  \<^verbatim>\<open>execute(claimOwnership)\<close>; a revocation step is the gas estimate or the submission
  of \<^verbatim>\<open>execute(setData(bytes32,bytes))\<close>, the only calls \<^verbatim>\<open>revokeSignerPermissions\<close>
  makes. A claim receipt is confirmed in a log when the log holds the confirmed receipt of
  a claim submission made earlier in it.
\<close>

fun is_claim_submission :: "event \<Rightarrow> bool" where
  "is_claim_submission (TransactionSent (Execute km ClaimOwnershipSighash) f g p) = True"
| "is_claim_submission e = False"

fun is_revocation_step :: "event \<Rightarrow> bool" where
  "is_revocation_step (GasEstimated (Execute km (SetDataCalldata k v)) f) = True"
| "is_revocation_step (TransactionSent (Execute km (SetDataCalldata k v)) f g p) = True"
| "is_revocation_step e = False"

definition is_claim_receipt_at :: "event list \<Rightarrow> nat \<Rightarrow> bool" where
  "is_claim_receipt_at log j =
     (case log ! j of
        ReceiptConfirmed t \<Rightarrow> t < j \<and> is_claim_submission (log ! t)
      | _ \<Rightarrow> False)"

definition claim_receipt_confirmed :: "event list \<Rightarrow> bool" where
  "claim_receipt_confirmed log = list_ex (is_claim_receipt_at log) [0..<length log]"

definition revocation_after_claim_receipt :: "event list \<Rightarrow> bool" where
  "revocation_after_claim_receipt log =
     list_all (\<lambda>i. is_revocation_step (log ! i) \<longrightarrow> claim_receipt_confirmed (take i log))
       [0..<length log]"

text \<open>
  What the proof of the ordering carries through a run. An event of the claim step names
  a claim submission of the log. The invariant of the world says that the log is ordered
  and that the slot of \<^verbatim>\<open>claimOwnership$\<close> holds events of the claim step only. A step
  (an observable, or an action on the log) is in order when, started in a world that meets
  the invariant and a precondition on the log, it keeps the invariant, only appends to the
  log, and emits values that meet a postcondition in the log it leaves. A postcondition is
  stable when a longer log keeps it.
\<close>

definition claim_event :: "event list \<Rightarrow> deployment_event \<Rightarrow> bool" where
  "claim_event log e =
     (case transaction e of
        None \<Rightarrow> False
      | Some tx \<Rightarrow> tx < length log \<and> is_claim_submission (log ! tx))"

definition handoff_invariant :: "world \<Rightarrow> bool" where
  "handoff_invariant w =
     (revocation_after_claim_receipt (events w)
      \<and> (case claimOwnership_shared w of
            None \<Rightarrow> True
          | Some r \<Rightarrow> list_all (claim_event (events w)) (fst r)))"

definition step_ok ::
  "(event list \<Rightarrow> bool) \<Rightarrow> 'a observable \<Rightarrow> (event list \<Rightarrow> 'a \<Rightarrow> bool) \<Rightarrow> bool" where
  "step_ok pre source post =
     (\<forall>w. handoff_invariant w \<and> pre (events w) \<longrightarrow>
        (case source w of
           ((xs, e), w') \<Rightarrow>
             handoff_invariant w'
             \<and> (\<exists>d. events w' = events w @ d)
             \<and> (\<forall>x \<in> set xs. post (events w') x)))"

definition stable :: "(event list \<Rightarrow> 'a \<Rightarrow> bool) \<Rightarrow> bool" where
  "stable post = (\<forall>log d x. post log x \<longrightarrow> post (log @ d) x)"

definition action_ok ::
  "(event list \<Rightarrow> bool) \<Rightarrow> 'a action \<Rightarrow> (event list \<Rightarrow> 'a \<Rightarrow> bool) \<Rightarrow> bool" where
  "action_ok pre m post =
     (\<forall>log. revocation_after_claim_receipt log \<and> pre log \<longrightarrow>
        (case m log of
           (r, log') \<Rightarrow>
             revocation_after_claim_receipt log'
             \<and> (\<exists>d. log' = log @ d)
             \<and> (\<forall>x. r = Inr x \<longrightarrow> post log' x)))"

section \<open>Reading permission values, and a configuration for the examples\<close>

text \<open>
  A permission value is a hex string read as a bit mask: \<open>includes_rights v r\<close> says
  that every bit set in \<open>r\<close> is set in \<open>v\<close>.
\<close>

definition hex_digit_value :: "char \<Rightarrow> nat" where
  "hex_digit_value c =
     (if c \<in> set ''0123456789'' then of_char c - 48
      else if c \<in> set ''abcdef'' then of_char c - 87
      else if c \<in> set ''ABCDEF'' then of_char c - 55
      else 0)"

definition hex_to_nat :: "string \<Rightarrow> nat" where
  "hex_to_nat s = foldl (\<lambda>acc c. 16 * acc + hex_digit_value c) 0 (drop 2 s)"

definition includes_rights :: "string \<Rightarrow> string \<Rightarrow> bool" where
  "includes_rights v r = (hex_to_nat v AND hex_to_nat r = hex_to_nat r)"

text \<open>
  An instance of the parameters, used to run the model on concrete inputs: the keys of
  the LSP standards, and a permission encoder that gives the \<open>i\<close>-th name of
  \<open>example_permission_names\<close> the bit \<open>2 ^ i\<close> and returns the 32-byte word of the
  names that are \<^verbatim>\<open>true\<close>.
\<close>

definition example_permission_names :: "string list" where
  "example_permission_names =
     [''CHANGEOWNER'', ''CHANGEPERMISSIONS'', ''ADDPERMISSIONS'', ''SETDATA'', ''CALL'',
      ''STATICCALL'', ''DELEGATECALL'', ''DEPLOY'', ''TRANSFERVALUE'', ''SIGN'',
      ''SUPER_SETDATA'']"

definition example_encodePermissions :: "permissions \<Rightarrow> string" where
  "example_encodePermissions ps =
     abi_encode_uint256
       (sum_list (map (\<lambda>i. if (example_permission_names ! i, True) \<in> set ps then 2 ^ i else 0)
          [0..<length example_permission_names]))"

definition example_config :: config where
  "example_config =
     \<lparr> ADDRESS_PERMISSIONS_ARRAY_KEY =
         ''0xdf30dba06db6a30e65354d9a64c609861f089545ca58c6b4dbe31a5f338cb0e3'',
       DEFAULT_PERMISSIONS = [(''SETDATA'', True), (''CALL'', True), (''SIGN'', True)],
       ERC725_ACCOUNT_INTERFACE = ''0x481e0fe8'',
       GAS_BUFFER = 100000,
       GAS_PRICE = 10000000000,
       LSP3_UP_KEYS_UNIVERSAL_RECEIVER_DELEGATE_KEY =
         ''0x0cfc51aec37c55a4d0b1a65c6255c4bf2fbdf6277f3cc0730c45b828b6db8b47'',
       LSP3_UP_KEYS_LSP3_PROFILE =
         ''0x5ef83ad9559033e6e941db7d7c495acdce616347d28e90c7ce47cbfcfcad3bc5'',
       PREFIX_PERMISSIONS = ''0x4b80742de2bf82acb3630000'',
       encodePermissions = example_encodePermissions,
       getProxyByteCode = (\<lambda>address. ''0x3d602d80600a3d3981f3363d3d373d3d3d363d73''
          @ drop 2 address @ ''5af43d82803e903d91602b57fd5bf3'') \<rparr>"

text \<open>
  Two signers with the same address in front of chains that answer differently: the
  first chain accepts everything, the second rejects every estimate and every wait.
\<close>

definition example_receipt :: transaction_receipt where
  "example_receipt =
     \<lparr> contractAddress = Some ''0xcccccccccccccccccccccccccccccccccccccccc'',
       receipt_to = None, logs = [] \<rparr>"

definition example_account_event :: deployment_event where
  "example_account_event =
     \<lparr> deployment_type = CONTRACT, contractName = ERC725_Account, status = COMPLETE,
       functionName = None, transaction = Some 0, pendingTransaction = None,
       receipt = Some example_receipt \<rparr>"

definition example_keyManager_event :: deployment_event where
  "example_keyManager_event =
     \<lparr> deployment_type = CONTRACT, contractName = ERC725_Account, status = COMPLETE,
       functionName = None, transaction = Some 1, pendingTransaction = None,
       receipt = Some (example_receipt
         \<lparr> contractAddress := Some ''0xbbbbbbbbbbbbbbbbbbbbbbbbbbbbbbbbbbbbbbbb'' \<rparr>) \<rparr>"

definition example_signer :: signer where
  "example_signer =
     \<lparr> getAddress = Inr ''0x5555555555555555555555555555555555555555'',
       estimateGasResult = (\<lambda>history call. Inr (21000 + int (length history))),
       sendResult = (\<lambda>history. None),
       waitResult = (\<lambda>history tx. Inr example_receipt),
       contractAddressResult = (\<lambda>history. ''0xcccccccccccccccccccccccccccccccccccccccc''),
       supportsInterfaceResult = (\<lambda>address interfaceId. Inr False) \<rparr>"

definition example_signer_second_read_fails :: signer where
  "example_signer_second_read_fails =
     example_signer \<lparr> supportsInterfaceResult :=
       (\<lambda>address interfaceId.
          if interfaceId = ''0x63cb749b'' then Inl (Rejected ''call exception'') else Inr False) \<rparr>"

definition example_signer_offline :: signer where
  "example_signer_offline =
     \<lparr> getAddress = Inr ''0x5555555555555555555555555555555555555555'',
       estimateGasResult = (\<lambda>history call. Inl (Rejected ''network'')),
       sendResult = (\<lambda>history. Some (Rejected ''network'')),
       waitResult = (\<lambda>history tx. Inl (Rejected ''network'')),
       contractAddressResult = (\<lambda>history. []),
       supportsInterfaceResult = (\<lambda>address interfaceId. Inl (Rejected ''network'')) \<rparr>"

section \<open>Properties of the encoder\<close>

lemma map_result_length:
  "map_result f xs = Inr ys \<Longrightarrow> length ys = length xs"
proof (induction xs arbitrary: ys)
  case Nil
  then show ?case by simp
next
  case (Cons x xs)
  then show ?case by (auto split: sum.splits)
qed

lemma map_result_Inl:
  "map_result f xs = Inl e \<Longrightarrow> \<exists>x \<in> set xs. f x = Inl e"
  by (induction xs) (auto split: sum.splits)

lemma map_result_all_ok:
  "\<forall>x \<in> set xs. f x = Inr (g x) \<Longrightarrow> map_result f xs = Inr (map g xs)"
  by (induction xs) auto

lemma indexOf_range:
  "x \<in> set xs \<Longrightarrow> 0 \<le> indexOf xs x \<and> nat (indexOf xs x) < length xs"
  by (induction xs) (auto simp: Let_def)

lemma indexOf_nth:
  "x \<in> set xs \<Longrightarrow> xs ! nat (indexOf xs x) = x"
proof (induction xs)
  case Nil
  then show ?case by simp
next
  case (Cons y ys)
  show ?case
  proof (cases "y = x")
    case True
    then show ?thesis by simp
  next
    case False
    with Cons.prems have mem: "x \<in> set ys" by simp
    then have "0 \<le> indexOf ys x" by (simp add: indexOf_range)
    with False mem Cons.IH show ?thesis
      by (simp add: Let_def nat_add_distrib)
  qed
qed

lemma js_assign_in_range:
  "0 \<le> i \<Longrightarrow> nat i < length xs \<Longrightarrow> js_assign xs i v = xs[nat i := v]"
  by (simp add: js_assign_def)

lemma array_element_key_small:
  "i < 256 \<Longrightarrow> array_element_key cfg i =
     Inr (take 34 (ADDRESS_PERMISSIONS_ARRAY_KEY cfg) @ replicate 30 CHR ''0''
          @ [hex_char (i div 16), hex_char (i mod 16)])"
  by (simp add: array_element_key_def hexlify_def hexZeroPad_def)

lemma array_element_key_large:
  "256 \<le> i \<Longrightarrow> array_element_key cfg i = Inl InvalidHexlifyValue"
  by (simp add: array_element_key_def hexlify_def)

lemma array_element_key_error:
  "array_element_key cfg i = Inl e \<Longrightarrow> e = InvalidHexlifyValue \<and> 256 \<le> i"
  by (cases "i < 256") (simp_all add: array_element_key_small array_element_key_large)

lemma index_keys_ok:
  assumes "n \<le> 256"
  shows "\<exists>ixs. map_result (array_element_key cfg) [0..<n] = Inr ixs \<and> length ixs = n"
proof -
  let ?g = "\<lambda>i. take 34 (ADDRESS_PERMISSIONS_ARRAY_KEY cfg) @ replicate 30 CHR ''0''
          @ [hex_char (i div 16), hex_char (i mod 16)]"
  have "\<forall>i \<in> set [0..<n]. array_element_key cfg i = Inr (?g i)"
    using assms by (auto simp: array_element_key_small)
  then have "map_result (array_element_key cfg) [0..<n] = Inr (map ?g [0..<n])"
    by (rule map_result_all_ok)
  then show ?thesis by simp
qed

lemma length_initial_keysToSet:
  "length (initial_keysToSet cfg d ixs ks ix) = length ixs + length ks + 4"
  by (simp add: initial_keysToSet_def)

lemma length_initial_valuesToSet:
  "length (initial_valuesToSet cfg d as ps) = length as + length ps + 4"
  by (simp add: initial_valuesToSet_def)

lemma mapping_key_in_initial_keysToSet:
  "k \<in> set ks \<Longrightarrow> k \<in> set (initial_keysToSet cfg d ixs ks ix)"
  by (simp add: initial_keysToSet_def)

lemma prepareSetDataParameters_Inr:
  assumes "prepareSetDataParameters cfg signer accountAddress d controllers profile = Inr r"
  obtains ixs ix s where
    "map_result (array_element_key cfg) [0..<length controllers] = Inr ixs"
    "array_element_key cfg (length controllers) = Inr ix"
    "getAddress signer = Inr s"
    "r = signer_and_profile_entries cfg (map controller_address controllers) s profile
           accountAddress
           (initial_keysToSet cfg d ixs
              (map (\<lambda>address. PREFIX_PERMISSIONS cfg @ drop 2 address)
                 (map controller_address controllers)) ix)
           (initial_valuesToSet cfg d (map controller_address controllers)
              (map (controller_permissions cfg) controllers))"
  using assms unfolding prepareSetDataParameters_def Let_def
  by (auto split: sum.splits)

lemma prepareSetDataParameters_succeeds:
  assumes "length controllers \<le> 255" and "getAddress signer = Inr s"
  obtains ixs ix where
    "map_result (array_element_key cfg) [0..<length controllers] = Inr ixs"
    "length ixs = length controllers"
    "array_element_key cfg (length controllers) = Inr ix"
    "prepareSetDataParameters cfg signer accountAddress d controllers profile =
       Inr (signer_and_profile_entries cfg (map controller_address controllers) s profile
           accountAddress
           (initial_keysToSet cfg d ixs
              (map (\<lambda>address. PREFIX_PERMISSIONS cfg @ drop 2 address)
                 (map controller_address controllers)) ix)
           (initial_valuesToSet cfg d (map controller_address controllers)
              (map (controller_permissions cfg) controllers)))"
proof -
  from assms(1) obtain ixs where
    ixs: "map_result (array_element_key cfg) [0..<length controllers] = Inr ixs"
    and len: "length ixs = length controllers"
    using index_keys_ok [of "length controllers" cfg] by auto
  from assms(1) obtain ix where ix: "array_element_key cfg (length controllers) = Inr ix"
    by (simp add: array_element_key_small)
  show ?thesis
    using that [OF ixs len ix] ixs ix assms(2)
    by (simp add: prepareSetDataParameters_def Let_def)
qed

text \<open>
  C4: whenever the encoder returns a write set, \<open>keysToSet\<close> and \<open>valuesToSet\<close> have the
  same length. This covers the branch that appends the signer's entry and the branch that
  overwrites it, with and without profile metadata.
\<close>

theorem write_set_lengths_agree:
  assumes "prepareSetDataParameters cfg signer accountAddress delegateAddress controllers profile
             = Inr r"
  shows "length (keysToSet r) = length (valuesToSet r)"
proof -
  let ?as = "map controller_address controllers"
  let ?ks = "map (\<lambda>address. PREFIX_PERMISSIONS cfg @ drop 2 address) ?as"
  let ?ps = "map (controller_permissions cfg) controllers"
  from assms obtain ixs ix s where
    ixs: "map_result (array_element_key cfg) [0..<length controllers] = Inr ixs" and
    r: "r = signer_and_profile_entries cfg ?as s profile accountAddress
              (initial_keysToSet cfg delegateAddress ixs ?ks ix)
              (initial_valuesToSet cfg delegateAddress ?as ?ps)"
    by (rule prepareSetDataParameters_Inr)
  have len: "length ixs = length controllers"
    using map_result_length [OF ixs] by simp
  let ?keys0 = "initial_keysToSet cfg delegateAddress ixs ?ks ix"
  let ?values0 = "initial_valuesToSet cfg delegateAddress ?as ?ps"
  have base: "length ?keys0 = length ?values0"
    by (simp add: length_initial_keysToSet length_initial_valuesToSet len)
  show ?thesis
  proof (cases "s \<in> set ?as")
    case False
    with r base show ?thesis by (simp add: signer_and_profile_entries_def Let_def)
  next
    case True
    let ?key = "PREFIX_PERMISSIONS cfg @ drop 2 s"
    have "?key \<in> set ?ks" using True by auto
    then have "?key \<in> set ?keys0" by (rule mapping_key_in_initial_keysToSet)
    then have "0 \<le> indexOf ?keys0 ?key \<and> nat (indexOf ?keys0 ?key) < length ?keys0"
      by (rule indexOf_range)
    then have "length (js_assign ?values0 (indexOf ?keys0 ?key) v) = length ?values0" for v
      using base by (simp add: js_assign_in_range)
    with r base True show ?thesis by (simp add: signer_and_profile_entries_def Let_def)
  qed
qed

theorem write_set_lengths_agree_witness:
  "length (keysToSet (projr (prepareSetDataParameters example_config example_signer
       ''0xaaaaaaaaaaaaaaaaaaaaaaaaaaaaaaaaaaaaaaaa''
       ''0xdddddddddddddddddddddddddddddddddddddddd''
       [Address ''0x1111111111111111111111111111111111111111''] (Some ''0x1234''))))
   = length (valuesToSet (projr (prepareSetDataParameters example_config example_signer
       ''0xaaaaaaaaaaaaaaaaaaaaaaaaaaaaaaaaaaaaaaaa''
       ''0xdddddddddddddddddddddddddddddddddddddddd''
       [Address ''0x1111111111111111111111111111111111111111''] (Some ''0x1234''))))
   \<and> \<not> isl (prepareSetDataParameters example_config example_signer
       ''0xaaaaaaaaaaaaaaaaaaaaaaaaaaaaaaaaaaaaaaaa''
       ''0xdddddddddddddddddddddddddddddddddddddddd''
       [Address ''0x1111111111111111111111111111111111111111''] (Some ''0x1234''))"
proof -
  obtain r where r: "prepareSetDataParameters example_config example_signer
       ''0xaaaaaaaaaaaaaaaaaaaaaaaaaaaaaaaaaaaaaaaa''
       ''0xdddddddddddddddddddddddddddddddddddddddd''
       [Address ''0x1111111111111111111111111111111111111111''] (Some ''0x1234'') = Inr r"
    by (rule prepareSetDataParameters_succeeds
          [of "[Address ''0x1111111111111111111111111111111111111111'']" example_signer
              "''0x5555555555555555555555555555555555555555''"])
       (simp_all add: example_signer_def)
  from write_set_lengths_agree [OF r] r show ?thesis by simp
qed

text \<open>
  C10: a controller list of 256 or more entries makes the index derivation throw: the
  encoder returns the error of \<open>hexlify\<close> and no write set.
\<close>

theorem encoder_rejects_256_controllers:
  assumes "256 \<le> length controllers"
  shows "prepareSetDataParameters cfg signer accountAddress delegateAddress controllers profile
           = Inl InvalidHexlifyValue"
proof (cases "map_result (array_element_key cfg) [0..<length (map controller_address controllers)]")
  case (Inl e)
  then obtain i where "array_element_key cfg i = Inl e"
    using map_result_Inl by blast
  then have "e = InvalidHexlifyValue" using array_element_key_error by blast
  with Inl show ?thesis by (simp add: prepareSetDataParameters_def)
next
  case (Inr ks)
  have "array_element_key cfg (length (map controller_address controllers)) = Inl InvalidHexlifyValue"
    using assms by (simp add: array_element_key_large)
  with Inr show ?thesis by (simp add: prepareSetDataParameters_def)
qed

theorem encoder_rejects_256_controllers_witness:
  "256 \<le> length (replicate 256 (Address ''0x1111111111111111111111111111111111111111''))
   \<and> prepareSetDataParameters example_config example_signer
       ''0xaaaaaaaaaaaaaaaaaaaaaaaaaaaaaaaaaaaaaaaa''
       ''0xdddddddddddddddddddddddddddddddddddddddd''
       (replicate 256 (Address ''0x1111111111111111111111111111111111111111'')) None
     = Inl InvalidHexlifyValue"
  using encoder_rejects_256_controllers
    [of "replicate 256 (Address ''0x1111111111111111111111111111111111111111'')"
        example_config example_signer
        "''0xaaaaaaaaaaaaaaaaaaaaaaaaaaaaaaaaaaaaaaaa''"
        "''0xdddddddddddddddddddddddddddddddddddddddd''" None]
  by simp

text \<open>
  C5: the encoder is deterministic. Its result depends on the signer through the signer's
  address only: two runs with the same configuration, account, delegate, controllers and
  profile, by signers with the same address in front of chains that may answer differently,
  return the same keys and values (or the same error).
\<close>

theorem encoder_deterministic:
  assumes "getAddress signer1 = getAddress signer2"
  shows "prepareSetDataParameters cfg signer1 accountAddress delegateAddress controllers profile
       = prepareSetDataParameters cfg signer2 accountAddress delegateAddress controllers profile"
  by (simp only: prepareSetDataParameters_def assms)

theorem encoder_deterministic_witness:
  "getAddress example_signer = getAddress example_signer_offline
   \<and> example_signer \<noteq> example_signer_offline
   \<and> prepareSetDataParameters example_config example_signer
       ''0xaaaaaaaaaaaaaaaaaaaaaaaaaaaaaaaaaaaaaaaa''
       ''0xdddddddddddddddddddddddddddddddddddddddd''
       [Address ''0x1111111111111111111111111111111111111111''] (Some ''0x1234'')
     = prepareSetDataParameters example_config example_signer_offline
       ''0xaaaaaaaaaaaaaaaaaaaaaaaaaaaaaaaaaaaaaaaa''
       ''0xdddddddddddddddddddddddddddddddddddddddd''
       [Address ''0x1111111111111111111111111111111111111111''] (Some ''0x1234'')"
proof -
  have same: "getAddress example_signer = getAddress example_signer_offline"
    by (simp add: example_signer_def example_signer_offline_def)
  have "sendResult example_signer [] \<noteq> sendResult example_signer_offline []"
    by (simp add: example_signer_def example_signer_offline_def)
  then have "example_signer \<noteq> example_signer_offline" by auto
  with same encoder_deterministic [OF same] show ?thesis by simp
qed


subsection \<open>Running the encoder on concrete inputs\<close>

lemma hex_digits_numeral:
  "hex_digits (numeral k) n = hex_digits (pred_numeral k) (n div 16) @ [hex_char n]"
  by (simp only: numeral_eq_Suc hex_digits.simps)

lemma replicate_numeral:
  "replicate (numeral k) x = x # replicate (pred_numeral k) x"
  by (simp only: numeral_eq_Suc replicate.simps)

lemmas encoder_eval =
  replicate_numeral hex_digits_numeral
  prepareSetDataParameters_def array_element_key_def hexlify_def hexZeroPad_def
  hex_char_def initial_keysToSet_def initial_valuesToSet_def signer_and_profile_entries_def
  example_config_def example_signer_def abi_encode_uint256_def
  example_encodePermissions_def example_permission_names_def Let_def js_assign_def

lemma example_run_two_controllers:
  "prepareSetDataParameters example_config example_signer
       ''0xaaaaaaaaaaaaaaaaaaaaaaaaaaaaaaaaaaaaaaaa''
       ''0xdddddddddddddddddddddddddddddddddddddddd''
       [Address ''0x1111111111111111111111111111111111111111'',
        Options ''0x2222222222222222222222222222222222222222''
          (Some ''0x0000000000000000000000000000000000000000000000000000000000000008'')] None =
   Inr \<lparr> keysToSet =
        [''0x0cfc51aec37c55a4d0b1a65c6255c4bf2fbdf6277f3cc0730c45b828b6db8b47'',
         ''0x4b80742de2bf82acb3630000dddddddddddddddddddddddddddddddddddddddd'',
         ''0xdf30dba06db6a30e65354d9a64c609861f089545ca58c6b4dbe31a5f338cb0e3'',
         ''0xdf30dba06db6a30e65354d9a64c6098600000000000000000000000000000000'',
         ''0xdf30dba06db6a30e65354d9a64c6098600000000000000000000000000000001'',
         ''0x4b80742de2bf82acb36300001111111111111111111111111111111111111111'',
         ''0x4b80742de2bf82acb36300002222222222222222222222222222222222222222'',
         ''0xdf30dba06db6a30e65354d9a64c6098600000000000000000000000000000002'',
         ''0x4b80742de2bf82acb36300005555555555555555555555555555555555555555''],
       valuesToSet =
        [Some ''0xdddddddddddddddddddddddddddddddddddddddd'',
         Some ''0x0000000000000000000000000000000000000000000000000000000000000400'',
         Some ''0x0000000000000000000000000000000000000000000000000000000000000003'',
         Some ''0x1111111111111111111111111111111111111111'',
         Some ''0x2222222222222222222222222222222222222222'',
         Some ''0x0000000000000000000000000000000000000000000000000000000000000218'',
         Some ''0x0000000000000000000000000000000000000000000000000000000000000008'',
         Some ''0xdddddddddddddddddddddddddddddddddddddddd'',
         Some ''0x0000000000000000000000000000000000000000000000000000000000000003''],
       erc725AccountAddress = ''0xaaaaaaaaaaaaaaaaaaaaaaaaaaaaaaaaaaaaaaaa'' \<rparr>"
  by (simp add: encoder_eval)

lemma example_run_signer_listed:
  "prepareSetDataParameters example_config example_signer
       ''0xaaaaaaaaaaaaaaaaaaaaaaaaaaaaaaaaaaaaaaaa''
       ''0xdddddddddddddddddddddddddddddddddddddddd''
       [Options ''0x5555555555555555555555555555555555555555''
          (Some ''0x0000000000000000000000000000000000000000000000000000000000000008'')] None =
   Inr \<lparr> keysToSet =
        [''0x0cfc51aec37c55a4d0b1a65c6255c4bf2fbdf6277f3cc0730c45b828b6db8b47'',
         ''0x4b80742de2bf82acb3630000dddddddddddddddddddddddddddddddddddddddd'',
         ''0xdf30dba06db6a30e65354d9a64c609861f089545ca58c6b4dbe31a5f338cb0e3'',
         ''0xdf30dba06db6a30e65354d9a64c6098600000000000000000000000000000000'',
         ''0x4b80742de2bf82acb36300005555555555555555555555555555555555555555'',
         ''0xdf30dba06db6a30e65354d9a64c6098600000000000000000000000000000001''],
       valuesToSet =
        [Some ''0xdddddddddddddddddddddddddddddddddddddddd'',
         Some ''0x0000000000000000000000000000000000000000000000000000000000000400'',
         Some ''0x0000000000000000000000000000000000000000000000000000000000000002'',
         Some ''0x5555555555555555555555555555555555555555'',
         Some ''0x0000000000000000000000000000000000000000000000000000000000000003'',
         Some ''0xdddddddddddddddddddddddddddddddddddddddd''],
       erc725AccountAddress = ''0xaaaaaaaaaaaaaaaaaaaaaaaaaaaaaaaaaaaaaaaa'' \<rparr>"
  by (simp add: encoder_eval)

text \<open>
  C3, as stated, fails: with two controllers \<open>(N = 2)\<close> and a signer that is not one of
  them the encoder writes nine pairs. Whether the two static keys or the three leading
  keys are taken as the fixed ones, seven or six pairs remain, not \<open>N + 2 = 4\<close>.
\<close>

theorem write_pair_count_counterexample:
  "prepareSetDataParameters example_config example_signer
       ''0xaaaaaaaaaaaaaaaaaaaaaaaaaaaaaaaaaaaaaaaa''
       ''0xdddddddddddddddddddddddddddddddddddddddd''
       [Address ''0x1111111111111111111111111111111111111111'',
        Options ''0x2222222222222222222222222222222222222222''
          (Some ''0x0000000000000000000000000000000000000000000000000000000000000008'')] None =
   Inr \<lparr> keysToSet =
        [''0x0cfc51aec37c55a4d0b1a65c6255c4bf2fbdf6277f3cc0730c45b828b6db8b47'',
         ''0x4b80742de2bf82acb3630000dddddddddddddddddddddddddddddddddddddddd'',
         ''0xdf30dba06db6a30e65354d9a64c609861f089545ca58c6b4dbe31a5f338cb0e3'',
         ''0xdf30dba06db6a30e65354d9a64c6098600000000000000000000000000000000'',
         ''0xdf30dba06db6a30e65354d9a64c6098600000000000000000000000000000001'',
         ''0x4b80742de2bf82acb36300001111111111111111111111111111111111111111'',
         ''0x4b80742de2bf82acb36300002222222222222222222222222222222222222222'',
         ''0xdf30dba06db6a30e65354d9a64c6098600000000000000000000000000000002'',
         ''0x4b80742de2bf82acb36300005555555555555555555555555555555555555555''],
       valuesToSet =
        [Some ''0xdddddddddddddddddddddddddddddddddddddddd'',
         Some ''0x0000000000000000000000000000000000000000000000000000000000000400'',
         Some ''0x0000000000000000000000000000000000000000000000000000000000000003'',
         Some ''0x1111111111111111111111111111111111111111'',
         Some ''0x2222222222222222222222222222222222222222'',
         Some ''0x0000000000000000000000000000000000000000000000000000000000000218'',
         Some ''0x0000000000000000000000000000000000000000000000000000000000000008'',
         Some ''0xdddddddddddddddddddddddddddddddddddddddd'',
         Some ''0x0000000000000000000000000000000000000000000000000000000000000003''],
       erc725AccountAddress = ''0xaaaaaaaaaaaaaaaaaaaaaaaaaaaaaaaaaaaaaaaa'' \<rparr>
   \<and> length (keysToSet (projr (prepareSetDataParameters example_config example_signer
       ''0xaaaaaaaaaaaaaaaaaaaaaaaaaaaaaaaaaaaaaaaa''
       ''0xdddddddddddddddddddddddddddddddddddddddd''
       [Address ''0x1111111111111111111111111111111111111111'',
        Options ''0x2222222222222222222222222222222222222222''
          (Some ''0x0000000000000000000000000000000000000000000000000000000000000008'')] None))) - 2
       \<noteq> length
           [Address ''0x1111111111111111111111111111111111111111'',
        Options ''0x2222222222222222222222222222222222222222''
          (Some ''0x0000000000000000000000000000000000000000000000000000000000000008'')] + 2
   \<and> length (keysToSet (projr (prepareSetDataParameters example_config example_signer
       ''0xaaaaaaaaaaaaaaaaaaaaaaaaaaaaaaaaaaaaaaaa''
       ''0xdddddddddddddddddddddddddddddddddddddddd''
       [Address ''0x1111111111111111111111111111111111111111'',
        Options ''0x2222222222222222222222222222222222222222''
          (Some ''0x0000000000000000000000000000000000000000000000000000000000000008'')] None))) - 3
       \<noteq> length
           [Address ''0x1111111111111111111111111111111111111111'',
        Options ''0x2222222222222222222222222222222222222222''
          (Some ''0x0000000000000000000000000000000000000000000000000000000000000008'')] + 2"
  by (simp add: example_run_two_controllers)

text \<open>
  C3, amended: for a controller list of length \<open>N \<le> 255\<close> that does not contain the
  signer's address the encoder succeeds and writes, in this order, the delegate key, the
  delegate's mapping key, the array-length key, \<open>N\<close> address-index keys, \<open>N\<close> mapping
  keys, the delegate's index key and the signer's synthetic entry, followed by the profile
  key when a profile is given: \<open>2 * N + 5\<close> pairs, that is \<open>2 * N + 3\<close> beyond the two
  static keys, and one more with a profile. The array-length value encodes \<open>N + 1\<close>.
\<close>

theorem signer_absent_write_set:
  assumes "getAddress signer = Inr s"
    and "s \<notin> set (map controller_address controllers)"
    and "length controllers \<le> 255"
  shows "\<exists>r ixs ix.
      prepareSetDataParameters cfg signer accountAddress d controllers profile = Inr r
    \<and> map_result (array_element_key cfg) [0..<length controllers] = Inr ixs
    \<and> length ixs = length controllers
    \<and> array_element_key cfg (length controllers) = Inr ix
    \<and> keysToSet r =
          [LSP3_UP_KEYS_UNIVERSAL_RECEIVER_DELEGATE_KEY cfg,
           PREFIX_PERMISSIONS cfg @ drop 2 d,
           ADDRESS_PERMISSIONS_ARRAY_KEY cfg]
          @ ixs
          @ map (\<lambda>c. PREFIX_PERMISSIONS cfg @ drop 2 (controller_address c)) controllers
          @ [ix]
          @ [PREFIX_PERMISSIONS cfg @ drop 2 s]
          @ (if truthy profile then [LSP3_UP_KEYS_LSP3_PROFILE cfg] else [])
    \<and> valuesToSet r =
          [Some d,
           Some (encodePermissions cfg [(''SUPER_SETDATA'', True)]),
           Some (abi_encode_uint256 (length controllers + 1))]
          @ map (\<lambda>c. Some (controller_address c)) controllers
          @ map (controller_permissions cfg) controllers
          @ [Some d]
          @ [Some (encodePermissions cfg [(''CHANGEOWNER'', True), (''CHANGEPERMISSIONS'', True)])]
          @ (if truthy profile then [profile] else [])
    \<and> length (keysToSet r) = 2 * length controllers + 5 + (if truthy profile then 1 else 0)
    \<and> valuesToSet r ! 2 = Some (abi_encode_uint256 (length controllers + 1))"
proof -
  from assms(3,1) obtain ixs ix where
    ixs: "map_result (array_element_key cfg) [0..<length controllers] = Inr ixs" and
    len: "length ixs = length controllers" and
    ix: "array_element_key cfg (length controllers) = Inr ix" and
    r: "prepareSetDataParameters cfg signer accountAddress d controllers profile =
       Inr (signer_and_profile_entries cfg (map controller_address controllers) s profile
           accountAddress
           (initial_keysToSet cfg d ixs
              (map (\<lambda>address. PREFIX_PERMISSIONS cfg @ drop 2 address)
                 (map controller_address controllers)) ix)
           (initial_valuesToSet cfg d (map controller_address controllers)
              (map (controller_permissions cfg) controllers)))"
    by (rule prepareSetDataParameters_succeeds)
  let ?r = "signer_and_profile_entries cfg (map controller_address controllers) s profile
           accountAddress
           (initial_keysToSet cfg d ixs
              (map (\<lambda>address. PREFIX_PERMISSIONS cfg @ drop 2 address)
                 (map controller_address controllers)) ix)
           (initial_valuesToSet cfg d (map controller_address controllers)
              (map (controller_permissions cfg) controllers))"
  have keys: "keysToSet ?r =
          [LSP3_UP_KEYS_UNIVERSAL_RECEIVER_DELEGATE_KEY cfg,
           PREFIX_PERMISSIONS cfg @ drop 2 d,
           ADDRESS_PERMISSIONS_ARRAY_KEY cfg]
          @ ixs
          @ map (\<lambda>c. PREFIX_PERMISSIONS cfg @ drop 2 (controller_address c)) controllers
          @ [ix]
          @ [PREFIX_PERMISSIONS cfg @ drop 2 s]
          @ (if truthy profile then [LSP3_UP_KEYS_LSP3_PROFILE cfg] else [])"
    using assms(2)
    by (simp add: signer_and_profile_entries_def initial_keysToSet_def Let_def comp_def)
  have vals: "valuesToSet ?r =
          [Some d,
           Some (encodePermissions cfg [(''SUPER_SETDATA'', True)]),
           Some (abi_encode_uint256 (length controllers + 1))]
          @ map (\<lambda>c. Some (controller_address c)) controllers
          @ map (controller_permissions cfg) controllers
          @ [Some d]
          @ [Some (encodePermissions cfg [(''CHANGEOWNER'', True), (''CHANGEPERMISSIONS'', True)])]
          @ (if truthy profile then [profile] else [])"
    using assms(2)
    by (simp add: signer_and_profile_entries_def initial_valuesToSet_def Let_def comp_def)
  have n: "length (keysToSet ?r) =
             2 * length controllers + 5 + (if truthy profile then 1 else 0)"
    by (simp only: keys) (simp add: len)
  have third: "valuesToSet ?r ! 2 = Some (abi_encode_uint256 (length controllers + 1))"
    by (simp only: vals) simp
  from r ixs len ix keys vals n third show ?thesis by blast
qed

theorem signer_absent_write_set_witness:
  "getAddress example_signer = Inr ''0x5555555555555555555555555555555555555555''
   \<and> ''0x5555555555555555555555555555555555555555'' \<notin> set (map controller_address
         [Address ''0x1111111111111111111111111111111111111111'',
        Options ''0x2222222222222222222222222222222222222222''
          (Some ''0x0000000000000000000000000000000000000000000000000000000000000008'')])
   \<and> length
         [Address ''0x1111111111111111111111111111111111111111'',
        Options ''0x2222222222222222222222222222222222222222''
          (Some ''0x0000000000000000000000000000000000000000000000000000000000000008'')] \<le> 255
   \<and> length (keysToSet (projr (prepareSetDataParameters example_config example_signer
       ''0xaaaaaaaaaaaaaaaaaaaaaaaaaaaaaaaaaaaaaaaa''
       ''0xdddddddddddddddddddddddddddddddddddddddd''
       [Address ''0x1111111111111111111111111111111111111111'',
        Options ''0x2222222222222222222222222222222222222222''
          (Some ''0x0000000000000000000000000000000000000000000000000000000000000008'')] None))) = 9
   \<and> valuesToSet (projr (prepareSetDataParameters example_config example_signer
       ''0xaaaaaaaaaaaaaaaaaaaaaaaaaaaaaaaaaaaaaaaa''
       ''0xdddddddddddddddddddddddddddddddddddddddd''
       [Address ''0x1111111111111111111111111111111111111111'',
        Options ''0x2222222222222222222222222222222222222222''
          (Some ''0x0000000000000000000000000000000000000000000000000000000000000008'')] None)) ! 2
       = Some ''0x0000000000000000000000000000000000000000000000000000000000000003''"
proof -
  have a: "getAddress example_signer = Inr ''0x5555555555555555555555555555555555555555''"
    by (simp add: example_signer_def)
  have b: "''0x5555555555555555555555555555555555555555'' \<notin> set (map controller_address
         [Address ''0x1111111111111111111111111111111111111111'',
        Options ''0x2222222222222222222222222222222222222222''
          (Some ''0x0000000000000000000000000000000000000000000000000000000000000008'')])"
    by simp
  have c: "length
         [Address ''0x1111111111111111111111111111111111111111'',
        Options ''0x2222222222222222222222222222222222222222''
          (Some ''0x0000000000000000000000000000000000000000000000000000000000000008'')] \<le> 255"
    by simp
  from signer_absent_write_set [OF a b c, of example_config "''0xaaaaaaaaaaaaaaaaaaaaaaaaaaaaaaaaaaaaaaaa''"
      "''0xdddddddddddddddddddddddddddddddddddddddd''" None]
  obtain r where
    r: "prepareSetDataParameters example_config example_signer
       ''0xaaaaaaaaaaaaaaaaaaaaaaaaaaaaaaaaaaaaaaaa''
       ''0xdddddddddddddddddddddddddddddddddddddddd''
       [Address ''0x1111111111111111111111111111111111111111'',
        Options ''0x2222222222222222222222222222222222222222''
          (Some ''0x0000000000000000000000000000000000000000000000000000000000000008'')] None = Inr r" and
    n: "length (keysToSet r) = 2 * length
         [Address ''0x1111111111111111111111111111111111111111'',
        Options ''0x2222222222222222222222222222222222222222''
          (Some ''0x0000000000000000000000000000000000000000000000000000000000000008'')] + 5
         + (if truthy None then 1 else 0)"
    by blast
  from r have "r = projr (prepareSetDataParameters example_config example_signer
       ''0xaaaaaaaaaaaaaaaaaaaaaaaaaaaaaaaaaaaaaaaa''
       ''0xdddddddddddddddddddddddddddddddddddddddd''
       [Address ''0x1111111111111111111111111111111111111111'',
        Options ''0x2222222222222222222222222222222222222222''
          (Some ''0x0000000000000000000000000000000000000000000000000000000000000008'')] None)"
    by simp
  with n have "length (keysToSet (projr (prepareSetDataParameters example_config example_signer
       ''0xaaaaaaaaaaaaaaaaaaaaaaaaaaaaaaaaaaaaaaaa''
       ''0xdddddddddddddddddddddddddddddddddddddddd''
       [Address ''0x1111111111111111111111111111111111111111'',
        Options ''0x2222222222222222222222222222222222222222''
          (Some ''0x0000000000000000000000000000000000000000000000000000000000000008'')] None))) = 9"
    by simp
  with a b c show ?thesis
    by (simp add: example_run_two_controllers)
qed

lemma indexOf_append:
  "x \<in> set xs \<Longrightarrow> indexOf (xs @ ys) x = indexOf xs x"
  by (induction xs) (auto simp: Let_def)

text \<open>
  C2, as stated, fails: a signer listed as a controller with the requested permission
  \<^verbatim>\<open>0x...08\<close> gets the value \<^verbatim>\<open>0x...03\<close> under its key, the two handoff rights alone;
  the requested right is not included.
\<close>

theorem signer_value_counterexample:
  "prepareSetDataParameters example_config example_signer
       ''0xaaaaaaaaaaaaaaaaaaaaaaaaaaaaaaaaaaaaaaaa''
       ''0xdddddddddddddddddddddddddddddddddddddddd''
       [Options ''0x5555555555555555555555555555555555555555''
          (Some ''0x0000000000000000000000000000000000000000000000000000000000000008'')] None =
   Inr \<lparr> keysToSet =
        [''0x0cfc51aec37c55a4d0b1a65c6255c4bf2fbdf6277f3cc0730c45b828b6db8b47'',
         ''0x4b80742de2bf82acb3630000dddddddddddddddddddddddddddddddddddddddd'',
         ''0xdf30dba06db6a30e65354d9a64c609861f089545ca58c6b4dbe31a5f338cb0e3'',
         ''0xdf30dba06db6a30e65354d9a64c6098600000000000000000000000000000000'',
         ''0x4b80742de2bf82acb36300005555555555555555555555555555555555555555'',
         ''0xdf30dba06db6a30e65354d9a64c6098600000000000000000000000000000001''],
       valuesToSet =
        [Some ''0xdddddddddddddddddddddddddddddddddddddddd'',
         Some ''0x0000000000000000000000000000000000000000000000000000000000000400'',
         Some ''0x0000000000000000000000000000000000000000000000000000000000000002'',
         Some ''0x5555555555555555555555555555555555555555'',
         Some ''0x0000000000000000000000000000000000000000000000000000000000000003'',
         Some ''0xdddddddddddddddddddddddddddddddddddddddd''],
       erc725AccountAddress = ''0xaaaaaaaaaaaaaaaaaaaaaaaaaaaaaaaaaaaaaaaa'' \<rparr>
   \<and> \<not> includes_rights
        (the (valuesToSet (projr (prepareSetDataParameters example_config example_signer
       ''0xaaaaaaaaaaaaaaaaaaaaaaaaaaaaaaaaaaaaaaaa''
       ''0xdddddddddddddddddddddddddddddddddddddddd''
       [Options ''0x5555555555555555555555555555555555555555''
          (Some ''0x0000000000000000000000000000000000000000000000000000000000000008'')] None)) ! 4))
        ''0x0000000000000000000000000000000000000000000000000000000000000008''"
  by (simp add: example_run_signer_listed includes_rights_def hex_to_nat_def hex_digit_value_def)

text \<open>
  C2, amended: for a controller list of length \<open>N \<le> 255\<close> that contains the signer's
  address the encoder succeeds and appends no key for the signer: the keys are the
  \<open>2 * N + 4\<close> keys of the delegate and the controllers, followed by the profile key when
  a profile is given. The value at the first position \<open>i\<close> of the signer's key is
  overwritten with exactly the encoding of change-owner and change-permissions (the
  requested rights are not part of it), and every other value is left as it was.
\<close>

theorem signer_present_overwrite:
  assumes "getAddress signer = Inr s"
    and "s \<in> set (map controller_address controllers)"
    and "length controllers \<le> 255"
  shows "\<exists>r ixs ix i.
      prepareSetDataParameters cfg signer accountAddress d controllers profile = Inr r
    \<and> map_result (array_element_key cfg) [0..<length controllers] = Inr ixs
    \<and> array_element_key cfg (length controllers) = Inr ix
    \<and> keysToSet r =
          initial_keysToSet cfg d ixs
            (map (\<lambda>c. PREFIX_PERMISSIONS cfg @ drop 2 (controller_address c)) controllers) ix
          @ (if truthy profile then [LSP3_UP_KEYS_LSP3_PROFILE cfg] else [])
    \<and> length (keysToSet r) = 2 * length controllers + 4 + (if truthy profile then 1 else 0)
    \<and> i < 2 * length controllers + 4
    \<and> indexOf (keysToSet r) (PREFIX_PERMISSIONS cfg @ drop 2 s) = int i
    \<and> keysToSet r ! i = PREFIX_PERMISSIONS cfg @ drop 2 s
    \<and> valuesToSet r =
          (initial_valuesToSet cfg d (map controller_address controllers)
             (map (controller_permissions cfg) controllers))
            [i := Some (encodePermissions cfg
                          [(''CHANGEOWNER'', True), (''CHANGEPERMISSIONS'', True)])]
          @ (if truthy profile then [profile] else [])"
proof -
  let ?as = "map controller_address controllers"
  let ?ks = "map (\<lambda>address. PREFIX_PERMISSIONS cfg @ drop 2 address) ?as"
  let ?ps = "map (controller_permissions cfg) controllers"
  let ?key = "PREFIX_PERMISSIONS cfg @ drop 2 s"
  from assms(3,1) obtain ixs ix where
    ixs: "map_result (array_element_key cfg) [0..<length controllers] = Inr ixs" and
    len: "length ixs = length controllers" and
    ix: "array_element_key cfg (length controllers) = Inr ix" and
    r: "prepareSetDataParameters cfg signer accountAddress d controllers profile =
       Inr (signer_and_profile_entries cfg ?as s profile accountAddress
           (initial_keysToSet cfg d ixs ?ks ix) (initial_valuesToSet cfg d ?as ?ps))"
    by (rule prepareSetDataParameters_succeeds)
  let ?keys0 = "initial_keysToSet cfg d ixs ?ks ix"
  let ?values0 = "initial_valuesToSet cfg d ?as ?ps"
  let ?r = "signer_and_profile_entries cfg ?as s profile accountAddress ?keys0 ?values0"
  let ?i = "nat (indexOf ?keys0 ?key)"
  have ks: "?ks = map (\<lambda>c. PREFIX_PERMISSIONS cfg @ drop 2 (controller_address c)) controllers"
    by (simp add: comp_def)
  have len0: "length ?keys0 = 2 * length controllers + 4"
    by (simp add: length_initial_keysToSet len)
  have lenv: "length ?values0 = 2 * length controllers + 4"
    by (simp add: length_initial_valuesToSet)
  have "?key \<in> set ?ks" using assms(2) by auto
  then have mem: "?key \<in> set ?keys0" by (rule mapping_key_in_initial_keysToSet)
  then have rng: "0 \<le> indexOf ?keys0 ?key \<and> ?i < length ?keys0"
    by (rule indexOf_range)
  have at: "?keys0 ! ?i = ?key" using mem by (rule indexOf_nth)
  have keys: "keysToSet ?r =
      ?keys0 @ (if truthy profile then [LSP3_UP_KEYS_LSP3_PROFILE cfg] else [])"
    using assms(2) by (simp add: signer_and_profile_entries_def Let_def del: map_map)
  have assign: "js_assign ?values0 (indexOf ?keys0 ?key) v = ?values0[?i := v]" for v
    using rng len0 lenv by (simp add: js_assign_in_range)
  have vals: "valuesToSet ?r =
      ?values0[?i := Some (encodePermissions cfg
                          [(''CHANGEOWNER'', True), (''CHANGEPERMISSIONS'', True)])]
      @ (if truthy profile then [profile] else [])"
    using assms(2) by (simp add: signer_and_profile_entries_def Let_def assign del: map_map)
  have idx: "indexOf (keysToSet ?r) ?key = int ?i"
    using mem rng by (simp only: keys indexOf_append) simp
  have n: "length (keysToSet ?r) =
             2 * length controllers + 4 + (if truthy profile then 1 else 0)"
    by (simp only: keys length_append len0) simp
  have lt: "?i < 2 * length controllers + 4" using rng len0 by simp
  have at': "keysToSet ?r ! ?i = ?key"
    using at rng by (simp only: keys nth_append) simp
  from r ixs ix keys n lt idx at' vals show ?thesis unfolding ks by blast
qed

theorem signer_present_overwrite_witness:
  "getAddress example_signer = Inr ''0x5555555555555555555555555555555555555555''
   \<and> ''0x5555555555555555555555555555555555555555'' \<in> set (map controller_address
         [Options ''0x5555555555555555555555555555555555555555''
          (Some ''0x0000000000000000000000000000000000000000000000000000000000000008'')])
   \<and> length
         [Options ''0x5555555555555555555555555555555555555555''
          (Some ''0x0000000000000000000000000000000000000000000000000000000000000008'')] \<le> 255
   \<and> length (keysToSet (projr (prepareSetDataParameters example_config example_signer
       ''0xaaaaaaaaaaaaaaaaaaaaaaaaaaaaaaaaaaaaaaaa''
       ''0xdddddddddddddddddddddddddddddddddddddddd''
       [Options ''0x5555555555555555555555555555555555555555''
          (Some ''0x0000000000000000000000000000000000000000000000000000000000000008'')] None))) = 6
   \<and> indexOf (keysToSet (projr (prepareSetDataParameters example_config example_signer
       ''0xaaaaaaaaaaaaaaaaaaaaaaaaaaaaaaaaaaaaaaaa''
       ''0xdddddddddddddddddddddddddddddddddddddddd''
       [Options ''0x5555555555555555555555555555555555555555''
          (Some ''0x0000000000000000000000000000000000000000000000000000000000000008'')] None)))
         ''0x4b80742de2bf82acb36300005555555555555555555555555555555555555555'' = 4
   \<and> valuesToSet (projr (prepareSetDataParameters example_config example_signer
       ''0xaaaaaaaaaaaaaaaaaaaaaaaaaaaaaaaaaaaaaaaa''
       ''0xdddddddddddddddddddddddddddddddddddddddd''
       [Options ''0x5555555555555555555555555555555555555555''
          (Some ''0x0000000000000000000000000000000000000000000000000000000000000008'')] None)) ! 4
       = Some ''0x0000000000000000000000000000000000000000000000000000000000000003''"
proof -
  have a: "getAddress example_signer = Inr ''0x5555555555555555555555555555555555555555''"
    by (simp add: example_signer_def)
  have b: "''0x5555555555555555555555555555555555555555'' \<in> set (map controller_address
         [Options ''0x5555555555555555555555555555555555555555''
          (Some ''0x0000000000000000000000000000000000000000000000000000000000000008'')])"
    by simp
  have c: "length
         [Options ''0x5555555555555555555555555555555555555555''
          (Some ''0x0000000000000000000000000000000000000000000000000000000000000008'')] \<le> 255"
    by simp
  from signer_present_overwrite [OF a b c, of example_config "''0xaaaaaaaaaaaaaaaaaaaaaaaaaaaaaaaaaaaaaaaa''"
      "''0xdddddddddddddddddddddddddddddddddddddddd''" None]
  obtain r where
    r: "prepareSetDataParameters example_config example_signer
       ''0xaaaaaaaaaaaaaaaaaaaaaaaaaaaaaaaaaaaaaaaa''
       ''0xdddddddddddddddddddddddddddddddddddddddd''
       [Options ''0x5555555555555555555555555555555555555555''
          (Some ''0x0000000000000000000000000000000000000000000000000000000000000008'')] None = Inr r" and
    n: "length (keysToSet r) = 2 * length
         [Options ''0x5555555555555555555555555555555555555555''
          (Some ''0x0000000000000000000000000000000000000000000000000000000000000008'')] + 4
         + (if truthy None then 1 else 0)"
    by blast
  from r have "r = projr (prepareSetDataParameters example_config example_signer
       ''0xaaaaaaaaaaaaaaaaaaaaaaaaaaaaaaaaaaaaaaaa''
       ''0xdddddddddddddddddddddddddddddddddddddddd''
       [Options ''0x5555555555555555555555555555555555555555''
          (Some ''0x0000000000000000000000000000000000000000000000000000000000000008'')] None)"
    by simp
  with n have "length (keysToSet (projr (prepareSetDataParameters example_config example_signer
       ''0xaaaaaaaaaaaaaaaaaaaaaaaaaaaaaaaaaaaaaaaa''
       ''0xdddddddddddddddddddddddddddddddddddddddd''
       [Options ''0x5555555555555555555555555555555555555555''
          (Some ''0x0000000000000000000000000000000000000000000000000000000000000008'')] None))) = 6"
    by simp
  with a b c show ?thesis
    by (simp add: example_run_signer_listed)
qed

section \<open>Properties of the handoff transactions\<close>

lemma then_do_simps:
  "then_do m f log = (case m log of (Inl e, log') \<Rightarrow> (Inl e, log') | (Inr x, log') \<Rightarrow> f x log')"
  by (simp add: then_do_def)

lemma claimOwnership_events:
  "snd (claimOwnership cfg signer acct km log) = log @
     (case getAddress signer of
        Inl e \<Rightarrow> []
      | Inr s \<Rightarrow>
          GasEstimated (Execute km ClaimOwnershipSighash) (Some s) #
          (case estimateGasResult signer log (Execute km ClaimOwnershipSighash) of
             Inl e \<Rightarrow> []
           | Inr g \<Rightarrow> [TransactionSent (Execute km ClaimOwnershipSighash) s
                        (g + GAS_BUFFER cfg) (GAS_PRICE cfg)]))"
  by (simp add: claimOwnership_def then_do_def signer_getAddress_def estimateGas_def
        sendTransaction_def return_value_def Let_def split: sum.splits option.splits)

lemma revokeSignerPermissions_events:
  "snd (revokeSignerPermissions cfg signer km acct controllers log) = log @
     (case getAddress signer of
        Inl e \<Rightarrow> []
      | Inr s \<Rightarrow>
          GasEstimated (Execute km (SetDataCalldata (PREFIX_PERMISSIONS cfg @ drop 2 s)
             (signerPermission cfg s controllers))) (Some s) #
          (case estimateGasResult signer log (Execute km (SetDataCalldata
                  (PREFIX_PERMISSIONS cfg @ drop 2 s) (signerPermission cfg s controllers))) of
             Inl e \<Rightarrow> []
           | Inr g \<Rightarrow> [TransactionSent (Execute km (SetDataCalldata
                  (PREFIX_PERMISSIONS cfg @ drop 2 s) (signerPermission cfg s controllers))) s
                        (g + GAS_BUFFER cfg) (GAS_PRICE cfg)]))"
  by (simp add: revokeSignerPermissions_def then_do_def signer_getAddress_def estimateGas_def
        sendTransaction_def return_value_def Let_def split: sum.splits option.splits)

lemma sendSetDataAndTransferOwnershipTransactions_events:
  "snd (sendSetDataAndTransferOwnershipTransactions cfg signer acct keys vals km log) = log @
     (case getAddress signer of
        Inl e \<Rightarrow> []
      | Inr s \<Rightarrow>
          GasEstimated (SetDataArrays acct keys vals) None #
          (case estimateGasResult signer log (SetDataArrays acct keys vals) of
             Inl e \<Rightarrow> []
           | Inr g1 \<Rightarrow>
               GasEstimated (TransferOwnership acct km) (Some s) #
               (case estimateGasResult signer (log @ [GasEstimated (SetDataArrays acct keys vals) None])
                       (TransferOwnership acct km) of
                  Inl e \<Rightarrow> []
                | Inr g2 \<Rightarrow>
                    [TransactionSent (SetDataArrays acct keys vals) s
                       (g1 + GAS_BUFFER cfg) (GAS_PRICE cfg),
                     TransactionSent (TransferOwnership acct km) s
                       (g2 + GAS_BUFFER cfg) (GAS_PRICE cfg)])))"
  by (simp add: sendSetDataAndTransferOwnershipTransactions_def then_do_def
        signer_getAddress_def estimateGas_def
        sendTransaction_def return_value_def Let_def split: sum.splits option.splits prod.splits)

text \<open>
  C7, amended: every transaction of the handoff is submitted with the gas limit of its own
  estimate plus \<open>GAS_BUFFER\<close> and with the gas price \<open>GAS_PRICE\<close>; the estimate is made
  in the same call, before the submission. For claim-ownership and for the revocation the
  estimate is the event immediately before the submission; for the batched set-data and
  transfer-ownership pair both estimates precede both submissions.
\<close>

theorem handoff_transactions_use_own_estimate:
  "(\<exists>delta. snd (sendSetDataAndTransferOwnershipTransactions cfg signer acct keys vals km log)
              = log @ delta
          \<and> every_submission (own_estimate_before cfg signer log delta) delta)
   \<and> (\<exists>delta. snd (claimOwnership cfg signer acct km log) = log @ delta
          \<and> every_submission (own_estimate_immediately_before cfg signer log delta) delta)
   \<and> (\<exists>delta. snd (revokeSignerPermissions cfg signer km acct controllers log) = log @ delta
          \<and> every_submission (own_estimate_immediately_before cfg signer log delta) delta)"
proof (intro conjI)
  show "\<exists>delta. snd (sendSetDataAndTransferOwnershipTransactions cfg signer acct keys vals km log)
              = log @ delta
          \<and> every_submission (own_estimate_before cfg signer log delta) delta"
    unfolding sendSetDataAndTransferOwnershipTransactions_events
    by (auto simp: every_submission_def own_estimate_before_def split: sum.splits)
  show "\<exists>delta. snd (claimOwnership cfg signer acct km log) = log @ delta
          \<and> every_submission (own_estimate_immediately_before cfg signer log delta) delta"
    unfolding claimOwnership_events
    by (auto simp: every_submission_def own_estimate_immediately_before_def split: sum.splits)
  show "\<exists>delta. snd (revokeSignerPermissions cfg signer km acct controllers log) = log @ delta
          \<and> every_submission (own_estimate_immediately_before cfg signer log delta) delta"
    unfolding revokeSignerPermissions_events
    by (auto simp: every_submission_def own_estimate_immediately_before_def split: sum.splits)
qed


lemma example_batch_events:
  "snd (sendSetDataAndTransferOwnershipTransactions example_config example_signer
        ''0xaaaaaaaaaaaaaaaaaaaaaaaaaaaaaaaaaaaaaaaa''
        [''0x0cfc51aec37c55a4d0b1a65c6255c4bf2fbdf6277f3cc0730c45b828b6db8b47'']
        [Some ''0xdddddddddddddddddddddddddddddddddddddddd'']
        ''0xbbbbbbbbbbbbbbbbbbbbbbbbbbbbbbbbbbbbbbbb'' []) =
     [GasEstimated
        (SetDataArrays ''0xaaaaaaaaaaaaaaaaaaaaaaaaaaaaaaaaaaaaaaaa''
          [''0x0cfc51aec37c55a4d0b1a65c6255c4bf2fbdf6277f3cc0730c45b828b6db8b47'']
          [Some ''0xdddddddddddddddddddddddddddddddddddddddd'']) None,
      GasEstimated
        (TransferOwnership ''0xaaaaaaaaaaaaaaaaaaaaaaaaaaaaaaaaaaaaaaaa''
          ''0xbbbbbbbbbbbbbbbbbbbbbbbbbbbbbbbbbbbbbbbb'')
        (Some ''0x5555555555555555555555555555555555555555''),
      TransactionSent
        (SetDataArrays ''0xaaaaaaaaaaaaaaaaaaaaaaaaaaaaaaaaaaaaaaaa''
          [''0x0cfc51aec37c55a4d0b1a65c6255c4bf2fbdf6277f3cc0730c45b828b6db8b47'']
          [Some ''0xdddddddddddddddddddddddddddddddddddddddd''])
        ''0x5555555555555555555555555555555555555555'' 121000 10000000000,
      TransactionSent
        (TransferOwnership ''0xaaaaaaaaaaaaaaaaaaaaaaaaaaaaaaaaaaaaaaaa''
          ''0xbbbbbbbbbbbbbbbbbbbbbbbbbbbbbbbbbbbbbbbb'')
        ''0x5555555555555555555555555555555555555555'' 121001 10000000000]"
  by (simp add: sendSetDataAndTransferOwnershipTransactions_events example_signer_def
        example_config_def)

lemma example_claim_events:
  "snd (claimOwnership example_config example_signer
        ''0xaaaaaaaaaaaaaaaaaaaaaaaaaaaaaaaaaaaaaaaa''
        ''0xbbbbbbbbbbbbbbbbbbbbbbbbbbbbbbbbbbbbbbbb'' []) =
     [GasEstimated (Execute ''0xbbbbbbbbbbbbbbbbbbbbbbbbbbbbbbbbbbbbbbbb'' ClaimOwnershipSighash)
        (Some ''0x5555555555555555555555555555555555555555''),
      TransactionSent (Execute ''0xbbbbbbbbbbbbbbbbbbbbbbbbbbbbbbbbbbbbbbbb'' ClaimOwnershipSighash)
        ''0x5555555555555555555555555555555555555555'' 121000 10000000000]"
  by (simp add: claimOwnership_events example_signer_def example_config_def)

text \<open>
  C7, as stated, fails for the batched pair: both estimates are made first and both
  transactions are submitted afterwards, so the event just before the \<^verbatim>\<open>setData\<close>
  submission is the estimate of \<^verbatim>\<open>transferOwnership\<close>, and the event just before the
  \<^verbatim>\<open>transferOwnership\<close> submission is the \<^verbatim>\<open>setData\<close> submission.
\<close>

theorem batch_estimate_not_adjacent_counterexample:
  "snd (sendSetDataAndTransferOwnershipTransactions example_config example_signer
        ''0xaaaaaaaaaaaaaaaaaaaaaaaaaaaaaaaaaaaaaaaa''
        [''0x0cfc51aec37c55a4d0b1a65c6255c4bf2fbdf6277f3cc0730c45b828b6db8b47'']
        [Some ''0xdddddddddddddddddddddddddddddddddddddddd'']
        ''0xbbbbbbbbbbbbbbbbbbbbbbbbbbbbbbbbbbbbbbbb'' []) =
     [GasEstimated
        (SetDataArrays ''0xaaaaaaaaaaaaaaaaaaaaaaaaaaaaaaaaaaaaaaaa''
          [''0x0cfc51aec37c55a4d0b1a65c6255c4bf2fbdf6277f3cc0730c45b828b6db8b47'']
          [Some ''0xdddddddddddddddddddddddddddddddddddddddd'']) None,
      GasEstimated
        (TransferOwnership ''0xaaaaaaaaaaaaaaaaaaaaaaaaaaaaaaaaaaaaaaaa''
          ''0xbbbbbbbbbbbbbbbbbbbbbbbbbbbbbbbbbbbbbbbb'')
        (Some ''0x5555555555555555555555555555555555555555''),
      TransactionSent
        (SetDataArrays ''0xaaaaaaaaaaaaaaaaaaaaaaaaaaaaaaaaaaaaaaaa''
          [''0x0cfc51aec37c55a4d0b1a65c6255c4bf2fbdf6277f3cc0730c45b828b6db8b47'']
          [Some ''0xdddddddddddddddddddddddddddddddddddddddd''])
        ''0x5555555555555555555555555555555555555555'' 121000 10000000000,
      TransactionSent
        (TransferOwnership ''0xaaaaaaaaaaaaaaaaaaaaaaaaaaaaaaaaaaaaaaaa''
          ''0xbbbbbbbbbbbbbbbbbbbbbbbbbbbbbbbbbbbbbbbb'')
        ''0x5555555555555555555555555555555555555555'' 121001 10000000000]
   \<and> \<not> every_submission
        (own_estimate_immediately_before example_config example_signer []
           (snd (sendSetDataAndTransferOwnershipTransactions example_config example_signer
        ''0xaaaaaaaaaaaaaaaaaaaaaaaaaaaaaaaaaaaaaaaa''
        [''0x0cfc51aec37c55a4d0b1a65c6255c4bf2fbdf6277f3cc0730c45b828b6db8b47'']
        [Some ''0xdddddddddddddddddddddddddddddddddddddddd'']
        ''0xbbbbbbbbbbbbbbbbbbbbbbbbbbbbbbbbbbbbbbbb'' [])))
        (snd (sendSetDataAndTransferOwnershipTransactions example_config example_signer
        ''0xaaaaaaaaaaaaaaaaaaaaaaaaaaaaaaaaaaaaaaaa''
        [''0x0cfc51aec37c55a4d0b1a65c6255c4bf2fbdf6277f3cc0730c45b828b6db8b47'']
        [Some ''0xdddddddddddddddddddddddddddddddddddddddd'']
        ''0xbbbbbbbbbbbbbbbbbbbbbbbbbbbbbbbbbbbbbbbb'' []))"
  by (simp add: example_batch_events every_submission_def
        own_estimate_immediately_before_def)

theorem handoff_transactions_use_own_estimate_witness:
  "snd (sendSetDataAndTransferOwnershipTransactions example_config example_signer
        ''0xaaaaaaaaaaaaaaaaaaaaaaaaaaaaaaaaaaaaaaaa''
        [''0x0cfc51aec37c55a4d0b1a65c6255c4bf2fbdf6277f3cc0730c45b828b6db8b47'']
        [Some ''0xdddddddddddddddddddddddddddddddddddddddd'']
        ''0xbbbbbbbbbbbbbbbbbbbbbbbbbbbbbbbbbbbbbbbb'' []) =
     [GasEstimated
        (SetDataArrays ''0xaaaaaaaaaaaaaaaaaaaaaaaaaaaaaaaaaaaaaaaa''
          [''0x0cfc51aec37c55a4d0b1a65c6255c4bf2fbdf6277f3cc0730c45b828b6db8b47'']
          [Some ''0xdddddddddddddddddddddddddddddddddddddddd'']) None,
      GasEstimated
        (TransferOwnership ''0xaaaaaaaaaaaaaaaaaaaaaaaaaaaaaaaaaaaaaaaa''
          ''0xbbbbbbbbbbbbbbbbbbbbbbbbbbbbbbbbbbbbbbbb'')
        (Some ''0x5555555555555555555555555555555555555555''),
      TransactionSent
        (SetDataArrays ''0xaaaaaaaaaaaaaaaaaaaaaaaaaaaaaaaaaaaaaaaa''
          [''0x0cfc51aec37c55a4d0b1a65c6255c4bf2fbdf6277f3cc0730c45b828b6db8b47'']
          [Some ''0xdddddddddddddddddddddddddddddddddddddddd''])
        ''0x5555555555555555555555555555555555555555'' 121000 10000000000,
      TransactionSent
        (TransferOwnership ''0xaaaaaaaaaaaaaaaaaaaaaaaaaaaaaaaaaaaaaaaa''
          ''0xbbbbbbbbbbbbbbbbbbbbbbbbbbbbbbbbbbbbbbbb'')
        ''0x5555555555555555555555555555555555555555'' 121001 10000000000]
   \<and> every_submission
        (own_estimate_before example_config example_signer []
           (snd (sendSetDataAndTransferOwnershipTransactions example_config example_signer
        ''0xaaaaaaaaaaaaaaaaaaaaaaaaaaaaaaaaaaaaaaaa''
        [''0x0cfc51aec37c55a4d0b1a65c6255c4bf2fbdf6277f3cc0730c45b828b6db8b47'']
        [Some ''0xdddddddddddddddddddddddddddddddddddddddd'']
        ''0xbbbbbbbbbbbbbbbbbbbbbbbbbbbbbbbbbbbbbbbb'' [])))
        (snd (sendSetDataAndTransferOwnershipTransactions example_config example_signer
        ''0xaaaaaaaaaaaaaaaaaaaaaaaaaaaaaaaaaaaaaaaa''
        [''0x0cfc51aec37c55a4d0b1a65c6255c4bf2fbdf6277f3cc0730c45b828b6db8b47'']
        [Some ''0xdddddddddddddddddddddddddddddddddddddddd'']
        ''0xbbbbbbbbbbbbbbbbbbbbbbbbbbbbbbbbbbbbbbbb'' []))
   \<and> snd (claimOwnership example_config example_signer
        ''0xaaaaaaaaaaaaaaaaaaaaaaaaaaaaaaaaaaaaaaaa''
        ''0xbbbbbbbbbbbbbbbbbbbbbbbbbbbbbbbbbbbbbbbb'' []) =
     [GasEstimated (Execute ''0xbbbbbbbbbbbbbbbbbbbbbbbbbbbbbbbbbbbbbbbb'' ClaimOwnershipSighash)
        (Some ''0x5555555555555555555555555555555555555555''),
      TransactionSent (Execute ''0xbbbbbbbbbbbbbbbbbbbbbbbbbbbbbbbbbbbbbbbb'' ClaimOwnershipSighash)
        ''0x5555555555555555555555555555555555555555'' 121000 10000000000]
   \<and> every_submission
        (own_estimate_immediately_before example_config example_signer []
           (snd (claimOwnership example_config example_signer
        ''0xaaaaaaaaaaaaaaaaaaaaaaaaaaaaaaaaaaaaaaaa''
        ''0xbbbbbbbbbbbbbbbbbbbbbbbbbbbbbbbbbbbbbbbb'' [])))
        (snd (claimOwnership example_config example_signer
        ''0xaaaaaaaaaaaaaaaaaaaaaaaaaaaaaaaaaaaaaaaa''
        ''0xbbbbbbbbbbbbbbbbbbbbbbbbbbbbbbbbbbbbbbbb'' []))"
  using handoff_transactions_use_own_estimate
    [of example_config example_signer "''0xaaaaaaaaaaaaaaaaaaaaaaaaaaaaaaaaaaaaaaaa''"
       "[''0x0cfc51aec37c55a4d0b1a65c6255c4bf2fbdf6277f3cc0730c45b828b6db8b47'']"
       "[Some ''0xdddddddddddddddddddddddddddddddddddddddd'']"
       "''0xbbbbbbbbbbbbbbbbbbbbbbbbbbbbbbbbbbbbbbbb''" "[]" "[]"]
  by (simp add: example_batch_events example_claim_events)

lemma indexOf_first:
  "x \<notin> set pre \<Longrightarrow> indexOf (pre @ x # post) x = int (length pre)"
  by (induction pre) (auto simp: Let_def)

lemma signerPermission_absent:
  "s \<notin> set (map controller_address controllers) \<Longrightarrow>
     signerPermission cfg s controllers = encodePermissions cfg []"
  by (simp add: signerPermission_def)

lemma signerPermission_first:
  assumes "s \<notin> set (map controller_address pre)" and "controller_address c = s"
  shows "signerPermission cfg s (pre @ c # post) =
     (case c of
        Address a \<Rightarrow> encodePermissions cfg (DEFAULT_PERMISSIONS cfg)
      | Options a None \<Rightarrow> encodePermissions cfg (DEFAULT_PERMISSIONS cfg)
      | Options a (Some p) \<Rightarrow> p)"
proof -
  have "indexOf (map controller_address (pre @ c # post)) s = int (length pre)"
    using assms indexOf_first [of s "map controller_address pre" "map controller_address post"]
    by simp
  then show ?thesis using assms(2) by (simp add: signerPermission_def Let_def)
qed

text \<open>
  C6: the value that \<^verbatim>\<open>revokeSignerPermissions\<close> writes under the signer's key is
  the empty bit mask when the signer is not in the controller list, the default permissions
  when the signer's first entry is a raw address or an object without permissions, and the
  requested permissions when that entry is an object with permissions. The estimate and
  the transaction of the revocation carry exactly this value.
\<close>

theorem revoke_signer_permission_value:
  "(s \<notin> set (map controller_address controllers) \<longrightarrow>
      signerPermission cfg s controllers = encodePermissions cfg [])
   \<and> (s \<notin> set (map controller_address pre) \<longrightarrow>
      signerPermission cfg s (pre @ Address s # post)
        = encodePermissions cfg (DEFAULT_PERMISSIONS cfg)
      \<and> signerPermission cfg s (pre @ Options s None # post)
        = encodePermissions cfg (DEFAULT_PERMISSIONS cfg)
      \<and> signerPermission cfg s (pre @ Options s (Some p) # post) = p)
   \<and> (getAddress signer = Inr s \<longrightarrow>
      snd (revokeSignerPermissions cfg signer km acct controllers log) = log @
        GasEstimated (Execute km (SetDataCalldata (PREFIX_PERMISSIONS cfg @ drop 2 s)
           (signerPermission cfg s controllers))) (Some s) #
        (case estimateGasResult signer log (Execute km (SetDataCalldata
                (PREFIX_PERMISSIONS cfg @ drop 2 s) (signerPermission cfg s controllers))) of
           Inl e \<Rightarrow> []
         | Inr g \<Rightarrow> [TransactionSent (Execute km (SetDataCalldata
                (PREFIX_PERMISSIONS cfg @ drop 2 s) (signerPermission cfg s controllers))) s
                      (g + GAS_BUFFER cfg) (GAS_PRICE cfg)]))"
  by (simp add: signerPermission_absent signerPermission_first revokeSignerPermissions_events)

theorem revoke_signer_permission_value_witness:
  "''0x5555555555555555555555555555555555555555''
     \<notin> set (map controller_address [Address ''0x1111111111111111111111111111111111111111''])
   \<and> signerPermission example_config ''0x5555555555555555555555555555555555555555''
       [Address ''0x1111111111111111111111111111111111111111'']
       = ''0x0000000000000000000000000000000000000000000000000000000000000000''
   \<and> signerPermission example_config ''0x5555555555555555555555555555555555555555''
       [Address ''0x1111111111111111111111111111111111111111'',
        Address ''0x5555555555555555555555555555555555555555'']
       = ''0x0000000000000000000000000000000000000000000000000000000000000218''
   \<and> signerPermission example_config ''0x5555555555555555555555555555555555555555''
       [Address ''0x1111111111111111111111111111111111111111'',
        Options ''0x5555555555555555555555555555555555555555'' None]
       = ''0x0000000000000000000000000000000000000000000000000000000000000218''
   \<and> signerPermission example_config ''0x5555555555555555555555555555555555555555''
       [Address ''0x1111111111111111111111111111111111111111'',
        Options ''0x5555555555555555555555555555555555555555''
          (Some ''0x0000000000000000000000000000000000000000000000000000000000000008'')]
       = ''0x0000000000000000000000000000000000000000000000000000000000000008''
   \<and> getAddress example_signer = Inr ''0x5555555555555555555555555555555555555555''
   \<and> snd (revokeSignerPermissions example_config example_signer
         ''0xbbbbbbbbbbbbbbbbbbbbbbbbbbbbbbbbbbbbbbbb''
         ''0xaaaaaaaaaaaaaaaaaaaaaaaaaaaaaaaaaaaaaaaa''
         [Address ''0x1111111111111111111111111111111111111111''] [])
       = [GasEstimated (Execute ''0xbbbbbbbbbbbbbbbbbbbbbbbbbbbbbbbbbbbbbbbb''
            (SetDataCalldata
               ''0x4b80742de2bf82acb36300005555555555555555555555555555555555555555''
               ''0x0000000000000000000000000000000000000000000000000000000000000000''))
            (Some ''0x5555555555555555555555555555555555555555''),
          TransactionSent (Execute ''0xbbbbbbbbbbbbbbbbbbbbbbbbbbbbbbbbbbbbbbbb''
            (SetDataCalldata
               ''0x4b80742de2bf82acb36300005555555555555555555555555555555555555555''
               ''0x0000000000000000000000000000000000000000000000000000000000000000''))
            ''0x5555555555555555555555555555555555555555'' 121000 10000000000]"
proof -
  have enc0: "encodePermissions example_config []
      = ''0x0000000000000000000000000000000000000000000000000000000000000000''"
    by (simp add: example_config_def example_encodePermissions_def
          example_permission_names_def abi_encode_uint256_def hex_digits_numeral hex_char_def)
  have encd: "encodePermissions example_config (DEFAULT_PERMISSIONS example_config)
      = ''0x0000000000000000000000000000000000000000000000000000000000000218''"
    by (simp add: example_config_def example_encodePermissions_def
          example_permission_names_def abi_encode_uint256_def hex_digits_numeral hex_char_def)
  have a: "''0x5555555555555555555555555555555555555555''
     \<notin> set (map controller_address [Address ''0x1111111111111111111111111111111111111111''])"
    by simp
  have g: "getAddress example_signer = Inr ''0x5555555555555555555555555555555555555555''"
    by (simp add: example_signer_def)
  have est: "estimateGasResult example_signer [] c = Inr 21000" for c
    by (simp add: example_signer_def)
  have cfg: "GAS_BUFFER example_config = 100000" "GAS_PRICE example_config = 10000000000"
    "PREFIX_PERMISSIONS example_config = ''0x4b80742de2bf82acb3630000''"
    by (simp_all add: example_config_def)
  from revoke_signer_permission_value
    [of "''0x5555555555555555555555555555555555555555''"
        "[Address ''0x1111111111111111111111111111111111111111'']" example_config
        "[Address ''0x1111111111111111111111111111111111111111'']"
        "[]" "''0x0000000000000000000000000000000000000000000000000000000000000008''"
        example_signer "''0xbbbbbbbbbbbbbbbbbbbbbbbbbbbbbbbbbbbbbbbb''"
        "''0xaaaaaaaaaaaaaaaaaaaaaaaaaaaaaaaaaaaaaaaa''" "[]"]
    a g
  show ?thesis by (simp add: enc0 encd est cfg)
qed

text \<open>
  C9: \<^verbatim>\<open>addressIsUniversalProfile\<close> never rejects, and when either
  \<^verbatim>\<open>supportsInterface\<close> read throws its result is \<^verbatim>\<open>false\<close>.
\<close>

theorem probe_degrades_to_false:
  "(\<exists>b. addressIsUniversalProfile cfg addr signer = Inr b)
   \<and> (supportsInterfaceResult signer addr (ERC725_ACCOUNT_INTERFACE cfg) = Inl e
        \<or> supportsInterfaceResult signer addr (ERC725_ACCOUNT_INTERFACE cfg) = Inr False
          \<and> supportsInterfaceResult signer addr ''0x63cb749b'' = Inl e
      \<longrightarrow> addressIsUniversalProfile cfg addr signer = Inr False)"
  by (auto simp: addressIsUniversalProfile_def supportsInterface_probe_def split: sum.splits)

theorem probe_degrades_to_false_witness:
  "supportsInterfaceResult example_signer_offline ''0x5555555555555555555555555555555555555555''
       (ERC725_ACCOUNT_INTERFACE example_config) = Inl (Rejected ''network'')
   \<and> addressIsUniversalProfile example_config ''0x5555555555555555555555555555555555555555''
       example_signer_offline = Inr False
   \<and> supportsInterfaceResult example_signer_second_read_fails
       ''0x5555555555555555555555555555555555555555''
       (ERC725_ACCOUNT_INTERFACE example_config) = Inr False
   \<and> supportsInterfaceResult example_signer_second_read_fails
       ''0x5555555555555555555555555555555555555555'' ''0x63cb749b''
       = Inl (Rejected ''call exception'')
   \<and> addressIsUniversalProfile example_config ''0x5555555555555555555555555555555555555555''
       example_signer_second_read_fails = Inr False"
proof -
  have a: "supportsInterfaceResult example_signer_offline
       ''0x5555555555555555555555555555555555555555''
       (ERC725_ACCOUNT_INTERFACE example_config) = Inl (Rejected ''network'')"
    by (simp add: example_signer_offline_def)
  have b: "supportsInterfaceResult example_signer_second_read_fails
       ''0x5555555555555555555555555555555555555555''
       (ERC725_ACCOUNT_INTERFACE example_config) = Inr False"
    by (simp add: example_signer_second_read_fails_def example_config_def)
  have c: "supportsInterfaceResult example_signer_second_read_fails
       ''0x5555555555555555555555555555555555555555'' ''0x63cb749b''
       = Inl (Rejected ''call exception'')"
    by (simp add: example_signer_second_read_fails_def)
  from a probe_degrades_to_false
    [of example_config "''0x5555555555555555555555555555555555555555''"
        example_signer_offline "Rejected ''network''"]
  have d: "addressIsUniversalProfile example_config
      ''0x5555555555555555555555555555555555555555'' example_signer_offline = Inr False"
    by blast
  from b c probe_degrades_to_false
    [of example_config "''0x5555555555555555555555555555555555555555''"
        example_signer_second_read_fails "Rejected ''call exception''"]
  have e: "addressIsUniversalProfile example_config
      ''0x5555555555555555555555555555555555555555'' example_signer_second_read_fails
      = Inr False"
    by blast
  from a b c d e show ?thesis by blast
qed

section \<open>The ordering of the handoff\<close>

lemma claim_receipt_confirmed_iff:
  "claim_receipt_confirmed log \<longleftrightarrow> (\<exists>j < length log. is_claim_receipt_at log j)"
  by (auto simp: claim_receipt_confirmed_def list_ex_iff)

lemma revocation_after_claim_receipt_iff:
  "revocation_after_claim_receipt log \<longleftrightarrow>
     (\<forall>i < length log. is_revocation_step (log ! i) \<longrightarrow> claim_receipt_confirmed (take i log))"
  by (auto simp: revocation_after_claim_receipt_def list_all_iff)

lemma is_claim_receipt_at_append:
  "j < length log \<Longrightarrow> is_claim_receipt_at (log @ d) j = is_claim_receipt_at log j"
  by (cases "log ! j") (simp_all add: is_claim_receipt_at_def nth_append)

lemma claim_receipt_confirmed_append:
  "claim_receipt_confirmed log \<Longrightarrow> claim_receipt_confirmed (log @ d)"
proof -
  assume "claim_receipt_confirmed log"
  then obtain j where j: "j < length log" and at: "is_claim_receipt_at log j"
    unfolding claim_receipt_confirmed_iff by blast
  from j at have "is_claim_receipt_at (log @ d) j"
    by (simp add: is_claim_receipt_at_append)
  moreover from j have "j < length (log @ d)" by simp
  ultimately show ?thesis unfolding claim_receipt_confirmed_iff by blast
qed

lemma revocation_after_claim_receipt_append:
  assumes "revocation_after_claim_receipt log"
    and "\<And>k. k < length d \<Longrightarrow> is_revocation_step (d ! k)
            \<Longrightarrow> claim_receipt_confirmed (log @ take k d)"
  shows "revocation_after_claim_receipt (log @ d)"
  unfolding revocation_after_claim_receipt_iff
proof (intro allI impI)
  fix i
  assume i: "i < length (log @ d)" and rev: "is_revocation_step ((log @ d) ! i)"
  show "claim_receipt_confirmed (take i (log @ d))"
  proof (cases "i < length log")
    case True
    with rev assms(1) show ?thesis
      by (simp add: revocation_after_claim_receipt_iff nth_append)
  next
    case False
    with i rev have "claim_receipt_confirmed (log @ take (i - length log) d)"
      using assms(2) [of "i - length log"] by (simp add: nth_append)
    with False show ?thesis by simp
  qed
qed

lemma append_quiet:
  "revocation_after_claim_receipt log \<Longrightarrow> \<forall>e \<in> set d. \<not> is_revocation_step e
     \<Longrightarrow> revocation_after_claim_receipt (log @ d)"
  by (rule revocation_after_claim_receipt_append) auto

lemma append_after_claim_receipt:
  "revocation_after_claim_receipt log \<Longrightarrow> claim_receipt_confirmed log
     \<Longrightarrow> revocation_after_claim_receipt (log @ d)"
  by (rule revocation_after_claim_receipt_append)
     (auto intro: claim_receipt_confirmed_append)

lemma claim_event_append: "claim_event log e \<Longrightarrow> claim_event (log @ d) e"
  by (auto simp: claim_event_def nth_append split: option.splits)

lemma stable_claim_event: "stable claim_event"
  by (simp add: stable_def claim_event_append)

lemma stable_claim_receipt_confirmed: "stable (\<lambda>log x. claim_receipt_confirmed log)"
  by (simp add: stable_def claim_receipt_confirmed_append)

lemma stable_True: "stable (\<lambda>log x. True)"
  by (simp add: stable_def)

subsection \<open>Rules for the operators\<close>

lemma step_okI:
  assumes "\<And>w xs e w'. handoff_invariant w \<Longrightarrow> pre (events w) \<Longrightarrow> source w = ((xs, e), w')
     \<Longrightarrow> handoff_invariant w' \<and> (\<exists>d. events w' = events w @ d)
         \<and> (\<forall>x \<in> set xs. post (events w') x)"
  shows "step_ok pre source post"
  unfolding step_ok_def using assms by (auto split: prod.splits)

lemma step_okD:
  assumes "step_ok pre source post" "handoff_invariant w" "pre (events w)"
    "source w = ((xs, e), w')"
  shows "handoff_invariant w'" "\<exists>d. events w' = events w @ d" "\<forall>x \<in> set xs. post (events w') x"
  using assms unfolding step_ok_def by (auto split: prod.splits)

lemma step_ok_weaken:
  assumes "step_ok pre source post"
    and "\<And>log. pre' log \<Longrightarrow> pre log"
    and "\<And>log x. post log x \<Longrightarrow> post' log x"
  shows "step_ok pre' source post'"
proof (rule step_okI)
  fix w xs e w'
  assume "handoff_invariant w" "pre' (events w)" "source w = ((xs, e), w')"
  with assms(2) step_okD [OF assms(1), of w xs e w'] assms(3)
  show "handoff_invariant w' \<and> (\<exists>d. events w' = events w @ d)
         \<and> (\<forall>x \<in> set xs. post' (events w') x)"
    by blast
qed

lemma step_ok_replay: "step_ok pre (replay r) (\<lambda>log x. True)"
  by (rule step_okI) (auto simp: replay_def)

lemma step_ok_EMPTY: "step_ok pre EMPTY post"
  by (rule step_okI) (auto simp: EMPTY_def)

lemma handoff_invariant_events:
  assumes "handoff_invariant w" "revocation_after_claim_receipt (events w @ d)"
  shows "handoff_invariant (w\<lparr>events := events w @ d\<rparr>)"
  using assms
  by (auto simp: handoff_invariant_def list_all_iff claim_event_append split: option.splits)

lemma step_ok_from_action:
  assumes "action_ok pre m post"
  shows "step_ok pre (from_action m) post"
proof (rule step_okI)
  fix w xs e w'
  assume inv: "handoff_invariant w" and pre: "pre (events w)"
    and run: "from_action m w = ((xs, e), w')"
  obtain r log' where m: "m (events w) = (r, log')" by (cases "m (events w)")
  from inv have safe: "revocation_after_claim_receipt (events w)"
    by (simp add: handoff_invariant_def)
  from assms safe pre m obtain d where
    safe': "revocation_after_claim_receipt log'" and d: "log' = events w @ d"
    and post: "\<forall>x. r = Inr x \<longrightarrow> post log' x"
    unfolding action_ok_def by fastforce
  from run m have w': "w' = w\<lparr>events := log'\<rparr>"
    by (auto simp: from_action_def split: sum.splits)
  from run m have xs: "\<forall>x \<in> set xs. r = Inr x"
    by (auto simp: from_action_def split: sum.splits)
  have "handoff_invariant w'"
    unfolding w' d using inv safe' d by (simp add: handoff_invariant_events)
  moreover have "\<exists>d. events w' = events w @ d" using w' d by simp
  moreover have "\<forall>x \<in> set xs. post (events w') x" using xs post w' by simp
  ultimately show "handoff_invariant w' \<and> (\<exists>d. events w' = events w @ d)
         \<and> (\<forall>x \<in> set xs. post (events w') x)"
    by blast
qed

lemma run_each_ok:
  assumes f: "\<And>x. step_ok (\<lambda>log. mid log x) (f x) post"
    and mid: "stable mid" and post: "stable post"
  shows "handoff_invariant w \<Longrightarrow> \<forall>x \<in> set xs. mid (events w) x
     \<Longrightarrow> run_each f xs w = ((ys, e), w')
     \<Longrightarrow> handoff_invariant w' \<and> (\<exists>d. events w' = events w @ d)
         \<and> (\<forall>y \<in> set ys. post (events w') y)"
proof (induction xs arbitrary: w ys e w')
  case Nil
  then show ?case by simp
next
  case (Cons x xs)
  obtain ys1 e1 w1 where fx: "f x w = ((ys1, e1), w1)"
    by (metis prod.exhaust)
  from Cons.prems(2) have midx: "mid (events w) x" by simp
  from step_okD [OF f Cons.prems(1) midx fx]
  have inv1: "handoff_invariant w1" and ext1: "\<exists>d. events w1 = events w @ d"
    and post1: "\<forall>y \<in> set ys1. post (events w1) y"
    by blast+
  show ?case
  proof (cases e1)
    case (Some err)
    with fx Cons.prems(3) have "ys = ys1" "w' = w1" by auto
    with inv1 ext1 post1 show ?thesis by blast
  next
    case None
    obtain ys2 e2 w2 where rest: "run_each f xs w1 = ((ys2, e2), w2)"
      by (metis prod.exhaust)
    from None fx rest Cons.prems(3) have eq: "ys = ys1 @ ys2" "w' = w2" by auto
    from ext1 obtain d1 where d1: "events w1 = events w @ d1" by blast
    have mid1: "\<forall>x \<in> set xs. mid (events w1) x"
      using Cons.prems(2) mid d1 by (simp add: stable_def)
    from Cons.IH [OF inv1 mid1 rest]
    have inv2: "handoff_invariant w2" and ext2: "\<exists>d. events w2 = events w1 @ d"
      and post2: "\<forall>y \<in> set ys2. post (events w2) y"
      by blast+
    from ext2 obtain d2 where d2: "events w2 = events w1 @ d2" by blast
    have "\<forall>y \<in> set ys1. post (events w2) y"
      using post1 post d2 by (simp add: stable_def)
    moreover have "\<exists>d. events w2 = events w @ d" using d1 d2 by simp
    ultimately show ?thesis using eq inv2 post2 by auto
  qed
qed

lemma step_ok_switchMap:
  assumes src: "step_ok pre source mid"
    and f: "\<And>x. step_ok (\<lambda>log. mid log x) (f x) post"
    and mid: "stable mid" and post: "stable post"
  shows "step_ok pre (switchMap f source) post"
proof (rule step_okI)
  fix w ys e w'
  assume inv: "handoff_invariant w" and pre: "pre (events w)"
    and run: "switchMap f source w = ((ys, e), w')"
  obtain xs err w1 where s: "source w = ((xs, err), w1)"
    by (metis prod.exhaust)
  obtain ys2 e2 w2 where r: "run_each f xs w1 = ((ys2, e2), w2)"
    by (metis prod.exhaust)
  from run s r have eq: "ys = ys2" "w' = w2"
    by (auto simp: switchMap_def split: option.splits)
  from step_okD [OF src inv pre s]
  have inv1: "handoff_invariant w1" and ext1: "\<exists>d. events w1 = events w @ d"
    and mid1: "\<forall>x \<in> set xs. mid (events w1) x"
    by blast+
  from run_each_ok [OF f mid post inv1 mid1 r]
  have "handoff_invariant w2" "\<exists>d. events w2 = events w1 @ d"
    "\<forall>y \<in> set ys2. post (events w2) y"
    by blast+
  with ext1 eq show "handoff_invariant w' \<and> (\<exists>d. events w' = events w @ d)
         \<and> (\<forall>x \<in> set ys. post (events w') x)"
    by auto
qed

lemma step_ok_takeLast1:
  assumes "step_ok pre source post"
  shows "step_ok pre (takeLast1 source) post"
proof (rule step_okI)
  fix w ys e w'
  assume inv: "handoff_invariant w" and pre: "pre (events w)"
    and run: "takeLast1 source w = ((ys, e), w')"
  obtain xs err w1 where s: "source w = ((xs, err), w1)"
    by (metis prod.exhaust)
  from run s have eq: "w' = w1" "set ys \<subseteq> set xs"
    by (auto simp: takeLast1_def split: option.splits if_splits)
  from step_okD [OF assms inv pre s] eq
  show "handoff_invariant w' \<and> (\<exists>d. events w' = events w @ d)
         \<and> (\<forall>x \<in> set ys. post (events w') x)"
    by blast
qed

lemma step_ok_defaultIfEmpty:
  assumes "step_ok pre source (\<lambda>log x. True)"
  shows "step_ok pre (defaultIfEmpty d source) (\<lambda>log x. True)"
proof (rule step_okI)
  fix w ys e w'
  assume inv: "handoff_invariant w" and pre: "pre (events w)"
    and run: "defaultIfEmpty d source w = ((ys, e), w')"
  obtain xs err w1 where s: "source w = ((xs, err), w1)"
    by (metis prod.exhaust)
  from run s have eq: "w' = w1"
    by (auto simp: defaultIfEmpty_def split: option.splits if_splits)
  from step_okD [OF assms inv pre s] eq
  show "handoff_invariant w' \<and> (\<exists>d. events w' = events w @ d)
         \<and> (\<forall>x \<in> set ys. True)"
    by blast
qed

lemma step_ok_forkJoin:
  assumes a: "step_ok pre a (\<lambda>log x. True)"
    and b: "step_ok (\<lambda>log. True) b (\<lambda>log x. True)"
  shows "step_ok pre (forkJoin a b) (\<lambda>log x. True)"
proof (rule step_okI)
  fix w ys e w'
  assume inv: "handoff_invariant w" and pre: "pre (events w)"
    and run: "forkJoin a b w = ((ys, e), w')"
  obtain xs ea w1 where ra: "a w = ((xs, ea), w1)"
    by (metis prod.exhaust)
  obtain zs eb w2 where rb: "b w1 = ((zs, eb), w2)"
    by (metis prod.exhaust)
  from run ra rb have eq: "w' = w2"
    by (auto simp: forkJoin_def split: option.splits if_splits)
  from step_okD [OF a inv pre ra]
  have inv1: "handoff_invariant w1" and ext1: "\<exists>d. events w1 = events w @ d"
    by blast+
  from step_okD [OF b inv1 _ rb]
  have "handoff_invariant w2" "\<exists>d. events w2 = events w1 @ d"
    by blast+
  with ext1 eq show "handoff_invariant w' \<and> (\<exists>d. events w' = events w @ d)
         \<and> (\<forall>x \<in> set ys. True)"
    by auto
qed

lemma step_ok_concat_all:
  assumes "\<And>source. source \<in> set sources \<Longrightarrow> step_ok (\<lambda>log. True) source (\<lambda>log x. True)"
  shows "step_ok (\<lambda>log. True) (concat_all sources) (\<lambda>log x. True)"
  using assms
proof (induction sources)
  case Nil
  show ?case by (rule step_okI) simp
next
  case (Cons s sources)
  have s: "step_ok (\<lambda>log. True) s (\<lambda>log x. True)" using Cons.prems by simp
  have rest: "step_ok (\<lambda>log. True) (concat_all sources) (\<lambda>log x. True)"
    using Cons by simp
  show ?case
  proof (rule step_okI)
    fix w ys e w'
    assume inv: "handoff_invariant w"
      and run: "concat_all (s # sources) w = ((ys, e), w')"
    obtain xs es w1 where rs: "s w = ((xs, es), w1)"
      by (metis prod.exhaust)
    from step_okD [OF s inv _ rs]
    have inv1: "handoff_invariant w1" and ext1: "\<exists>d. events w1 = events w @ d"
      by blast+
    show "handoff_invariant w' \<and> (\<exists>d. events w' = events w @ d)
         \<and> (\<forall>x \<in> set ys. True)"
    proof (cases es)
      case (Some err)
      with run rs have "w' = w1" by simp
      with inv1 ext1 show ?thesis by blast
    next
      case None
      obtain zs ez w2 where rr: "concat_all sources w1 = ((zs, ez), w2)"
        by (metis prod.exhaust)
      from None run rs rr have "w' = w2" by simp
      moreover from step_okD [OF rest inv1 _ rr]
      have "handoff_invariant w2" "\<exists>d. events w2 = events w1 @ d"
        by blast+
      ultimately show ?thesis using ext1 by auto
    qed
  qed
qed

text \<open>A slot other than the one of \<^verbatim>\<open>claimOwnership$\<close>.\<close>

lemma step_ok_shareReplay:
  assumes src: "step_ok pre source (\<lambda>log x. True)"
    and frame: "\<And>g w. events (slot_update g w) = events w
                  \<and> claimOwnership_shared (slot_update g w) = claimOwnership_shared w"
  shows "step_ok pre (shareReplay slot slot_update source) (\<lambda>log x. True)"
proof (rule step_okI)
  fix w ys e w'
  assume inv: "handoff_invariant w" and pre: "pre (events w)"
    and run: "shareReplay slot slot_update source w = ((ys, e), w')"
  show "handoff_invariant w' \<and> (\<exists>d. events w' = events w @ d)
         \<and> (\<forall>x \<in> set ys. True)"
  proof (cases "slot w")
    case (Some r)
    with run have "w' = w" by (simp add: shareReplay_def)
    with inv show ?thesis by simp
  next
    case None
    obtain xs err w1 where s: "source w = ((xs, err), w1)"
      by (metis prod.exhaust)
    from None run s have w': "w' = slot_update (\<lambda>_. Some (xs, err)) w1"
      by (auto simp: shareReplay_def)
    from step_okD [OF src inv pre s]
    have inv1: "handoff_invariant w1" and ext1: "\<exists>d. events w1 = events w @ d"
      by blast+
    have "handoff_invariant w'"
      using inv1 frame [of "\<lambda>_. Some (xs, err)" w1] unfolding w'
      by (auto simp: handoff_invariant_def split: option.splits)
    moreover have "\<exists>d. events w' = events w @ d"
      using ext1 frame [of "\<lambda>_. Some (xs, err)" w1] unfolding w' by simp
    ultimately show ?thesis by simp
  qed
qed

text \<open>The slot of \<^verbatim>\<open>claimOwnership$\<close>: what it replays are events of the claim step.\<close>

lemma step_ok_shareReplay_claimOwnership:
  assumes src: "step_ok pre source claim_event"
  shows "step_ok pre (shareReplay claimOwnership_shared claimOwnership_shared_update source)
           claim_event"
proof (rule step_okI)
  fix w ys e w'
  assume inv: "handoff_invariant w" and pre: "pre (events w)"
    and run: "shareReplay claimOwnership_shared claimOwnership_shared_update source w
                = ((ys, e), w')"
  show "handoff_invariant w' \<and> (\<exists>d. events w' = events w @ d)
         \<and> (\<forall>x \<in> set ys. claim_event (events w') x)"
  proof (cases "claimOwnership_shared w")
    case (Some r)
    with run have eq: "w' = w" "r = (ys, e)" by (simp_all add: shareReplay_def)
    from inv Some eq have "\<forall>x \<in> set ys. claim_event (events w) x"
      by (simp add: handoff_invariant_def list_all_iff)
    with inv eq show ?thesis by simp
  next
    case None
    obtain xs err w1 where s: "source w = ((xs, err), w1)"
      by (metis prod.exhaust)
    from None run s have w': "w' = claimOwnership_shared_update (\<lambda>_. Some (xs, err)) w1"
      and ys: "ys = xs"
      by (auto simp: shareReplay_def)
    from step_okD [OF src inv pre s]
    have inv1: "handoff_invariant w1" and ext1: "\<exists>d. events w1 = events w @ d"
      and post1: "\<forall>x \<in> set xs. claim_event (events w1) x"
      by blast+
    have "handoff_invariant w'"
      using inv1 post1 unfolding w'
      by (simp add: handoff_invariant_def list_all_iff)
    moreover have "\<exists>d. events w' = events w @ d"
      using ext1 unfolding w' by simp
    moreover have "\<forall>x \<in> set ys. claim_event (events w') x"
      using post1 unfolding w' ys by simp
    ultimately show ?thesis by simp
  qed
qed


subsection \<open>The actions of the handoff\<close>

lemma action_okI:
  assumes "\<And>log r log'. revocation_after_claim_receipt log \<Longrightarrow> pre log \<Longrightarrow> m log = (r, log')
     \<Longrightarrow> revocation_after_claim_receipt log' \<and> (\<exists>d. log' = log @ d)
         \<and> (\<forall>x. r = Inr x \<longrightarrow> post log' x)"
  shows "action_ok pre m post"
  unfolding action_ok_def using assms by (auto split: prod.splits)

lemma action_ok_pure: "action_ok pre (\<lambda>log. (r, log)) (\<lambda>log x. True)"
  by (rule action_okI) auto

lemma step_ok_from_result: "step_ok pre (from_result r) (\<lambda>log x. True)"
  unfolding from_result_def by (rule step_ok_from_action) (rule action_ok_pure)

lemma action_ok_sendSetDataAndTransferOwnershipTransactions:
  "action_ok pre (sendSetDataAndTransferOwnershipTransactions cfg signer acct keys vals km)
     (\<lambda>log x. True)"
proof (rule action_okI)
  fix log r log'
  assume safe: "revocation_after_claim_receipt log"
    and run: "sendSetDataAndTransferOwnershipTransactions cfg signer acct keys vals km log
                = (r, log')"
  from run have "log' = snd (sendSetDataAndTransferOwnershipTransactions cfg signer acct keys
      vals km log)" by simp
  then obtain d where d: "log' = log @ d" and quiet: "\<forall>e \<in> set d. \<not> is_revocation_step e"
    unfolding sendSetDataAndTransferOwnershipTransactions_events
    by (auto split: sum.splits)
  from append_quiet [OF safe quiet] d
  show "revocation_after_claim_receipt log' \<and> (\<exists>d. log' = log @ d)
         \<and> (\<forall>x. r = Inr x \<longrightarrow> True)"
    by simp
qed

lemma claimOwnership_result:
  "claimOwnership cfg signer acct km log = (Inr x, log')
     \<Longrightarrow> \<exists>tx. transaction x = Some tx \<and> tx < length log' \<and> is_claim_submission (log' ! tx)"
  by (auto simp: claimOwnership_def then_do_def signer_getAddress_def estimateGas_def
        sendTransaction_def return_value_def Let_def nth_append
        split: sum.splits option.splits)

lemma action_ok_claimOwnership:
  "action_ok pre (claimOwnership cfg signer acct km) claim_event"
proof (rule action_okI)
  fix log r log'
  assume safe: "revocation_after_claim_receipt log"
    and run: "claimOwnership cfg signer acct km log = (r, log')"
  from run have "log' = snd (claimOwnership cfg signer acct km log)" by simp
  then obtain d where d: "log' = log @ d" and quiet: "\<forall>e \<in> set d. \<not> is_revocation_step e"
    unfolding claimOwnership_events
    by (auto split: sum.splits)
  have "\<forall>x. r = Inr x \<longrightarrow> claim_event log' x"
    using run claimOwnership_result [of cfg signer acct km log _ log']
    by (auto simp: claim_event_def)
  with append_quiet [OF safe quiet] d
  show "revocation_after_claim_receipt log' \<and> (\<exists>d. log' = log @ d)
         \<and> (\<forall>x. r = Inr x \<longrightarrow> claim_event log' x)"
    by simp
qed

lemma action_ok_revokeSignerPermissions:
  "action_ok claim_receipt_confirmed
     (revokeSignerPermissions cfg signer km acct controllers) (\<lambda>log x. True)"
proof (rule action_okI)
  fix log r log'
  assume safe: "revocation_after_claim_receipt log" and seen: "claim_receipt_confirmed log"
    and run: "revokeSignerPermissions cfg signer km acct controllers log = (r, log')"
  from run have "log' = snd (revokeSignerPermissions cfg signer km acct controllers log)"
    by simp
  then obtain d where d: "log' = log @ d"
    unfolding revokeSignerPermissions_events by blast
  from append_after_claim_receipt [OF safe seen] d
  show "revocation_after_claim_receipt log' \<and> (\<exists>d. log' = log @ d)
         \<and> (\<forall>x. r = Inr x \<longrightarrow> True)"
    by simp
qed

lemma wait_for_transaction_cases:
  assumes "wait_for_transaction signer tx log = (r, log')"
  shows "(log' = log \<and> (\<exists>e. r = Inl e))
       \<or> (log' = log @ [ReceiptConfirmed tx] \<and> (\<exists>x. r = Inr x))"
proof (cases "waitResult signer log tx")
  case (Inl e)
  with assms have "r = Inl e" "log' = log"
    by (simp_all add: wait_for_transaction_def)
  then show ?thesis by blast
next
  case (Inr x)
  with assms have "r = Inr x" "log' = log @ [ReceiptConfirmed tx]"
    by (simp_all add: wait_for_transaction_def)
  then show ?thesis by blast
qed

lemma action_ok_wait:
  "action_ok pre
     (case transaction (result :: deployment_event) of
        None \<Rightarrow> reject TypeError
      | Some tx \<Rightarrow>
          then_do (wait_for_transaction signer tx) (\<lambda>r.
          return_value (result\<lparr>status := COMPLETE, receipt := Some r\<rparr>)))
     (\<lambda>log x. claim_event log result \<longrightarrow> claim_receipt_confirmed log)"
proof (rule action_okI)
  fix log r log'
  assume safe: "revocation_after_claim_receipt log"
    and run: "(case transaction result of
        None \<Rightarrow> reject TypeError
      | Some tx \<Rightarrow>
          then_do (wait_for_transaction signer tx) (\<lambda>r.
          return_value (result\<lparr>status := COMPLETE, receipt := Some r\<rparr>))) log = (r, log')"
  show "revocation_after_claim_receipt log' \<and> (\<exists>d. log' = log @ d)
         \<and> (\<forall>x. r = Inr x \<longrightarrow> claim_event log' result \<longrightarrow> claim_receipt_confirmed log')"
  proof (cases "transaction result")
    case None
    with run safe show ?thesis by (auto simp: reject_def)
  next
    case (Some tx)
    obtain r1 log1 where w: "wait_for_transaction signer tx log = (r1, log1)"
      by (metis prod.exhaust)
    from wait_for_transaction_cases [OF w]
    show ?thesis
    proof
      assume "log1 = log \<and> (\<exists>e. r1 = Inl e)"
      with Some run w safe show ?thesis
        by (auto simp: then_do_def)
    next
      assume ok: "log1 = log @ [ReceiptConfirmed tx] \<and> (\<exists>x. r1 = Inr x)"
      with Some run w have log': "log' = log @ [ReceiptConfirmed tx]"
        by (auto simp: then_do_def return_value_def)
      have safe': "revocation_after_claim_receipt log'"
        unfolding log' by (rule append_quiet [OF safe]) simp
      have "claim_event log' result \<longrightarrow> claim_receipt_confirmed log'"
      proof
        assume "claim_event log' result"
        with Some have tx: "tx < length log'" "is_claim_submission (log' ! tx)"
          by (simp_all add: claim_event_def)
        have "tx \<noteq> length log"
        proof
          assume "tx = length log"
          with tx(2) show False by (simp add: log')
        qed
        with tx(1) have lt: "tx < length log" by (simp add: log')
        with tx(2) have "is_claim_receipt_at log' (length log)"
          by (simp add: is_claim_receipt_at_def log' nth_append)
        moreover have "length log < length log'" by (simp add: log')
        ultimately show "claim_receipt_confirmed log'"
          unfolding claim_receipt_confirmed_iff by blast
      qed
      with safe' log' show ?thesis by simp
    qed
  qed
qed

lemma action_ok_wait_quiet:
  "action_ok pre
     (case transaction (result :: deployment_event) of
        None \<Rightarrow> reject TypeError
      | Some tx \<Rightarrow>
          then_do (wait_for_transaction signer tx) (\<lambda>r.
          return_value (result\<lparr>status := COMPLETE, receipt := Some r\<rparr>)))
     (\<lambda>log x. True)"
  using action_ok_wait [where pre = pre and result = result and signer = signer]
  unfolding action_ok_def by fastforce

lemma step_ok_waitForReceipt:
  assumes "step_ok pre source (\<lambda>log x. True)"
  shows "step_ok pre (waitForReceipt signer source) (\<lambda>log x. True)"
  unfolding waitForReceipt_def
  by (rule step_ok_switchMap [OF assms _ stable_True stable_True])
     (rule step_ok_from_action [OF action_ok_wait_quiet])

lemma step_ok_waitForReceipt_claim:
  assumes "step_ok pre source claim_event"
  shows "step_ok pre (waitForReceipt signer source) (\<lambda>log x. claim_receipt_confirmed log)"
  unfolding waitForReceipt_def
proof (rule step_ok_switchMap [OF assms _ stable_claim_event stable_claim_receipt_confirmed])
  fix x
  have "action_ok (\<lambda>log. claim_event log x)
     (case transaction x of
        None \<Rightarrow> reject TypeError
      | Some tx \<Rightarrow>
          then_do (wait_for_transaction signer tx) (\<lambda>r.
          return_value (x\<lparr>status := COMPLETE, receipt := Some r\<rparr>)))
     (\<lambda>log y. claim_receipt_confirmed log)"
  proof (rule action_okI)
    fix log r log'
    assume safe: "revocation_after_claim_receipt log" and c: "claim_event log x"
      and run: "(case transaction x of
        None \<Rightarrow> reject TypeError
      | Some tx \<Rightarrow>
          then_do (wait_for_transaction signer tx) (\<lambda>r.
          return_value (x\<lparr>status := COMPLETE, receipt := Some r\<rparr>))) log = (r, log')"
    from action_ok_wait [where pre = "\<lambda>log. True" and result = x and signer = signer]
      safe run
    have a: "revocation_after_claim_receipt log'" and b: "\<exists>d. log' = log @ d"
      and p: "\<forall>y. r = Inr y \<longrightarrow> claim_event log' x \<longrightarrow> claim_receipt_confirmed log'"
      unfolding action_ok_def by fastforce+
    from b c have "claim_event log' x" by (auto intro: claim_event_append)
    with a b p show "revocation_after_claim_receipt log' \<and> (\<exists>d. log' = log @ d)
         \<and> (\<forall>y. r = Inr y \<longrightarrow> claim_receipt_confirmed log')"
      by blast
  qed
  then show "step_ok (\<lambda>log. claim_event log x) (from_action
        (case transaction x of
           None \<Rightarrow> reject TypeError
         | Some tx \<Rightarrow>
             then_do (wait_for_transaction signer tx) (\<lambda>r.
             return_value (x\<lparr>status := COMPLETE, receipt := Some r\<rparr>))))
        (\<lambda>log y. claim_receipt_confirmed log)"
    by (rule step_ok_from_action)
qed

subsection \<open>The stages of the pipeline\<close>

lemma step_ok_prepareSetDataTransaction:
  "step_ok (\<lambda>log. True)
     (prepareSetDataTransaction_obs cfg signer (replay account) (replay universalReceiver)
        controllers (replay lsp3ProfileData) (replay isSignerUniversalProfile) defaultDelegate)
     (\<lambda>log x. True)"
  unfolding prepareSetDataTransaction_obs_def Let_def
  apply (rule step_ok_shareReplay)
   apply (rule step_ok_switchMap [where mid = "\<lambda>log x. True"])
      apply (rule step_ok_forkJoin)
       apply (rule step_ok_replay)
      apply (rule step_ok_forkJoin)
       apply (rule step_ok_shareReplay)
        apply (rule step_ok_defaultIfEmpty)
        apply (rule step_ok_replay)
       apply simp
      apply (rule step_ok_forkJoin)
       apply (rule step_ok_replay)
      apply (rule step_ok_replay)
     apply (simp add: split_def step_ok_from_result)
    apply (rule stable_True)
   apply (rule stable_True)
  apply simp
  done

lemma step_ok_prepareTransferOwnershipTransaction:
  "step_ok (\<lambda>log. True)
     (prepareTransferOwnershipTransaction_obs (replay account) (replay keyManagerDeployment)
        (replay isSignerUniversalProfile))
     (\<lambda>log x. True)"
  unfolding prepareTransferOwnershipTransaction_obs_def
  apply (rule step_ok_shareReplay)
   apply (rule step_ok_switchMap [where mid = "\<lambda>log x. True"])
      apply (rule step_ok_forkJoin)
       apply (rule step_ok_replay)
      apply (rule step_ok_forkJoin)
       apply (rule step_ok_replay)
      apply (rule step_ok_replay)
     apply (simp add: split_def step_ok_from_result)
    apply (rule stable_True)
   apply (rule stable_True)
  apply simp
  done

lemma step_ok_pendingSetDataAndTransferOwnershipArray:
  assumes "step_ok (\<lambda>log. True) setDataParameters_obs (\<lambda>log x. True)"
    and "step_ok (\<lambda>log. True) transferOwnershipParameters_obs (\<lambda>log x. True)"
  shows "step_ok (\<lambda>log. True)
     (pendingSetDataAndTransferOwnershipArray_obs cfg signer setDataParameters_obs
        transferOwnershipParameters_obs)
     (\<lambda>log x. True)"
  unfolding pendingSetDataAndTransferOwnershipArray_obs_def
  apply (rule step_ok_shareReplay)
   apply (rule step_ok_switchMap [where mid = "\<lambda>log x. True"])
      apply (rule step_ok_forkJoin [OF assms])
     apply (simp add: split_def step_ok_from_action
       action_ok_sendSetDataAndTransferOwnershipTransactions)
    apply (rule stable_True)
   apply (rule stable_True)
  apply simp
  done

lemma action_ok_batch_submitted:
  "action_ok pre
     (case pendingTransaction (pending :: deployment_event) of
        None \<Rightarrow> reject TypeError
      | Some (Inl e) \<Rightarrow> reject e
      | Some (Inr tx) \<Rightarrow> return_value (pending\<lparr>transaction := Some tx\<rparr>))
     (\<lambda>log x. True)"
  by (rule action_okI) (auto simp: reject_def return_value_def split: option.splits sum.splits)

lemma action_ok_batch_confirmed:
  "action_ok pre
     (case pendingTransaction (pending :: deployment_event) of
        None \<Rightarrow> reject TypeError
      | Some (Inl e) \<Rightarrow> reject e
      | Some (Inr tx) \<Rightarrow>
          then_do (wait_for_transaction signer tx) (\<lambda>r.
          return_value
            (pending\<lparr>transaction := Some tx, status := COMPLETE, receipt := Some r\<rparr>)))
     (\<lambda>log x. True)"
proof (rule action_okI)
  fix log r log'
  assume safe: "revocation_after_claim_receipt log"
    and run: "(case pendingTransaction pending of
        None \<Rightarrow> reject TypeError
      | Some (Inl e) \<Rightarrow> reject e
      | Some (Inr tx) \<Rightarrow>
          then_do (wait_for_transaction signer tx) (\<lambda>r.
          return_value
            (pending\<lparr>transaction := Some tx, status := COMPLETE, receipt := Some r\<rparr>))) log
       = (r, log')"
  have "log' = log \<or> (\<exists>tx. log' = log @ [ReceiptConfirmed tx])"
  proof (cases "pendingTransaction pending")
    case None
    with run show ?thesis by (auto simp: reject_def)
  next
    case (Some p)
    show ?thesis
    proof (cases p)
      case (Inl e)
      with Some run show ?thesis by (auto simp: reject_def)
    next
      case (Inr tx)
      obtain r1 log1 where w: "wait_for_transaction signer tx log = (r1, log1)"
        by (metis prod.exhaust)
      from wait_for_transaction_cases [OF w] Some Inr run w show ?thesis
        by (auto simp: then_do_def return_value_def)
    qed
  qed
  then show "revocation_after_claim_receipt log' \<and> (\<exists>d. log' = log @ d)
         \<and> (\<forall>x. r = Inr x \<longrightarrow> True)"
  proof
    assume "log' = log"
    with safe show ?thesis by simp
  next
    assume "\<exists>tx. log' = log @ [ReceiptConfirmed tx]"
    then obtain tx where l: "log' = log @ [ReceiptConfirmed tx]" by blast
    have "revocation_after_claim_receipt (log @ [ReceiptConfirmed tx])"
      by (rule append_quiet [OF safe]) simp
    with l show ?thesis by simp
  qed
qed

lemma step_ok_waitForBatchedPendingTransactions:
  assumes "step_ok (\<lambda>log. True) source (\<lambda>log x. True)"
  shows "step_ok (\<lambda>log. True) (waitForBatchedPendingTransactions signer source)
           (\<lambda>log x. True)"
  unfolding waitForBatchedPendingTransactions_def
proof (rule step_ok_switchMap [OF assms _ stable_True stable_True])
  fix pendings
  show "step_ok (\<lambda>log. True)
          (concat_all (map batch_submitted pendings @ map (batch_confirmed signer) pendings))
          (\<lambda>log x. True)"
  proof (rule step_ok_concat_all)
    fix source
    assume "source \<in> set (map batch_submitted pendings
                          @ map (batch_confirmed signer) pendings)"
    then consider p where "source = batch_submitted p"
      | p where "source = batch_confirmed signer p"
      by auto
    then show "step_ok (\<lambda>log. True) source (\<lambda>log x. True)"
    proof cases
      case 1
      then show ?thesis
        unfolding batch_submitted_def
        by (simp add: step_ok_from_action action_ok_batch_submitted)
    next
      case 2
      then show ?thesis
        unfolding batch_confirmed_def
        by (simp add: step_ok_from_action action_ok_batch_confirmed)
    qed
  qed
qed

lemma step_ok_claimOwnership_obs:
  assumes params: "step_ok (\<lambda>log. True) transferOwnershipParameters_obs (\<lambda>log x. True)"
    and batch: "step_ok (\<lambda>log. True) setDataAndTransferOwnership_obs (\<lambda>log x. True)"
  shows "step_ok (\<lambda>log. True)
     (claimOwnership_obs cfg signer transferOwnershipParameters_obs
        setDataAndTransferOwnership_obs)
     claim_event"
  unfolding claimOwnership_obs_def
proof (rule step_ok_shareReplay_claimOwnership,
    rule step_ok_switchMap [OF params _ stable_True stable_claim_event])
  fix p
  show "step_ok (\<lambda>log. True)
     (switchMap (\<lambda>lastEvent. from_action (claimOwnership cfg signer
           (transfer_erc725AccountAddress p) (transfer_keyManagerAddress p)))
        (takeLast1 setDataAndTransferOwnership_obs))
     claim_event"
    by (rule step_ok_switchMap [OF step_ok_takeLast1 [OF batch] _ stable_True
            stable_claim_event])
       (rule step_ok_from_action [OF action_ok_claimOwnership])
qed

lemma step_ok_revokeSignerPermissions_obs:
  assumes sd: "step_ok (\<lambda>log. True) setDataParameters_obs (\<lambda>log x. True)"
    and params: "step_ok (\<lambda>log. True) transferOwnershipParameters_obs (\<lambda>log x. True)"
    and receipt: "step_ok (\<lambda>log. True) claimOwnershipReceipt_obs
                    (\<lambda>log x. claim_receipt_confirmed log)"
  shows "step_ok (\<lambda>log. True)
     (revokeSignerPermissions_obs cfg signer controllers setDataParameters_obs
        transferOwnershipParameters_obs claimOwnershipReceipt_obs)
     (\<lambda>log x. True)"
  unfolding revokeSignerPermissions_obs_def
proof (rule step_ok_shareReplay)
  show "step_ok (\<lambda>log. True)
     (switchMap
        (\<lambda>(setDataParameters, transferOwnershipParameters).
           switchMap
             (\<lambda>claimReceipt. from_action
                (revokeSignerPermissions cfg signer
                   (transfer_keyManagerAddress transferOwnershipParameters)
                   (erc725AccountAddress setDataParameters) controllers))
             claimOwnershipReceipt_obs)
        (forkJoin setDataParameters_obs transferOwnershipParameters_obs))
     (\<lambda>log x. True)"
  proof (rule step_ok_switchMap [OF step_ok_forkJoin [OF sd params] _ stable_True stable_True])
    fix x :: "set_data_parameters \<times> transfer_ownership_parameters"
    obtain s p where x: "x = (s, p)" by (cases x)
    have "step_ok (\<lambda>log. True)
       (switchMap
          (\<lambda>claimReceipt. from_action
             (revokeSignerPermissions cfg signer (transfer_keyManagerAddress p)
                (erc725AccountAddress s) controllers))
          claimOwnershipReceipt_obs)
       (\<lambda>log x. True)"
      by (rule step_ok_switchMap [OF receipt _ stable_claim_receipt_confirmed stable_True])
         (rule step_ok_from_action [OF action_ok_revokeSignerPermissions])
    then show "step_ok (\<lambda>log. True)
       ((\<lambda>(setDataParameters, transferOwnershipParameters).
           switchMap
             (\<lambda>claimReceipt. from_action
                (revokeSignerPermissions cfg signer
                   (transfer_keyManagerAddress transferOwnershipParameters)
                   (erc725AccountAddress setDataParameters) controllers))
             claimOwnershipReceipt_obs) x)
       (\<lambda>log x. True)"
      by (simp add: x)
  qed
qed simp

lemma handoff_invariant_fresh_world: "handoff_invariant (fresh_world [])"
  by (simp add: handoff_invariant_def fresh_world_def revocation_after_claim_receipt_def)

text \<open>
  C1: in every run of \<^verbatim>\<open>setDataAndTransferOwnershipTransactions$\<close>, started with
  an empty log and empty slots on inputs that replay what the earlier steps emitted, the
  log is ordered: before each gas estimate and each submission of the revocation there is
  the confirmed receipt of a claim-ownership transaction submitted in this run.
\<close>

theorem revocation_only_after_claim_receipt:
  "revocation_after_claim_receipt
     (events (snd (setDataAndTransferOwnershipTransactions_obs cfg signer
        (replay account) (replay universalReceiver) controllers (replay lsp3ProfileData)
        (replay isSignerUniversalProfile) (replay keyManagerDeployment) defaultDelegate
        (fresh_world []))))"
proof -
  let ?sd = "prepareSetDataTransaction_obs cfg signer (replay account)
      (replay universalReceiver) controllers (replay lsp3ProfileData)
      (replay isSignerUniversalProfile) defaultDelegate"
  let ?params = "prepareTransferOwnershipTransaction_obs (replay account)
      (replay keyManagerDeployment) (replay isSignerUniversalProfile)"
  let ?pending = "pendingSetDataAndTransferOwnershipArray_obs cfg signer ?sd ?params"
  let ?batch = "waitForBatchedPendingTransactions signer ?pending"
  let ?claim = "claimOwnership_obs cfg signer ?params ?batch"
  let ?claimReceipt = "waitForReceipt signer ?claim"
  let ?revoke = "revokeSignerPermissions_obs cfg signer controllers ?sd ?params ?claimReceipt"
  let ?revokeReceipt = "waitForReceipt signer ?revoke"
  have sd: "step_ok (\<lambda>log. True) ?sd (\<lambda>log x. True)"
    by (rule step_ok_prepareSetDataTransaction)
  have params: "step_ok (\<lambda>log. True) ?params (\<lambda>log x. True)"
    by (rule step_ok_prepareTransferOwnershipTransaction)
  have batch: "step_ok (\<lambda>log. True) ?batch (\<lambda>log x. True)"
    by (rule step_ok_waitForBatchedPendingTransactions
          [OF step_ok_pendingSetDataAndTransferOwnershipArray [OF sd params]])
  have claim: "step_ok (\<lambda>log. True) ?claim claim_event"
    by (rule step_ok_claimOwnership_obs [OF params batch])
  have claim': "step_ok (\<lambda>log. True) ?claim (\<lambda>log x. True)"
    by (rule step_ok_weaken [OF claim]) simp_all
  have claimReceipt: "step_ok (\<lambda>log. True) ?claimReceipt (\<lambda>log x. claim_receipt_confirmed log)"
    by (rule step_ok_waitForReceipt_claim [OF claim])
  have claimReceipt': "step_ok (\<lambda>log. True) ?claimReceipt (\<lambda>log x. True)"
    by (rule step_ok_weaken [OF claimReceipt]) simp_all
  have revoke: "step_ok (\<lambda>log. True) ?revoke (\<lambda>log x. True)"
    by (rule step_ok_revokeSignerPermissions_obs [OF sd params claimReceipt])
  have revokeReceipt: "step_ok (\<lambda>log. True) ?revokeReceipt (\<lambda>log x. True)"
    by (rule step_ok_waitForReceipt [OF revoke])
  have "step_ok (\<lambda>log. True)
          (concat_all [?batch, ?claim, ?claimReceipt, ?revoke, ?revokeReceipt])
          (\<lambda>log x. True)"
    using batch claim' claimReceipt' revoke revokeReceipt
    by (intro step_ok_concat_all) auto
  then have whole: "step_ok (\<lambda>log. True)
     (setDataAndTransferOwnershipTransactions_obs cfg signer
        (replay account) (replay universalReceiver) controllers (replay lsp3ProfileData)
        (replay isSignerUniversalProfile) (replay keyManagerDeployment) defaultDelegate)
     (\<lambda>log x. True)"
    by (simp add: setDataAndTransferOwnershipTransactions_obs_def Let_def)
  obtain xs e w' where run: "setDataAndTransferOwnershipTransactions_obs cfg signer
        (replay account) (replay universalReceiver) controllers (replay lsp3ProfileData)
        (replay isSignerUniversalProfile) (replay keyManagerDeployment) defaultDelegate
        (fresh_world []) = ((xs, e), w')"
    by (metis prod.exhaust)
  from step_okD(1) [OF whole handoff_invariant_fresh_world _ run]
  have "handoff_invariant w'" by simp
  with run show ?thesis by (simp add: handoff_invariant_def)
qed

lemmas pipeline_eval =
  setDataAndTransferOwnershipTransactions_obs_def prepareSetDataTransaction_obs_def
  prepareTransferOwnershipTransaction_obs_def pendingSetDataAndTransferOwnershipArray_obs_def
  claimOwnership_obs_def revokeSignerPermissions_obs_def waitForReceipt_def
  waitForBatchedPendingTransactions_def batch_submitted_def batch_confirmed_def
  shareReplay_def switchMap_def forkJoin_def takeLast1_def defaultIfEmpty_def replay_def
  from_action_def from_result_def fresh_world_def deployed_address_def delegate_address_def
  js_or_def then_do_def return_value_def reject_def signer_getAddress_def estimateGas_def
  sendTransaction_def wait_for_transaction_def
  sendSetDataAndTransferOwnershipTransactions_def claimOwnership_def
  revokeSignerPermissions_def signerPermission_def
  example_account_event_def example_keyManager_event_def example_receipt_def

lemma example_handoff_run:
  "events (snd (setDataAndTransferOwnershipTransactions_obs example_config example_signer
        (replay ([example_account_event], None)) (replay ([], None)) []
        (replay ([None], None)) (replay ([False], None))
        (replay ([example_keyManager_event], None))
        (Some ''0xdddddddddddddddddddddddddddddddddddddddd'') (fresh_world []))) =
     [GasEstimated
        (SetDataArrays ''0xcccccccccccccccccccccccccccccccccccccccc''
          [''0x0cfc51aec37c55a4d0b1a65c6255c4bf2fbdf6277f3cc0730c45b828b6db8b47'',
           ''0x4b80742de2bf82acb3630000dddddddddddddddddddddddddddddddddddddddd'',
           ''0xdf30dba06db6a30e65354d9a64c609861f089545ca58c6b4dbe31a5f338cb0e3'',
           ''0xdf30dba06db6a30e65354d9a64c6098600000000000000000000000000000000'',
           ''0x4b80742de2bf82acb36300005555555555555555555555555555555555555555'']
          [Some ''0xdddddddddddddddddddddddddddddddddddddddd'',
           Some
            ''0x0000000000000000000000000000000000000000000000000000000000000400'',
           Some
            ''0x0000000000000000000000000000000000000000000000000000000000000001'',
           Some ''0xdddddddddddddddddddddddddddddddddddddddd'',
           Some
            ''0x0000000000000000000000000000000000000000000000000000000000000003''])
        None,
       GasEstimated
        (TransferOwnership ''0xcccccccccccccccccccccccccccccccccccccccc''
          ''0xbbbbbbbbbbbbbbbbbbbbbbbbbbbbbbbbbbbbbbbb'')
        (Some ''0x5555555555555555555555555555555555555555''),
       TransactionSent
        (SetDataArrays ''0xcccccccccccccccccccccccccccccccccccccccc''
          [''0x0cfc51aec37c55a4d0b1a65c6255c4bf2fbdf6277f3cc0730c45b828b6db8b47'',
           ''0x4b80742de2bf82acb3630000dddddddddddddddddddddddddddddddddddddddd'',
           ''0xdf30dba06db6a30e65354d9a64c609861f089545ca58c6b4dbe31a5f338cb0e3'',
           ''0xdf30dba06db6a30e65354d9a64c6098600000000000000000000000000000000'',
           ''0x4b80742de2bf82acb36300005555555555555555555555555555555555555555'']
          [Some ''0xdddddddddddddddddddddddddddddddddddddddd'',
           Some
            ''0x0000000000000000000000000000000000000000000000000000000000000400'',
           Some
            ''0x0000000000000000000000000000000000000000000000000000000000000001'',
           Some ''0xdddddddddddddddddddddddddddddddddddddddd'',
           Some
            ''0x0000000000000000000000000000000000000000000000000000000000000003''])
        ''0x5555555555555555555555555555555555555555'' 121000 10000000000,
       TransactionSent
        (TransferOwnership ''0xcccccccccccccccccccccccccccccccccccccccc''
          ''0xbbbbbbbbbbbbbbbbbbbbbbbbbbbbbbbbbbbbbbbb'')
        ''0x5555555555555555555555555555555555555555'' 121001 10000000000,
       ReceiptConfirmed 2, ReceiptConfirmed 3, ReceiptConfirmed 2,
       ReceiptConfirmed 3,
       GasEstimated
        (Execute ''0xbbbbbbbbbbbbbbbbbbbbbbbbbbbbbbbbbbbbbbbb''
          ClaimOwnershipSighash)
        (Some ''0x5555555555555555555555555555555555555555''),
       TransactionSent
        (Execute ''0xbbbbbbbbbbbbbbbbbbbbbbbbbbbbbbbbbbbbbbbb''
          ClaimOwnershipSighash)
        ''0x5555555555555555555555555555555555555555'' 121008 10000000000,
       ReceiptConfirmed 9, ReceiptConfirmed 9,
       GasEstimated
        (Execute ''0xbbbbbbbbbbbbbbbbbbbbbbbbbbbbbbbbbbbbbbbb''
          (SetDataCalldata
            ''0x4b80742de2bf82acb36300005555555555555555555555555555555555555555''
            ''0x0000000000000000000000000000000000000000000000000000000000000000''))
        (Some ''0x5555555555555555555555555555555555555555''),
       TransactionSent
        (Execute ''0xbbbbbbbbbbbbbbbbbbbbbbbbbbbbbbbbbbbbbbbb''
          (SetDataCalldata
            ''0x4b80742de2bf82acb36300005555555555555555555555555555555555555555''
            ''0x0000000000000000000000000000000000000000000000000000000000000000''))
        ''0x5555555555555555555555555555555555555555'' 121012 10000000000,
       ReceiptConfirmed 13]"
  by (simp add: pipeline_eval encoder_eval)

theorem revocation_only_after_claim_receipt_witness:
  "events (snd (setDataAndTransferOwnershipTransactions_obs example_config example_signer
        (replay ([example_account_event], None)) (replay ([], None)) []
        (replay ([None], None)) (replay ([False], None))
        (replay ([example_keyManager_event], None))
        (Some ''0xdddddddddddddddddddddddddddddddddddddddd'') (fresh_world []))) =
     [GasEstimated
        (SetDataArrays ''0xcccccccccccccccccccccccccccccccccccccccc''
          [''0x0cfc51aec37c55a4d0b1a65c6255c4bf2fbdf6277f3cc0730c45b828b6db8b47'',
           ''0x4b80742de2bf82acb3630000dddddddddddddddddddddddddddddddddddddddd'',
           ''0xdf30dba06db6a30e65354d9a64c609861f089545ca58c6b4dbe31a5f338cb0e3'',
           ''0xdf30dba06db6a30e65354d9a64c6098600000000000000000000000000000000'',
           ''0x4b80742de2bf82acb36300005555555555555555555555555555555555555555'']
          [Some ''0xdddddddddddddddddddddddddddddddddddddddd'',
           Some
            ''0x0000000000000000000000000000000000000000000000000000000000000400'',
           Some
            ''0x0000000000000000000000000000000000000000000000000000000000000001'',
           Some ''0xdddddddddddddddddddddddddddddddddddddddd'',
           Some
            ''0x0000000000000000000000000000000000000000000000000000000000000003''])
        None,
       GasEstimated
        (TransferOwnership ''0xcccccccccccccccccccccccccccccccccccccccc''
          ''0xbbbbbbbbbbbbbbbbbbbbbbbbbbbbbbbbbbbbbbbb'')
        (Some ''0x5555555555555555555555555555555555555555''),
       TransactionSent
        (SetDataArrays ''0xcccccccccccccccccccccccccccccccccccccccc''
          [''0x0cfc51aec37c55a4d0b1a65c6255c4bf2fbdf6277f3cc0730c45b828b6db8b47'',
           ''0x4b80742de2bf82acb3630000dddddddddddddddddddddddddddddddddddddddd'',
           ''0xdf30dba06db6a30e65354d9a64c609861f089545ca58c6b4dbe31a5f338cb0e3'',
           ''0xdf30dba06db6a30e65354d9a64c6098600000000000000000000000000000000'',
           ''0x4b80742de2bf82acb36300005555555555555555555555555555555555555555'']
          [Some ''0xdddddddddddddddddddddddddddddddddddddddd'',
           Some
            ''0x0000000000000000000000000000000000000000000000000000000000000400'',
           Some
            ''0x0000000000000000000000000000000000000000000000000000000000000001'',
           Some ''0xdddddddddddddddddddddddddddddddddddddddd'',
           Some
            ''0x0000000000000000000000000000000000000000000000000000000000000003''])
        ''0x5555555555555555555555555555555555555555'' 121000 10000000000,
       TransactionSent
        (TransferOwnership ''0xcccccccccccccccccccccccccccccccccccccccc''
          ''0xbbbbbbbbbbbbbbbbbbbbbbbbbbbbbbbbbbbbbbbb'')
        ''0x5555555555555555555555555555555555555555'' 121001 10000000000,
       ReceiptConfirmed 2, ReceiptConfirmed 3, ReceiptConfirmed 2,
       ReceiptConfirmed 3,
       GasEstimated
        (Execute ''0xbbbbbbbbbbbbbbbbbbbbbbbbbbbbbbbbbbbbbbbb''
          ClaimOwnershipSighash)
        (Some ''0x5555555555555555555555555555555555555555''),
       TransactionSent
        (Execute ''0xbbbbbbbbbbbbbbbbbbbbbbbbbbbbbbbbbbbbbbbb''
          ClaimOwnershipSighash)
        ''0x5555555555555555555555555555555555555555'' 121008 10000000000,
       ReceiptConfirmed 9, ReceiptConfirmed 9,
       GasEstimated
        (Execute ''0xbbbbbbbbbbbbbbbbbbbbbbbbbbbbbbbbbbbbbbbb''
          (SetDataCalldata
            ''0x4b80742de2bf82acb36300005555555555555555555555555555555555555555''
            ''0x0000000000000000000000000000000000000000000000000000000000000000''))
        (Some ''0x5555555555555555555555555555555555555555''),
       TransactionSent
        (Execute ''0xbbbbbbbbbbbbbbbbbbbbbbbbbbbbbbbbbbbbbbbb''
          (SetDataCalldata
            ''0x4b80742de2bf82acb36300005555555555555555555555555555555555555555''
            ''0x0000000000000000000000000000000000000000000000000000000000000000''))
        ''0x5555555555555555555555555555555555555555'' 121012 10000000000,
       ReceiptConfirmed 13]
   \<and> revocation_after_claim_receipt (events (snd (setDataAndTransferOwnershipTransactions_obs example_config example_signer
        (replay ([example_account_event], None)) (replay ([], None)) []
        (replay ([None], None)) (replay ([False], None))
        (replay ([example_keyManager_event], None))
        (Some ''0xdddddddddddddddddddddddddddddddddddddddd'') (fresh_world []))))"
  using revocation_only_after_claim_receipt
    [where cfg = example_config and signer = example_signer
       and account = "([example_account_event], None)"
       and universalReceiver = "([], None)" and controllers = "[]"
       and lsp3ProfileData = "([None], None)"
       and isSignerUniversalProfile = "([False], None)"
       and keyManagerDeployment = "([example_keyManager_event], None)"
       and defaultDelegate = "Some ''0xdddddddddddddddddddddddddddddddddddddddd''"]
  by (simp only: example_handoff_run simp_thms)

section \<open>Properties of the account deployment\<close>

lemmas deployment_eval =
  accountDeploymentWithBaseContractAddress_obs_def initializeProxy_def initialize_def
  deployLSP3Account_def deployProxyContract_def deployContract_def deploymentFunction_def
  factory_deploy_def waitForReceipt_def EMPTY_def
  shareReplay_def switchMap_def takeLast1_def
  from_action_def fresh_world_def
  then_do_def return_value_def reject_def signer_getAddress_def estimateGas_def
  sendTransaction_def wait_for_transaction_def

lemma direct_deployment_events:
  assumes "\<not> truthy base"
  shows "events (snd (accountDeploymentWithBaseContractAddress_obs cfg signer base bytecode
           (fresh_world log)))
    = log @
      (case getAddress signer of
         Inl e \<Rightarrow> []
       | Inr s \<Rightarrow>
           DeploymentSent
             (case bytecode of Some (b # bs) \<Rightarrow> CustomBytecode (b # bs)
                             | _ \<Rightarrow> UniversalProfileBytecode) [s] #
           (case sendResult signer (log @ [DeploymentSent
                   (case bytecode of Some (b # bs) \<Rightarrow> CustomBytecode (b # bs)
                                   | _ \<Rightarrow> UniversalProfileBytecode) [s]]) of
              Some e \<Rightarrow> []
            | None \<Rightarrow>
                (case waitResult signer (log @ [DeploymentSent
                   (case bytecode of Some (b # bs) \<Rightarrow> CustomBytecode (b # bs)
                                   | _ \<Rightarrow> UniversalProfileBytecode) [s]]) (length log) of
                   Inl e \<Rightarrow> []
                 | Inr r \<Rightarrow> [ReceiptConfirmed (length log)])))"
  using assms
  by (cases base; cases bytecode)
     (auto simp: deployment_eval Let_def split: list.splits sum.splits option.splits)

lemma direct_deployment_complete:
  assumes "\<not> truthy base"
    and "snd (fst (accountDeploymentWithBaseContractAddress_obs cfg signer base bytecode
           (fresh_world log))) = None"
  shows "\<exists>s. getAddress signer = Inr s
    \<and> events (snd (accountDeploymentWithBaseContractAddress_obs cfg signer base bytecode
           (fresh_world log)))
      = log @ [DeploymentSent
             (case bytecode of Some (b # bs) \<Rightarrow> CustomBytecode (b # bs)
                             | _ \<Rightarrow> UniversalProfileBytecode) [s],
               ReceiptConfirmed (length log)]"
  using assms
  by (cases base; cases bytecode)
     (auto simp: deployment_eval Let_def split: list.splits sum.splits option.splits)


lemma proxy_deployment_events:
  "\<exists>delta. events (snd (accountDeploymentWithBaseContractAddress_obs cfg signer
           (Some (c # cs)) bytecode (fresh_world log))) = log @ delta
     \<and> list_all (\<lambda>e. \<forall>code args. e = DeploymentSent code args
            \<longrightarrow> code = CustomBytecode (getProxyByteCode cfg (c # cs))) delta"
  by (auto simp: deployment_eval Let_def split: list.splits sum.splits option.splits)

lemma proxy_deployment_complete:
  assumes "snd (fst (accountDeploymentWithBaseContractAddress_obs cfg signer
           (Some (c # cs)) bytecode (fresh_world log))) = None"
  shows "\<exists>s proxy g. getAddress signer = Inr s
    \<and> events (snd (accountDeploymentWithBaseContractAddress_obs cfg signer
           (Some (c # cs)) bytecode (fresh_world log)))
      = log @
        [DeploymentSent (CustomBytecode (getProxyByteCode cfg (c # cs))) [s],
         ReceiptConfirmed (length log),
         GasEstimated (InitializeCall proxy ''initialize(address)'' [s]) None,
         TransactionSent (InitializeCall proxy ''initialize(address)'' [s]) s
           (g + GAS_BUFFER cfg) (GAS_PRICE cfg),
         ReceiptConfirmed (length log + 3)]"
  using assms
  by (auto simp: deployment_eval Let_def split: list.splits sum.splits option.splits)


text \<open>
  C8: account creation has two modes. With a base contract address the only contract
  created is a proxy whose creation code is \<open>getProxyByteCode\<close> of that address, and a
  run that completes has created it, seen its receipt, and then estimated, submitted and
  confirmed the call \<^verbatim>\<open>initialize(address)\<close> with the signer's address. Without a base
  contract address the contract is created from the given bytecode, or from the factory's
  own, with the signer's address as constructor argument, and no initialisation call is
  made, whatever the outcome.
\<close>

theorem account_creation_modes:
  "(\<exists>delta. events (snd (accountDeploymentWithBaseContractAddress_obs cfg signer
           (Some (c # cs)) bytecode (fresh_world log))) = log @ delta
      \<and> list_all (\<lambda>e. \<forall>code args. e = DeploymentSent code args
            \<longrightarrow> code = CustomBytecode (getProxyByteCode cfg (c # cs))) delta
      \<and> (snd (fst (accountDeploymentWithBaseContractAddress_obs cfg signer
           (Some (c # cs)) bytecode (fresh_world log))) = None
         \<longrightarrow> (\<exists>s proxy g. getAddress signer = Inr s
             \<and> delta =
                 [DeploymentSent (CustomBytecode (getProxyByteCode cfg (c # cs))) [s],
                  ReceiptConfirmed (length log),
                  GasEstimated (InitializeCall proxy ''initialize(address)'' [s]) None,
                  TransactionSent (InitializeCall proxy ''initialize(address)'' [s]) s
                    (g + GAS_BUFFER cfg) (GAS_PRICE cfg),
                  ReceiptConfirmed (length log + 3)])))
   \<and> (\<not> truthy base \<longrightarrow>
       (\<exists>delta. events (snd (accountDeploymentWithBaseContractAddress_obs cfg signer
           base bytecode (fresh_world log))) = log @ delta
      \<and> list_all (\<lambda>e. \<not> is_initialize_call e) delta
      \<and> list_all (\<lambda>e. \<forall>code args. e = DeploymentSent code args
            \<longrightarrow> code = (case bytecode of Some (b # bs) \<Rightarrow> CustomBytecode (b # bs)
                                      | _ \<Rightarrow> UniversalProfileBytecode)) delta
      \<and> (snd (fst (accountDeploymentWithBaseContractAddress_obs cfg signer
           base bytecode (fresh_world log))) = None
         \<longrightarrow> (\<exists>s. getAddress signer = Inr s
             \<and> delta =
                 [DeploymentSent
                    (case bytecode of Some (b # bs) \<Rightarrow> CustomBytecode (b # bs)
                                    | _ \<Rightarrow> UniversalProfileBytecode) [s],
                  ReceiptConfirmed (length log)]))))"
proof (intro conjI impI)
  from proxy_deployment_events [of cfg signer c cs bytecode log]
  obtain delta where d: "events (snd (accountDeploymentWithBaseContractAddress_obs cfg signer
           (Some (c # cs)) bytecode (fresh_world log))) = log @ delta"
    and codes: "list_all (\<lambda>e. \<forall>code args. e = DeploymentSent code args
            \<longrightarrow> code = CustomBytecode (getProxyByteCode cfg (c # cs))) delta"
    by blast
  have h: "snd (fst (accountDeploymentWithBaseContractAddress_obs cfg signer
           (Some (c # cs)) bytecode (fresh_world log))) = None
         \<longrightarrow> (\<exists>s proxy g. getAddress signer = Inr s
             \<and> delta =
                 [DeploymentSent (CustomBytecode (getProxyByteCode cfg (c # cs))) [s],
                  ReceiptConfirmed (length log),
                  GasEstimated (InitializeCall proxy ''initialize(address)'' [s]) None,
                  TransactionSent (InitializeCall proxy ''initialize(address)'' [s]) s
                    (g + GAS_BUFFER cfg) (GAS_PRICE cfg),
                  ReceiptConfirmed (length log + 3)])"
    using proxy_deployment_complete [of cfg signer c cs bytecode log] d by auto
  show "\<exists>delta. events (snd (accountDeploymentWithBaseContractAddress_obs cfg
           signer (Some (c # cs)) bytecode (fresh_world log))) = log @ delta
      \<and> list_all (\<lambda>e. \<forall>code args. e = DeploymentSent code args
            \<longrightarrow> code = CustomBytecode (getProxyByteCode cfg (c # cs))) delta
      \<and> (snd (fst (accountDeploymentWithBaseContractAddress_obs cfg signer
           (Some (c # cs)) bytecode (fresh_world log))) = None
         \<longrightarrow> (\<exists>s proxy g. getAddress signer = Inr s
             \<and> delta =
                 [DeploymentSent (CustomBytecode (getProxyByteCode cfg (c # cs))) [s],
                  ReceiptConfirmed (length log),
                  GasEstimated (InitializeCall proxy ''initialize(address)'' [s]) None,
                  TransactionSent (InitializeCall proxy ''initialize(address)'' [s]) s
                    (g + GAS_BUFFER cfg) (GAS_PRICE cfg),
                  ReceiptConfirmed (length log + 3)]))"
    by (rule exI [of _ delta]) (intro conjI d codes h)
next
  assume base: "\<not> truthy base"
  let ?code = "case bytecode of Some (b # bs) \<Rightarrow> CustomBytecode (b # bs)
                              | _ \<Rightarrow> UniversalProfileBytecode"
  let ?run = "accountDeploymentWithBaseContractAddress_obs cfg signer base bytecode
                (fresh_world log)"
  define delta where "delta = drop (length log) (events (snd ?run))"
  have d: "events (snd ?run) = log @ delta"
    unfolding delta_def direct_deployment_events [OF base] by simp
  have quiet: "list_all (\<lambda>e. \<not> is_initialize_call e) delta"
    unfolding delta_def direct_deployment_events [OF base]
    by (auto split: sum.splits option.splits)
  have codes: "list_all (\<lambda>e. \<forall>code args. e = DeploymentSent code args
            \<longrightarrow> code = ?code) delta"
    unfolding delta_def direct_deployment_events [OF base]
    by (auto split: sum.splits option.splits)
  have h: "snd (fst ?run) = None \<longrightarrow> (\<exists>s. getAddress signer = Inr s
             \<and> delta = [DeploymentSent ?code [s], ReceiptConfirmed (length log)])"
    using direct_deployment_complete [OF base, of cfg signer bytecode log] d by auto
  show "\<exists>delta. events (snd ?run) = log @ delta
      \<and> list_all (\<lambda>e. \<not> is_initialize_call e) delta
      \<and> list_all (\<lambda>e. \<forall>code args. e = DeploymentSent code args
            \<longrightarrow> code = ?code) delta
      \<and> (snd (fst ?run) = None
         \<longrightarrow> (\<exists>s. getAddress signer = Inr s
             \<and> delta = [DeploymentSent ?code [s], ReceiptConfirmed (length log)]))"
    by (rule exI [of _ delta]) (intro conjI d quiet codes h)
qed

lemmas deployment_example_eval =
  deployment_eval example_signer_def example_config_def example_receipt_def Let_def

lemma example_proxy_run:
  "snd (fst (accountDeploymentWithBaseContractAddress_obs example_config example_signer
        (Some ''0x9999999999999999999999999999999999999999'') None (fresh_world []))) = None
   \<and> events (snd (accountDeploymentWithBaseContractAddress_obs example_config example_signer
        (Some ''0x9999999999999999999999999999999999999999'') None (fresh_world []))) =
     [DeploymentSent
        (CustomBytecode
           ''0x3d602d80600a3d3981f3363d3d373d3d3d363d7399999999999999999999999999999999999999995af43d82803e903d91602b57fd5bf3'')
        [''0x5555555555555555555555555555555555555555''],
      ReceiptConfirmed 0,
      GasEstimated
        (InitializeCall ''0xcccccccccccccccccccccccccccccccccccccccc''
           ''initialize(address)'' [''0x5555555555555555555555555555555555555555''])
        None,
      TransactionSent
        (InitializeCall ''0xcccccccccccccccccccccccccccccccccccccccc''
           ''initialize(address)'' [''0x5555555555555555555555555555555555555555''])
        ''0x5555555555555555555555555555555555555555'' 121002 10000000000,
      ReceiptConfirmed 3]"
  by (simp add: deployment_example_eval)

lemma example_direct_run:
  "snd (fst (accountDeploymentWithBaseContractAddress_obs example_config example_signer
        None (Some ''0x6080'') (fresh_world []))) = None
   \<and> events (snd (accountDeploymentWithBaseContractAddress_obs example_config example_signer
        None (Some ''0x6080'') (fresh_world []))) =
     [DeploymentSent (CustomBytecode ''0x6080'')
        [''0x5555555555555555555555555555555555555555''],
      ReceiptConfirmed 0]"
  by (simp add: deployment_example_eval)

theorem account_creation_modes_witness:
  "snd (fst (accountDeploymentWithBaseContractAddress_obs example_config example_signer
        (Some ''0x9999999999999999999999999999999999999999'') None (fresh_world []))) = None
   \<and> events (snd (accountDeploymentWithBaseContractAddress_obs example_config example_signer
        (Some ''0x9999999999999999999999999999999999999999'') None (fresh_world []))) =
     [DeploymentSent
        (CustomBytecode
           ''0x3d602d80600a3d3981f3363d3d373d3d3d363d7399999999999999999999999999999999999999995af43d82803e903d91602b57fd5bf3'')
        [''0x5555555555555555555555555555555555555555''],
      ReceiptConfirmed 0,
      GasEstimated
        (InitializeCall ''0xcccccccccccccccccccccccccccccccccccccccc''
           ''initialize(address)'' [''0x5555555555555555555555555555555555555555''])
        None,
      TransactionSent
        (InitializeCall ''0xcccccccccccccccccccccccccccccccccccccccc''
           ''initialize(address)'' [''0x5555555555555555555555555555555555555555''])
        ''0x5555555555555555555555555555555555555555'' 121002 10000000000,
      ReceiptConfirmed 3]
   \<and> \<not> truthy None
   \<and> snd (fst (accountDeploymentWithBaseContractAddress_obs example_config example_signer
        None (Some ''0x6080'') (fresh_world []))) = None
   \<and> events (snd (accountDeploymentWithBaseContractAddress_obs example_config example_signer
        None (Some ''0x6080'') (fresh_world []))) =
     [DeploymentSent (CustomBytecode ''0x6080'')
        [''0x5555555555555555555555555555555555555555''],
      ReceiptConfirmed 0]
   \<and> list_all (\<lambda>e. \<not> is_initialize_call e)
       (events (snd (accountDeploymentWithBaseContractAddress_obs example_config example_signer
        None (Some ''0x6080'') (fresh_world []))))"
  using account_creation_modes
    [where cfg = example_config and signer = example_signer
       and c = "CHR ''0''" and cs = "''x9999999999999999999999999999999999999999''"
       and bytecode = "Some ''0x6080''" and base = None and log = "[]"]
  by (simp add: example_proxy_run example_direct_run)

end
